theory Spec2Isabelle
  imports Main
begin

section \<open>Values of the host language\<close>

text \<open>
  The worker is written against \<^verbatim>\<open>any\<close>: requests, tool arguments, parsed markup and
  cached payloads are all untyped JSON-like values.  They are modelled by one datatype.
  Numbers are restricted to integer values (the program never computes with a number, it
  only tests, prints or forwards it); an object is the association list of its own
  properties, looked up with \<open>map_of\<close>.
\<close>

datatype json =
    JUndefined
  | JNull
  | JBool bool
  | JNum int
  | JStr string
  | JArr "json list"
  | JObj "(string \<times> json) list"

text \<open>Values that can be thrown: instances of \<^verbatim>\<open>Error\<close> (with their message) and anything else.\<close>

datatype thrown =
    Error string
  | TypeError string
  | NonError json

type_synonym 'a result = "thrown + 'a"

fun truthy :: "json \<Rightarrow> bool" where
  "truthy JUndefined = False"
| "truthy JNull = False"
| "truthy (JBool b) = b"
| "truthy (JNum n) = (n \<noteq> 0)"
| "truthy (JStr s) = (s \<noteq> [])"
| "truthy (JArr xs) = True"
| "truthy (JObj kvs) = True"

fun nullish :: "json \<Rightarrow> bool" where
  "nullish JUndefined = True"
| "nullish JNull = True"
| "nullish v = False"

text \<open>
  Property read \<^verbatim>\<open>v.k\<close> for the property names the worker uses (none of them is a
  built-in property of strings, numbers, booleans or arrays): a \<^verbatim>\<open>TypeError\<close> on
  \<^verbatim>\<open>null\<close> and \<^verbatim>\<open>undefined\<close>, the stored value on an object that has the key, and
  \<^verbatim>\<open>undefined\<close> otherwise.
\<close>

fun get_prop :: "json \<Rightarrow> string \<Rightarrow> json result" where
  "get_prop JUndefined k = Inl (TypeError (''Cannot read properties of undefined (reading '' @ k @ '')''))"
| "get_prop JNull k = Inl (TypeError (''Cannot read properties of null (reading '' @ k @ '')''))"
| "get_prop (JObj kvs) k = Inr (case map_of kvs k of None \<Rightarrow> JUndefined | Some v \<Rightarrow> v)"
| "get_prop v k = Inr JUndefined"

text \<open>Optional chaining \<^verbatim>\<open>v?.k\<close>: \<^verbatim>\<open>undefined\<close> on a nullish receiver, never an error.\<close>

fun opt_prop :: "json \<Rightarrow> string \<Rightarrow> json" where
  "opt_prop (JObj kvs) k = (case map_of kvs k of None \<Rightarrow> JUndefined | Some v \<Rightarrow> v)"
| "opt_prop v k = JUndefined"

text \<open>Optional element read \<^verbatim>\<open>v?.[0]\<close>.\<close>

fun opt_first :: "json \<Rightarrow> json" where
  "opt_first (JArr (x # xs)) = x"
| "opt_first (JStr (c # cs)) = JStr [c]"
| "opt_first (JObj kvs) = (case map_of kvs ''0'' of None \<Rightarrow> JUndefined | Some v \<Rightarrow> v)"
| "opt_first v = JUndefined"

text \<open>\<^verbatim>\<open>Array.isArray(v) ? v : [v]\<close>\<close>

fun as_array :: "json \<Rightarrow> json list" where
  "as_array (JArr xs) = xs"
| "as_array v = [v]"

text \<open>\<^verbatim>\<open>a || b\<close>\<close>

definition or_else :: "json \<Rightarrow> json \<Rightarrow> json" where
  "or_else a b = (if truthy a then a else b)"

subsection \<open>Strings\<close>

text \<open>
  A string is a list of code units; the model has the code units below 256, read as
  Latin-1.  White space, as \<^verbatim>\<open>trim\<close> strips it, is in that range the tab, the line feed, the
  vertical tab, the form feed, the carriage return, the space and the no-break space.
\<close>

definition is_space :: "char \<Rightarrow> bool" where
  "is_space c =
     (c \<in> set [CHR 0x09, CHR 0x0A, CHR 0x0B, CHR 0x0C, CHR 0x0D, CHR 0x20, CHR 0xA0])"

definition trim :: "string \<Rightarrow> string" where
  "trim s = rev (dropWhile is_space (rev (dropWhile is_space s)))"

text \<open>The decimal digits of a natural number.\<close>

function show_nat :: "nat \<Rightarrow> string" where
  "show_nat n =
     (if n < 10 then [''0123456789'' ! n]
      else show_nat (n div 10) @ [''0123456789'' ! (n mod 10)])"
  by pat_completeness auto
termination
  by (relation "measure id") auto

declare show_nat.simps [simp del]

text \<open>
  A number is a double.  \<open>JNum n\<close> stands for the double nearest to \<open>n\<close> (ties to the even
  significand), which is \<open>n\<close> itself below \<open>2^53\<close>; \<open>number_value\<close> is its magnitude.
\<close>

function bit_length :: "nat \<Rightarrow> nat" where
  "bit_length n = (if n = 0 then 0 else Suc (bit_length (n div 2)))"
  by pat_completeness auto
termination
  by (relation "measure id") auto

declare bit_length.simps [simp del]

definition number_value :: "nat \<Rightarrow> nat" where
  "number_value n =
     (if n < 9007199254740992 then n
      else
        (let shift = bit_length n - 53;
             q = n div 2 ^ shift;
             r = n mod 2 ^ shift;
             half = 2 ^ (shift - 1)
         in (if half < r \<or> (r = half \<and> odd q) then q + 1 else q) * 2 ^ shift))"

text \<open>
  The string of a number: its shortest decimal digits that read back as the same double,
  \<open>k\<close> of them.  Below \<open>2^53\<close> they are the digits of the integer.  From there on the
  candidates with \<open>k\<close> digits are the two neighbours of the value; the nearer one that reads
  back is taken, the even one on a tie.  Up to 21 integer digits the digits are padded
  with zeros, above that the exponent form is used.
\<close>

definition digit_candidates :: "nat \<Rightarrow> nat \<Rightarrow> nat \<Rightarrow> nat list" where
  "digit_candidates v e k =
     (let p = 10 ^ (Suc e - k);
          lo = v div p;
          hi = Suc lo;
          lo_ok = (number_value (lo * p) = v);
          hi_ok = (number_value (hi * p) = v)
      in if lo_ok \<and> hi_ok then
           (if v - lo * p < hi * p - v \<or> (v - lo * p = hi * p - v \<and> even lo) then [lo]
            else [hi])
         else if lo_ok then [lo]
         else if hi_ok then [hi]
         else [])"

fun shortest_digits :: "nat \<Rightarrow> nat \<Rightarrow> nat \<Rightarrow> nat \<Rightarrow> nat \<times> nat" where
  "shortest_digits 0 v e k = (v, Suc e)"
| "shortest_digits (Suc fuel) v e k =
     (case digit_candidates v e k of
        s # rest \<Rightarrow> (s, k)
      | [] \<Rightarrow> shortest_digits fuel v e (Suc k))"

definition long_form :: "nat \<Rightarrow> string" where
  "long_form v =
     (let e = length (show_nat v) - 1;
          (s, k) = shortest_digits 17 v e 1;
          digits = (if s = 10 ^ k then ''1'' else show_nat s);
          n = (if s = 10 ^ k then e + 2 else e + 1)
      in if n \<le> 21 then digits @ replicate (n - length digits) (CHR ''0'')
         else hd digits # (if tl digits = [] then [] else CHR ''.'' # tl digits)
                @ ''e+'' @ show_nat (n - 1))"

definition show_number :: "int \<Rightarrow> string" where
  "show_number i =
     (let v = number_value (nat \<bar>i\<bar>)
      in (if i < 0 then ''-'' else [])
           @ (if v < 9007199254740992 then show_nat v
              else if 2 ^ 1024 \<le> v then ''Infinity''
              else long_form v))"

fun join_with :: "string \<Rightarrow> string list \<Rightarrow> string" where
  "join_with sep [] = []"
| "join_with sep [x] = x"
| "join_with sep (x # y # ys) = x @ sep @ join_with sep (y # ys)"

definition and_then :: "'a result \<Rightarrow> ('a \<Rightarrow> 'b result) \<Rightarrow> 'b result" where
  "and_then r f = (case r of Inl e \<Rightarrow> Inl e | Inr x \<Rightarrow> f x)"

text \<open>
  String conversion, as a template literal or \<^verbatim>\<open>+=\<close> on a string performs it.  An object
  is converted by its \<^verbatim>\<open>toString\<close>: the inherited one prints \<^verbatim>\<open>[object Object]\<close>, and an
  own property of that name shadows it.  The values here hold no function, so such an
  object has no usable conversion and the conversion raises.  An array prints its
  elements joined by commas, a nullish element as the empty string.
\<close>

definition conversion_error :: thrown where
  "conversion_error = TypeError ''Cannot convert object to primitive value''"

fun js_string :: "json \<Rightarrow> string result"
  and js_elems :: "json list \<Rightarrow> string list result" where
  "js_string JUndefined = Inr ''undefined''"
| "js_string JNull = Inr ''null''"
| "js_string (JBool b) = Inr (if b then ''true'' else ''false'')"
| "js_string (JNum n) = Inr (show_number n)"
| "js_string (JStr s) = Inr s"
| "js_string (JArr xs) =
     (case js_elems xs of Inl e \<Rightarrow> Inl e | Inr ss \<Rightarrow> Inr (join_with '','' ss))"
| "js_string (JObj kvs) =
     (if map_of kvs ''toString'' = None then Inr ''[object Object]'' else Inl conversion_error)"
| "js_elems [] = Inr []"
| "js_elems (x # xs) =
     (case (if nullish x then Inr [] else js_string x) of
        Inl e \<Rightarrow> Inl e
      | Inr s \<Rightarrow> (case js_elems xs of Inl e \<Rightarrow> Inl e | Inr ss \<Rightarrow> Inr (s # ss)))"

text \<open>
  A template literal: its literal chunks and its substitutions, converted from left to
  right.
\<close>

datatype piece = Lit string | Sub json

fun template :: "piece list \<Rightarrow> string result" where
  "template [] = Inr []"
| "template (Lit s # ps) = and_then (template ps) (\<lambda>rest. Inr (s @ rest))"
| "template (Sub v # ps) =
     and_then (js_string v) (\<lambda>s. and_then (template ps) (\<lambda>rest. Inr (s @ rest)))"

section \<open>Markup extractor\<close>

subsection \<open>Text content\<close>

text \<open>
  \<^verbatim>\<open>extractTextContent(node)\<close>.  The loop over the paragraphs is \<open>extractParas\<close>; every
  property read is the fallible \<open>get_prop\<close>.
\<close>

lemma map_of_size:
  "map_of kvs k = Some v \<Longrightarrow> size v < size (JObj kvs)"
  by (induction kvs) (auto split: if_splits)

lemma get_prop_size:
  "get_prop node k = Inr v \<Longrightarrow> v \<noteq> JUndefined \<Longrightarrow> size v < size node"
  by (cases node) (auto split: option.splits dest: map_of_size)

lemma as_array_size:
  "size_list size (as_array v) \<le> Suc (size v)"
  by (cases v) auto

lemma paras_measure:
  "get_prop node k = Inr para \<Longrightarrow> truthy para \<Longrightarrow>
     2 * size_list size (as_array para) < Suc (2 * size node)"
  using get_prop_size [of node k para] as_array_size [of para]
  by (cases "para = JUndefined") auto

function extractTextContent :: "json \<Rightarrow> string result"
  and extractParas :: "json list \<Rightarrow> string result" where
  "extractTextContent node =
     (if \<not> truthy node then Inr ''''
      else case node of
        JStr s \<Rightarrow> Inr s
      | _ \<Rightarrow>
        (case get_prop node ''para'' of
           Inl e \<Rightarrow> Inl e
         | Inr para \<Rightarrow>
           (case (if truthy para then extractParas (as_array para) else Inr '''') of
              Inl e \<Rightarrow> Inl e
            | Inr text1 \<Rightarrow>
              (case get_prop node ''_'' of
                 Inl e \<Rightarrow> Inl e
               | Inr direct \<Rightarrow>
                 (case (if truthy direct then js_string direct else Inr '''') of
                    Inl e \<Rightarrow> Inl e
                  | Inr text2 \<Rightarrow> Inr (trim (text1 @ text2)))))))"
| "extractParas [] = Inr ''''"
| "extractParas (para # paras) =
     (case extractTextContent para of
        Inl e \<Rightarrow> Inl e
      | Inr s \<Rightarrow>
        (case extractParas paras of
           Inl e \<Rightarrow> Inl e
         | Inr rest \<Rightarrow> Inr (s @ [CHR 0x0A, CHR 0x0A] @ rest)))"
  by pat_completeness auto
termination
  apply (relation "measure (\<lambda>x. case x of Inl node \<Rightarrow> 2 * size node + 1
                                        | Inr paras \<Rightarrow> 2 * size_list size paras)")
  apply (auto simp del: get_prop.simps dest: paras_measure)
  done

declare extractTextContent.simps [simp del]

text \<open>The pieces of a tree node the extractor reads, for stating what it returns.\<close>

definition paragraphs :: "json \<Rightarrow> json list" where
  "paragraphs node =
     (if truthy (opt_prop node ''para'') then as_array (opt_prop node ''para'') else [])"

definition direct_text :: "json \<Rightarrow> string result" where
  "direct_text node =
     (if truthy (opt_prop node ''_'') then js_string (opt_prop node ''_'') else Inr '''')"

definition is_string :: "json \<Rightarrow> bool" where
  "is_string v = (case v of JStr s \<Rightarrow> True | _ \<Rightarrow> False)"

definition blank_line :: string where
  "blank_line = [CHR 0x0A, CHR 0x0A]"

text \<open>
  The inputs on which every conversion the extractor performs succeeds: below a tree node,
  the paragraphs are such inputs and the node's own text, when there is one, converts to
  a string.
\<close>

lemma paragraph_size:
  assumes "p \<in> set (paragraphs node)"
  shows "size p < size node"
proof -
  from assms have t: "truthy (opt_prop node ''para'')"
    and p: "p \<in> set (as_array (opt_prop node ''para''))"
    by (auto simp: paragraphs_def split: if_splits)
  from t have "size (opt_prop node ''para'') < size node"
    by (cases node) (auto split: option.splits dest: map_of_size)
  moreover have "size p \<le> size (opt_prop node ''para'')"
  proof (cases "opt_prop node ''para''")
    case (JArr xs)
    with p have "p \<in> set xs" by simp
    then have "size p \<le> size_list size xs"
      by (rule size_list_estimation') simp
    with JArr show ?thesis by simp
  qed (use p in simp_all)
  ultimately show ?thesis by simp
qed

function texts_convert :: "json \<Rightarrow> bool" where
  "texts_convert node =
     (\<not> truthy node \<or> is_string node
      \<or> ((\<forall>p \<in> set (paragraphs node). texts_convert p) \<and> \<not> isl (direct_text node)))"
  by pat_completeness auto
termination
  by (relation "measure size") (auto dest: paragraph_size)

declare texts_convert.simps [simp del]

subsection \<open>Module listing\<close>

text \<open>
  \<^verbatim>\<open>extractModules(collection)\<close>.  The closure \<^verbatim>\<open>traverse\<close> pushes onto one shared
  array and nothing else reads it before the end, so the model returns the references a
  call pushes, in the order it pushes them.  \<open>module_entry\<close> is the body of the loop over
  \<^verbatim>\<open>node.module\<close>: what one module element contributes.
\<close>

definition module_entry :: "json \<Rightarrow> json list result" where
  "module_entry el =
     (case get_prop el ''$'' of
        Inl e \<Rightarrow> Inl e
      | Inr attrs \<Rightarrow>
          if truthy (opt_prop attrs ''document'') then
            (case get_prop attrs ''document'' of
               Inl e \<Rightarrow> Inl e
             | Inr document \<Rightarrow>
               (case get_prop el ''title'' of
                  Inl e \<Rightarrow> Inl e
                | Inr t \<Rightarrow>
                    Inr [JObj [(''id'', document),
                               (''title'', or_else (opt_first t) (JStr ''Untitled''))]]))
          else Inr [])"

fun module_entries :: "json list \<Rightarrow> json list result" where
  "module_entries [] = Inr []"
| "module_entries (el # els) =
     (case module_entry el of
        Inl e \<Rightarrow> Inl e
      | Inr ms \<Rightarrow>
        (case module_entries els of
           Inl e \<Rightarrow> Inl e
         | Inr rest \<Rightarrow> Inr (ms @ rest)))"

function traverse :: "json \<Rightarrow> json list result"
  and traverse_all :: "json list \<Rightarrow> json list result" where
  "traverse node =
     (case get_prop node ''module'' of
        Inl e \<Rightarrow> Inl e
      | Inr m \<Rightarrow>
        (case (if truthy m then module_entries (as_array m) else Inr []) of
           Inl e \<Rightarrow> Inl e
         | Inr ms \<Rightarrow>
           (case get_prop node ''subcollection'' of
              Inl e \<Rightarrow> Inl e
            | Inr sub \<Rightarrow>
              (case (if truthy sub then traverse_all (as_array sub) else Inr []) of
                 Inl e \<Rightarrow> Inl e
               | Inr ss \<Rightarrow> Inr (ms @ ss)))))"
| "traverse_all [] = Inr []"
| "traverse_all (node # nodes) =
     (case traverse node of
        Inl e \<Rightarrow> Inl e
      | Inr ms \<Rightarrow>
        (case traverse_all nodes of
           Inl e \<Rightarrow> Inl e
         | Inr rest \<Rightarrow> Inr (ms @ rest)))"
  by pat_completeness auto
termination
  apply (relation "measure (\<lambda>x. case x of Inl node \<Rightarrow> 2 * size node + 1
                                        | Inr nodes \<Rightarrow> 2 * size_list size nodes)")
  apply (auto simp del: get_prop.simps dest: paras_measure)
  done

declare traverse.simps [simp del]

definition extractModules :: "json \<Rightarrow> json list result" where
  "extractModules collection =
     (case get_prop collection ''content'' of
        Inl e \<Rightarrow> Inl e
      | Inr content \<Rightarrow>
          if truthy content then traverse_all (as_array content) else Inr [])"

subsection \<open>The source document and its parse\<close>

text \<open>
  A collection document, children in document order: a module element with its
  attributes and the texts of its title children, or a subcollection with the texts of its
  title children and its child elements.

  The parser is the external library xml2js, called with its default options.  What the
  extractor relies on is that library's grouping: an element with neither attributes nor
  children parses to its text; any other element parses to an object that holds the
  attributes under \<^verbatim>\<open>$\<close> and, for every child tag, the array of the children with that
  tag, in document order.  \<open>parsed\<close> writes that view out for the three tags a collection
  uses.
\<close>

datatype cnode =
    ModuleEl "(string \<times> string) list" "string list"
  | SubcollectionEl "string list" "cnode list"

fun is_module :: "cnode \<Rightarrow> bool" where
  "is_module (ModuleEl attrs titles) = True"
| "is_module (SubcollectionEl titles children) = False"

definition element_object :: "(string \<times> json) list \<Rightarrow> json" where
  "element_object kvs = (if kvs = [] then JStr '''' else JObj kvs)"

definition child_group :: "string \<Rightarrow> json list \<Rightarrow> (string \<times> json) list" where
  "child_group tag xs = (if xs = [] then [] else [(tag, JArr xs)])"

fun parsed :: "cnode \<Rightarrow> json" where
  "parsed (ModuleEl attrs titles) =
     element_object
       ((if attrs = [] then [] else [(''$'', JObj (map (\<lambda>(k, v). (k, JStr v)) attrs))])
        @ child_group ''title'' (map JStr titles))"
| "parsed (SubcollectionEl titles children) =
     element_object
       (child_group ''title'' (map JStr titles)
        @ child_group ''module'' (map parsed (filter is_module children))
        @ child_group ''subcollection'' (map parsed (filter (\<lambda>c. \<not> is_module c) children)))"

text \<open>A content element holds child elements like a subcollection does, without a title.\<close>

definition parsed_content :: "cnode list \<Rightarrow> json" where
  "parsed_content children = parsed (SubcollectionEl [] children)"

text \<open>The collection element: its title children and its content children.\<close>

definition parsed_collection :: "string list \<Rightarrow> cnode list list \<Rightarrow> json" where
  "parsed_collection titles contents =
     element_object
       (child_group ''title'' (map JStr titles)
        @ child_group ''content'' (map parsed_content contents))"

text \<open>
  Document order, following the specification's words: the module references of a tree,
  depth first, children left to right.  A module element gives a reference when it has a
  non-empty document attribute; the title is its first title child, or the sentinel.
\<close>

definition module_ref :: "(string \<times> string) list \<Rightarrow> string list \<Rightarrow> json list" where
  "module_ref attrs titles =
     (case map_of attrs ''document'' of
        None \<Rightarrow> []
      | Some d \<Rightarrow>
          if d = [] then []
          else [JObj [(''id'', JStr d),
                      (''title'', JStr (if titles = [] \<or> hd titles = [] then ''Untitled''
                                        else hd titles))]])"

fun document_order :: "cnode \<Rightarrow> json list" where
  "document_order (ModuleEl attrs titles) = module_ref attrs titles"
| "document_order (SubcollectionEl titles children) = concat (map document_order children)"

text \<open>The order the extractor produces: at each node the modules first, then the subcollections.\<close>

fun grouped_order :: "cnode \<Rightarrow> json list" where
  "grouped_order (ModuleEl attrs titles) = module_ref attrs titles"
| "grouped_order (SubcollectionEl titles children) =
     concat (map grouped_order (filter is_module children))
     @ concat (map grouped_order (filter (\<lambda>c. \<not> is_module c) children))"

text \<open>No module element follows a subcollection among the children of one element.\<close>

fun modules_lead :: "cnode list \<Rightarrow> bool" where
  "modules_lead [] = True"
| "modules_lead (c # cs) =
     (if is_module c then modules_lead cs else (\<forall>x \<in> set cs. \<not> is_module x))"

fun modules_first :: "cnode \<Rightarrow> bool" where
  "modules_first (ModuleEl attrs titles) = True"
| "modules_first (SubcollectionEl titles children) =
     (modules_lead children \<and> (\<forall>c \<in> set children. modules_first c))"

text \<open>A value without \<^verbatim>\<open>null\<close> or \<^verbatim>\<open>undefined\<close> inside, as every parse of a document is.\<close>

fun null_free :: "json \<Rightarrow> bool"
  and null_free_list :: "json list \<Rightarrow> bool"
  and null_free_fields :: "(string \<times> json) list \<Rightarrow> bool" where
  "null_free JUndefined = False"
| "null_free JNull = False"
| "null_free (JBool b) = True"
| "null_free (JNum n) = True"
| "null_free (JStr s) = True"
| "null_free (JArr xs) = null_free_list xs"
| "null_free (JObj kvs) = null_free_fields kvs"
| "null_free_list [] = True"
| "null_free_list (x # xs) = (null_free x \<and> null_free_list xs)"
| "null_free_fields [] = True"
| "null_free_fields (kv # kvs) = (null_free (snd kv) \<and> null_free_fields kvs)"

text \<open>A module reference with a present, non-empty id and title.\<close>

definition valid_ref :: "json \<Rightarrow> bool" where
  "valid_ref m = (truthy (opt_prop m ''id'') \<and> truthy (opt_prop m ''title''))"

section \<open>Strings of the host language\<close>

definition starts_with :: "string \<Rightarrow> string \<Rightarrow> bool" where
  "starts_with s p = (take (length p) s = p)"

definition ends_with :: "string \<Rightarrow> string \<Rightarrow> bool" where
  "ends_with s p = (length p \<le> length s \<and> drop (length s - length p) s = p)"

text \<open>\<^verbatim>\<open>s.includes(t)\<close>\<close>

fun str_includes :: "string \<Rightarrow> string \<Rightarrow> bool" where
  "str_includes [] t = (t = [])"
| "str_includes (c # cs) t = (starts_with (c # cs) t \<or> str_includes cs t)"

text \<open>\<^verbatim>\<open>s.replace(pat, rep)\<close> with a string pattern: the first occurrence only.\<close>

fun replace_first :: "string \<Rightarrow> string \<Rightarrow> string \<Rightarrow> string" where
  "replace_first [] pat rep = (if pat = [] then rep else [])"
| "replace_first (c # cs) pat rep =
     (if starts_with (c # cs) pat then rep @ drop (length pat) (c # cs)
      else c # replace_first cs pat rep)"

text \<open>\<^verbatim>\<open>s.replace(/-/g, ' ')\<close>\<close>

definition dashes_to_spaces :: "string \<Rightarrow> string" where
  "dashes_to_spaces s = map (\<lambda>c. if c = CHR ''-'' then CHR '' '' else c) s"

text \<open>\<^verbatim>\<open>s.replace(/pat/g, '')\<close> for a literal pattern: every occurrence, left to right.\<close>

function remove_all :: "string \<Rightarrow> string \<Rightarrow> string" where
  "remove_all pat s =
     (if s = [] then []
      else if pat \<noteq> [] \<and> starts_with s pat then remove_all pat (drop (length pat) s)
      else hd s # remove_all pat (tl s))"
  by pat_completeness auto
termination
  by (relation "measure (\<lambda>(pat, s). length s)") auto

declare remove_all.simps [simp del]

text \<open>
  \<^verbatim>\<open>s.toLowerCase()\<close>: the letters \<open>A\<close> to \<open>Z\<close> and the capital letters of Latin-1
  (\<open>0xC0\<close> to \<open>0xDE\<close> without the multiplication sign \<open>0xD7\<close>) have a lower-case
  partner, 32 code units above.
\<close>

definition upper_case :: string where
  "upper_case =
     ''ABCDEFGHIJKLMNOPQRSTUVWXYZ''
     @ [CHR 0xC0, CHR 0xC1, CHR 0xC2, CHR 0xC3, CHR 0xC4, CHR 0xC5, CHR 0xC6, CHR 0xC7,
        CHR 0xC8, CHR 0xC9, CHR 0xCA, CHR 0xCB, CHR 0xCC, CHR 0xCD, CHR 0xCE, CHR 0xCF,
        CHR 0xD0, CHR 0xD1, CHR 0xD2, CHR 0xD3, CHR 0xD4, CHR 0xD5, CHR 0xD6,
        CHR 0xD8, CHR 0xD9, CHR 0xDA, CHR 0xDB, CHR 0xDC, CHR 0xDD, CHR 0xDE]"

definition lower_case :: string where
  "lower_case =
     ''abcdefghijklmnopqrstuvwxyz''
     @ [CHR 0xE0, CHR 0xE1, CHR 0xE2, CHR 0xE3, CHR 0xE4, CHR 0xE5, CHR 0xE6, CHR 0xE7,
        CHR 0xE8, CHR 0xE9, CHR 0xEA, CHR 0xEB, CHR 0xEC, CHR 0xED, CHR 0xEE, CHR 0xEF,
        CHR 0xF0, CHR 0xF1, CHR 0xF2, CHR 0xF3, CHR 0xF4, CHR 0xF5, CHR 0xF6,
        CHR 0xF8, CHR 0xF9, CHR 0xFA, CHR 0xFB, CHR 0xFC, CHR 0xFD, CHR 0xFE]"

definition lower_char :: "char \<Rightarrow> char" where
  "lower_char c =
     (case map_of (zip upper_case lower_case) c of
        Some l \<Rightarrow> l
      | None \<Rightarrow> c)"

definition toLowerCase :: "string \<Rightarrow> string" where
  "toLowerCase s = map lower_char s"

text \<open>The receiver of a string method: anything but a string raises.\<close>

fun string_receiver :: "json \<Rightarrow> string \<Rightarrow> string result" where
  "string_receiver (JStr s) method = Inr s"
| "string_receiver JUndefined method =
     Inl (TypeError (''Cannot read properties of undefined (reading '' @ method @ '')''))"
| "string_receiver JNull method =
     Inl (TypeError (''Cannot read properties of null (reading '' @ method @ '')''))"
| "string_receiver v method = Inl (TypeError (method @ '' is not a function''))"

text \<open>The receiver of an array method (\<^verbatim>\<open>filter\<close>, \<^verbatim>\<open>find\<close>, \<^verbatim>\<open>map\<close>).\<close>

fun array_receiver :: "json \<Rightarrow> string \<Rightarrow> json list result" where
  "array_receiver (JArr xs) method = Inr xs"
| "array_receiver JUndefined method =
     Inl (TypeError (''Cannot read properties of undefined (reading '' @ method @ '')''))"
| "array_receiver JNull method =
     Inl (TypeError (''Cannot read properties of null (reading '' @ method @ '')''))"
| "array_receiver v method = Inl (TypeError (method @ '' is not a function''))"

text \<open>
  \<^verbatim>\<open>v?.slice(0, n)\<close> for a literal \<open>n\<close>: \<^verbatim>\<open>undefined\<close> on a nullish receiver, a prefix of
  a string or an array, an error on anything else.
\<close>

fun opt_slice :: "json \<Rightarrow> nat \<Rightarrow> json result" where
  "opt_slice JUndefined n = Inr JUndefined"
| "opt_slice JNull n = Inr JUndefined"
| "opt_slice (JStr s) n = Inr (JStr (take n s))"
| "opt_slice (JArr xs) n = Inr (JArr (take n xs))"
| "opt_slice v n = Inl (TypeError ''slice is not a function'')"

text \<open>Element read \<^verbatim>\<open>v[0]\<close>.\<close>

definition first_elem :: "json \<Rightarrow> json result" where
  "first_elem v =
     (if nullish v then Inl (TypeError ''Cannot read properties of undefined (reading 0)'')
      else Inr (opt_first v))"

text \<open>\<^verbatim>\<open>xs.filter(p)\<close>, \<^verbatim>\<open>xs.map(f)\<close> and \<^verbatim>\<open>xs.find(p)\<close> with a callback that may throw.\<close>

fun filter_result :: "('a \<Rightarrow> bool result) \<Rightarrow> 'a list \<Rightarrow> 'a list result" where
  "filter_result p [] = Inr []"
| "filter_result p (x # xs) =
     (case p x of
        Inl e \<Rightarrow> Inl e
      | Inr b \<Rightarrow>
        (case filter_result p xs of
           Inl e \<Rightarrow> Inl e
         | Inr ys \<Rightarrow> Inr (if b then x # ys else ys)))"

fun map_result :: "('a \<Rightarrow> 'b result) \<Rightarrow> 'a list \<Rightarrow> 'b list result" where
  "map_result f [] = Inr []"
| "map_result f (x # xs) =
     (case f x of
        Inl e \<Rightarrow> Inl e
      | Inr y \<Rightarrow>
        (case map_result f xs of
           Inl e \<Rightarrow> Inl e
         | Inr ys \<Rightarrow> Inr (y # ys)))"

fun find_result :: "(json \<Rightarrow> bool result) \<Rightarrow> json list \<Rightarrow> json result" where
  "find_result p [] = Inr JUndefined"
| "find_result p (x # xs) =
     (case p x of
        Inl e \<Rightarrow> Inl e
      | Inr b \<Rightarrow> if b then Inr x else find_result p xs)"

section \<open>Cache gateway and external collaborators\<close>

text \<open>
  A value as it comes back from the key-value store: \<^verbatim>\<open>put\<close> stores
  \<^verbatim>\<open>JSON.stringify(value)\<close> and \<^verbatim>\<open>get(key, 'json')\<close> parses it, which drops the
  properties whose value is \<^verbatim>\<open>undefined\<close> and turns an \<^verbatim>\<open>undefined\<close> array element into
  \<^verbatim>\<open>null\<close>.
\<close>

fun json_roundtrip :: "json \<Rightarrow> json"
  and roundtrip_elems :: "json list \<Rightarrow> json list"
  and roundtrip_fields :: "(string \<times> json) list \<Rightarrow> (string \<times> json) list" where
  "json_roundtrip (JArr xs) = JArr (roundtrip_elems xs)"
| "json_roundtrip (JObj kvs) = JObj (roundtrip_fields kvs)"
| "json_roundtrip JUndefined = JUndefined"
| "json_roundtrip JNull = JNull"
| "json_roundtrip (JBool b) = JBool b"
| "json_roundtrip (JNum n) = JNum n"
| "json_roundtrip (JStr s) = JStr s"
| "roundtrip_elems [] = []"
| "roundtrip_elems (x # xs) =
     (if x = JUndefined then JNull else json_roundtrip x) # roundtrip_elems xs"
| "roundtrip_fields [] = []"
| "roundtrip_fields (kv # kvs) =
     (if snd kv = JUndefined then roundtrip_fields kvs
      else (fst kv, json_roundtrip (snd kv)) # roundtrip_fields kvs)"

text \<open>
  One namespace of the store: key to stored value and the time-to-live it was written
  with.  Expiry is a matter of real time and is not modelled: an entry stays.
\<close>

type_synonym kv_namespace = "string \<Rightarrow> (json \<times> nat) option"

definition kv_get :: "kv_namespace \<Rightarrow> string \<Rightarrow> json" where
  "kv_get kv key = (case kv key of None \<Rightarrow> JNull | Some entry \<Rightarrow> fst entry)"

definition kv_put :: "kv_namespace \<Rightarrow> string \<Rightarrow> json \<Rightarrow> nat \<Rightarrow> kv_namespace" where
  "kv_put kv key v ttl = kv(key \<mapsto> (json_roundtrip v, ttl))"

record state =
  TEXTBOOK_CACHE :: kv_namespace
  PRACTICE_PROBLEMS :: kv_namespace
  NOTEBOOKS :: kv_namespace
  VECTORIZE :: "json list"
  console_error :: "string list"

record http_response =
  ok :: bool
  statusText :: string
  body_text :: "string result"
  body_json :: "json result"

text \<open>
  The collaborators outside the worker, each a function of its arguments: the HTTP client
  (URL and request headers), the XML parser, the model runtime (its constructor and
  \<^verbatim>\<open>run\<close>), the vector index (\<^verbatim>\<open>query\<close> sees the entries upserted so far), and two
  functions of the platform the model does not compute: the JSON serialiser with its
  indentation, and the number of elements \<^verbatim>\<open>slice(0, end)\<close> keeps of a list of a given
  length when \<^verbatim>\<open>end\<close> is a string (the reading of a string as a number).
\<close>

record env =
  fetch :: "string \<Rightarrow> (string \<times> string) list \<Rightarrow> http_response result"
  parseStringPromise :: "string \<Rightarrow> json result"
  new_Ai :: "unit result"
  ai_run :: "string \<Rightarrow> json \<Rightarrow> json result"
  vectorize_query :: "json list \<Rightarrow> json \<Rightarrow> json \<Rightarrow> json result"
  vectorize_upsert :: "json \<Rightarrow> unit result"
  JSON_stringify :: "json \<Rightarrow> nat \<Rightarrow> string"
  slice_count :: "string \<Rightarrow> nat \<Rightarrow> nat"

definition github_headers :: "(string \<times> string) list" where
  "github_headers =
     [(''User-Agent'', ''OpenStax-MCP-Server''), (''Accept'', ''application/vnd.github.v3+json'')]"

text \<open>\<^verbatim>\<open>{ ...cached, from_cache: true }\<close>: the own properties of the value, then the flag.\<close>

fun set_field :: "string \<Rightarrow> json \<Rightarrow> (string \<times> json) list \<Rightarrow> (string \<times> json) list" where
  "set_field k v [] = [(k, v)]"
| "set_field k v (kv # kvs) =
     (if fst kv = k then (k, v) # kvs else kv # set_field k v kvs)"

fun index_keys :: "nat \<Rightarrow> json list \<Rightarrow> (string \<times> json) list" where
  "index_keys i [] = []"
| "index_keys i (x # xs) = (show_nat i, x) # index_keys (Suc i) xs"

fun spread :: "json \<Rightarrow> (string \<times> json) list" where
  "spread (JObj kvs) = kvs"
| "spread (JArr xs) = index_keys 0 xs"
| "spread (JStr s) = index_keys 0 (map (\<lambda>c. JStr [c]) s)"
| "spread v = []"

definition from_cache_hit :: "json \<Rightarrow> json" where
  "from_cache_hit cached = JObj (set_field ''from_cache'' (JBool True) (spread cached))"

section \<open>Content resolution pipeline\<close>

text \<open>A destructuring default \<^verbatim>\<open>{ k = d }\<close>: the default replaces \<^verbatim>\<open>undefined\<close> only.\<close>

definition default_to :: "json \<Rightarrow> json \<Rightarrow> json" where
  "default_to v d = (if v = JUndefined then d else v)"

subsection \<open>Textbook listing\<close>

text \<open>The callback of the first \<^verbatim>\<open>filter\<close>: a textbook repository, not a template or playground.\<close>

definition is_textbook_repo :: "json \<Rightarrow> bool result" where
  "is_textbook_repo r =
     and_then (get_prop r ''name'') (\<lambda>n.
     and_then (string_receiver n ''startsWith'') (\<lambda>name.
       Inr (starts_with name ''osbooks-''
            \<and> \<not> (str_includes name ''template'' \<or> str_includes name ''playground''))))"

definition infer_language :: "string \<Rightarrow> string" where
  "infer_language name =
     (if str_includes name ''fisica'' \<or> str_includes name ''quimica'' \<or> str_includes name ''calculo''
      then ''es''
      else if str_includes name ''fizyka'' \<or> str_includes name ''mikroekonomia''
              \<or> str_includes name ''psychologia''
      then ''pl''
      else ''en'')"

definition display_name :: "string \<Rightarrow> string" where
  "display_name name = trim (remove_all ''bundle'' (dashes_to_spaces name))"

text \<open>
  The callback of \<^verbatim>\<open>map\<close>.  Once \<^verbatim>\<open>r.name\<close> has been read \<open>r\<close> is not nullish, so the
  other fields are read with \<open>opt_prop\<close>.
\<close>

definition to_textbook :: "json \<Rightarrow> json result" where
  "to_textbook r =
     and_then (get_prop r ''name'') (\<lambda>n.
     and_then (string_receiver n ''replace'') (\<lambda>repo_name.
       let name = replace_first repo_name ''osbooks-'' '''' in
       Inr (JObj [(''id'', n),
                  (''name'', JStr (display_name name)),
                  (''repo'', opt_prop r ''html_url''),
                  (''description'', opt_prop r ''description''),
                  (''language'', JStr (infer_language name)),
                  (''updated'', opt_prop r ''updated_at''),
                  (''stars'', opt_prop r ''stargazers_count'')])))"

text \<open>The callback of the second \<^verbatim>\<open>filter\<close>: the subject and language filters.\<close>

definition matches_filters :: "json \<Rightarrow> json \<Rightarrow> json \<Rightarrow> bool result" where
  "matches_filters subject language t =
     and_then
       (if \<not> truthy subject then Inr True
        else and_then (string_receiver (opt_prop t ''name'') ''toLowerCase'') (\<lambda>name.
             and_then (string_receiver subject ''toLowerCase'') (\<lambda>sub.
               Inr (str_includes (toLowerCase name) (toLowerCase sub)))))
       (\<lambda>subject_ok.
          Inr (subject_ok \<and> (\<not> truthy language \<or> opt_prop t ''language'' = language)))"

definition textbooks_of :: "json \<Rightarrow> json \<Rightarrow> json \<Rightarrow> json list result" where
  "textbooks_of repos subject language =
     and_then (array_receiver repos ''filter'') (\<lambda>rs.
     and_then (filter_result is_textbook_repo rs) (\<lambda>kept.
     and_then (map_result to_textbook kept) (\<lambda>ts.
       filter_result (matches_filters subject language) ts)))"

definition fetch_textbooks :: "env \<Rightarrow> json \<Rightarrow> json \<Rightarrow> json list result" where
  "fetch_textbooks env subject language =
     and_then (fetch env ''https://api.github.com/orgs/openstax/repos?per_page=100&type=public''
                 github_headers) (\<lambda>response.
       if \<not> ok response then Inl (Error (''GitHub API error: '' @ statusText response))
       else and_then (body_json response) (\<lambda>repos. textbooks_of repos subject language))"

definition list_cache_key :: "json \<Rightarrow> json \<Rightarrow> string result" where
  "list_cache_key subject language =
     template [Lit ''textbooks_list_'', Sub (or_else subject (JStr ''all'')), Lit ''_'',
               Sub (or_else language (JStr ''all''))]"

definition listTextbooks :: "env \<Rightarrow> json \<Rightarrow> state \<Rightarrow> json result \<times> state" where
  "listTextbooks env params st =
     (case get_prop params ''subject'' of
        Inl e \<Rightarrow> (Inl e, st)
      | Inr subject \<Rightarrow>
        (case get_prop params ''language'' of
           Inl e \<Rightarrow> (Inl e, st)
         | Inr language \<Rightarrow>
           (case list_cache_key subject language of
              Inl e \<Rightarrow> (Inl e, st)
            | Inr cacheKey \<Rightarrow>
              (let cached = kv_get (TEXTBOOK_CACHE st) cacheKey
               in if truthy cached then (Inr (from_cache_hit cached), st)
                  else
                    (case fetch_textbooks env subject language of
                       Inl e \<Rightarrow> (Inl e, st)
                     | Inr textbooks \<Rightarrow>
                       (let result = JObj [(''textbooks'', JArr textbooks),
                                           (''count'', JNum (int (length textbooks))),
                                           (''from_cache'', JBool False)]
                        in (Inr result,
                            st\<lparr>TEXTBOOK_CACHE :=
                                  kv_put (TEXTBOOK_CACHE st) cacheKey result 86400\<rparr>)))))))"

subsection \<open>Textbook structure\<close>

definition is_collection_file :: "json \<Rightarrow> bool result" where
  "is_collection_file f =
     and_then (get_prop f ''name'') (\<lambda>n.
     and_then (string_receiver n ''endsWith'') (\<lambda>name.
       Inr (ends_with name ''.collection.xml'')))"

definition fetch_structure :: "env \<Rightarrow> json \<Rightarrow> json result" where
  "fetch_structure env textbook_id =
     and_then (template [Lit ''https://api.github.com/repos/openstax/'', Sub textbook_id,
                         Lit ''/contents/collections'']) (\<lambda>apiUrl.
     and_then (fetch env apiUrl github_headers) (\<lambda>response.
       if \<not> ok response
       then Inl (Error (''Failed to fetch collections: '' @ statusText response))
       else
         and_then (body_json response) (\<lambda>files.
         and_then (array_receiver files ''find'') (\<lambda>fs.
         and_then (find_result is_collection_file fs) (\<lambda>collectionFile.
           if \<not> truthy collectionFile then Inl (Error ''No collection.xml found'')
           else
             and_then (get_prop collectionFile ''download_url'') (\<lambda>download_url.
             and_then (js_string download_url) (\<lambda>xmlUrl.
             and_then (fetch env xmlUrl []) (\<lambda>xmlResponse.
             and_then (body_text xmlResponse) (\<lambda>xmlContent.
             and_then (parseStringPromise env xmlContent) (\<lambda>parsed.
             and_then (get_prop parsed ''collection'') (\<lambda>collection.
             and_then (extractModules collection) (\<lambda>modules.
               Inr (JObj [(''title'', or_else (opt_first (opt_prop collection ''title''))
                                        (JStr ''Unknown'')),
                          (''modules'', JArr modules),
                          (''metadata'', or_else (opt_first (opt_prop collection ''metadata''))
                                           (JObj [])),
                          (''from_cache'', JBool False)])))))))))))))"

definition structure_cache_key :: "json \<Rightarrow> string result" where
  "structure_cache_key textbook_id = template [Lit ''structure_'', Sub textbook_id]"

definition getTextbookStructure :: "env \<Rightarrow> json \<Rightarrow> state \<Rightarrow> json result \<times> state" where
  "getTextbookStructure env params st =
     (case get_prop params ''textbook_id'' of
        Inl e \<Rightarrow> (Inl e, st)
      | Inr textbook_id \<Rightarrow>
        (case structure_cache_key textbook_id of
           Inl e \<Rightarrow> (Inl e, st)
         | Inr cacheKey \<Rightarrow>
           (let cached = kv_get (TEXTBOOK_CACHE st) cacheKey
            in if truthy cached then (Inr (from_cache_hit cached), st)
               else
                 (case fetch_structure env textbook_id of
                    Inl e \<Rightarrow> (Inl e, st)
                  | Inr result \<Rightarrow>
                      (Inr result,
                       st\<lparr>TEXTBOOK_CACHE :=
                             kv_put (TEXTBOOK_CACHE st) cacheKey result 604800\<rparr>)))))"

subsection \<open>Module content\<close>

definition media_entry :: "json \<Rightarrow> json result" where
  "media_entry f =
     and_then (get_prop f ''name'') (\<lambda>name.
       Inr (JObj [(''name'', name), (''url'', opt_prop f ''download_url'')]))"

text \<open>The media listing: the fields it adds to the content object.\<close>

definition fetch_images :: "env \<Rightarrow> json \<Rightarrow> json \<Rightarrow> (string \<times> json) list result" where
  "fetch_images env textbook_id module_id =
     and_then (template [Lit ''https://api.github.com/repos/openstax/'', Sub textbook_id,
                         Lit ''/contents/modules/'', Sub module_id, Lit ''/media''])
       (\<lambda>mediaUrl.
     and_then (fetch env mediaUrl github_headers) (\<lambda>mediaResponse.
       if ok mediaResponse then
         and_then (body_json mediaResponse) (\<lambda>mediaFiles.
         and_then (array_receiver mediaFiles ''map'') (\<lambda>fs.
         and_then (map_result media_entry fs) (\<lambda>images.
           Inr [(''images'', JArr images)])))
       else Inr []))"

definition fetch_module :: "env \<Rightarrow> json \<Rightarrow> json \<Rightarrow> json \<Rightarrow> json result" where
  "fetch_module env textbook_id module_id include_images =
     and_then (template [Lit ''https://raw.githubusercontent.com/openstax/'', Sub textbook_id,
                         Lit ''/main/modules/'', Sub module_id, Lit ''/index.cnxml''])
       (\<lambda>moduleUrl.
     and_then (fetch env moduleUrl []) (\<lambda>response.
       if \<not> ok response
       then and_then (template [Lit ''Module '', Sub module_id, Lit '' not found''])
              (\<lambda>message. Inl (Error message))
       else
         and_then (body_text response) (\<lambda>xmlContent.
         and_then (parseStringPromise env xmlContent) (\<lambda>parsed.
         and_then (get_prop parsed ''document'') (\<lambda>document.
         and_then (extractTextContent (opt_first (opt_prop document ''content''))) (\<lambda>content_text.
         and_then (if truthy include_images then fetch_images env textbook_id module_id
                   else Inr []) (\<lambda>images.
           Inr (JObj ([(''title'', or_else (opt_first (opt_prop document ''title''))
                                     (JStr ''Untitled'')),
                       (''content'', JStr content_text),
                       (''module_id'', module_id),
                       (''raw_xml'', JStr xmlContent),
                       (''from_cache'', JBool False)] @ images)))))))))"

definition module_cache_key :: "json \<Rightarrow> json \<Rightarrow> string result" where
  "module_cache_key textbook_id module_id =
     template [Lit ''module_'', Sub textbook_id, Lit ''_'', Sub module_id]"

definition getModuleContent :: "env \<Rightarrow> json \<Rightarrow> state \<Rightarrow> json result \<times> state" where
  "getModuleContent env params st =
     (case get_prop params ''textbook_id'' of
        Inl e \<Rightarrow> (Inl e, st)
      | Inr textbook_id \<Rightarrow>
        (let module_id = opt_prop params ''module_id'';
             include_images = default_to (opt_prop params ''include_images'') (JBool True)
         in case module_cache_key textbook_id module_id of
              Inl e \<Rightarrow> (Inl e, st)
            | Inr cacheKey \<Rightarrow>
              (let cached = kv_get (TEXTBOOK_CACHE st) cacheKey
               in if truthy cached then (Inr (from_cache_hit cached), st)
                  else
                    (case fetch_module env textbook_id module_id include_images of
                       Inl e \<Rightarrow> (Inl e, st)
                     | Inr content \<Rightarrow>
                         (Inr content,
                          st\<lparr>TEXTBOOK_CACHE :=
                                kv_put (TEXTBOOK_CACHE st) cacheKey content 604800\<rparr>)))))"

section \<open>Derived artifacts\<close>

definition module_params :: "json \<Rightarrow> json \<Rightarrow> json" where
  "module_params textbook_id module_id =
     JObj [(''textbook_id'', textbook_id), (''module_id'', module_id),
           (''include_images'', JBool False)]"

text \<open>
  The prompt.  Its substitutions are evaluated and converted in the order of the
  template: the count, the difficulty, the title read from the module data, and the
  first 3000 characters of its content.
\<close>

definition problems_prompt :: "json \<Rightarrow> json \<Rightarrow> json \<Rightarrow> string result" where
  "problems_prompt count difficulty moduleData =
     and_then (template [Lit ''Based on this educational content, generate '', Sub count,
                         Lit '' '', Sub difficulty,
                         Lit '' practice problems with detailed solutions.'',
                         Lit [CHR 0x0A, CHR 0x0A], Lit ''Content Title: '']) (\<lambda>text1.
     and_then (get_prop moduleData ''title'') (\<lambda>title.
     and_then (template [Sub title, Lit [CHR 0x0A], Lit ''Content: '']) (\<lambda>text2.
     and_then (opt_slice (opt_prop moduleData ''content'') 3000) (\<lambda>excerpt.
     and_then (template [Sub excerpt, Lit [CHR 0x0A, CHR 0x0A],
                         Lit ''Format each problem as:'', Lit [CHR 0x0A],
                         Lit ''Problem N:'', Lit [CHR 0x0A],
                         Lit ''[problem statement]'', Lit [CHR 0x0A, CHR 0x0A],
                         Lit ''Solution N:'', Lit [CHR 0x0A],
                         Lit ''[detailed solution]'']) (\<lambda>text3.
       Inr (text1 @ text2 @ text3))))))"

definition generate_problems :: "env \<Rightarrow> json \<Rightarrow> json \<Rightarrow> json \<Rightarrow> json \<Rightarrow> json result" where
  "generate_problems env moduleData module_id difficulty count =
     and_then (new_Ai env) (\<lambda>ai.
     and_then (problems_prompt count difficulty moduleData) (\<lambda>prompt.
     and_then (ai_run env ''@cf/meta/llama-3.1-8b-instruct''
                 (JObj [(''messages'',
                         JArr [JObj [(''role'', JStr ''user''),
                                     (''content'', JStr prompt)]])]))
       (\<lambda>response.
     and_then (get_prop response ''response'') (\<lambda>text.
       Inr (JObj [(''module_id'', module_id),
                  (''difficulty'', difficulty),
                  (''problems'', text),
                  (''from_cache'', JBool False)])))))"

definition problems_cache_key :: "json \<Rightarrow> json \<Rightarrow> json \<Rightarrow> string result" where
  "problems_cache_key textbook_id module_id difficulty =
     template [Lit ''problems_'', Sub textbook_id, Lit ''_'', Sub module_id, Lit ''_'',
               Sub difficulty]"

definition generatePracticeProblems :: "env \<Rightarrow> json \<Rightarrow> state \<Rightarrow> json result \<times> state" where
  "generatePracticeProblems env params st =
     (case get_prop params ''textbook_id'' of
        Inl e \<Rightarrow> (Inl e, st)
      | Inr textbook_id \<Rightarrow>
        (let module_id = opt_prop params ''module_id'';
             difficulty = default_to (opt_prop params ''difficulty'') (JStr ''medium'');
             count = default_to (opt_prop params ''count'') (JNum 5)
         in case problems_cache_key textbook_id module_id difficulty of
              Inl e \<Rightarrow> (Inl e, st)
            | Inr cacheKey \<Rightarrow>
              (let cached = kv_get (PRACTICE_PROBLEMS st) cacheKey
               in if truthy cached then (Inr (from_cache_hit cached), st)
                  else
                    (case getModuleContent env (module_params textbook_id module_id) st of
                       (Inl e, st1) \<Rightarrow> (Inl e, st1)
                     | (Inr moduleData, st1) \<Rightarrow>
                       (case generate_problems env moduleData module_id difficulty count of
                          Inl e \<Rightarrow> (Inl e, st1)
                        | Inr problems \<Rightarrow>
                            (Inr problems,
                             st1\<lparr>PRACTICE_PROBLEMS :=
                                    kv_put (PRACTICE_PROBLEMS st1) cacheKey problems
                                      2592000\<rparr>))))))"

text \<open>The notebook, given the three lines that are templates.\<close>

definition notebook_of :: "string \<Rightarrow> string \<Rightarrow> string \<Rightarrow> json" where
  "notebook_of title_line module_line summary_line =
     JObj [(''cells'',
            JArr [JObj [(''cell_type'', JStr ''markdown''),
                        (''metadata'', JObj []),
                        (''source'',
                         JArr [JStr title_line,
                               JStr (''Generated from OpenStax MCP Server'' @ [CHR 0x0A]),
                               JStr module_line])],
                  JObj [(''cell_type'', JStr ''code''),
                        (''execution_count'', JNull),
                        (''metadata'', JObj []),
                        (''outputs'', JArr []),
                        (''source'',
                         JArr [JStr (''# Import libraries'' @ [CHR 0x0A]),
                               JStr (''import numpy as np'' @ [CHR 0x0A]),
                               JStr (''import matplotlib.pyplot as plt'' @ [CHR 0x0A]),
                               JStr (''import pandas as pd'' @ [CHR 0x0A])])],
                  JObj [(''cell_type'', JStr ''markdown''),
                        (''metadata'', JObj []),
                        (''source'',
                         JArr [JStr (''## Content Summary'' @ [CHR 0x0A, CHR 0x0A]),
                               JStr summary_line])],
                  JObj [(''cell_type'', JStr ''code''),
                        (''execution_count'', JNull),
                        (''metadata'', JObj []),
                        (''outputs'', JArr []),
                        (''source'',
                         JArr [JStr (''# Example: Basic calculations'' @ [CHR 0x0A]),
                               JStr (''# TODO: Add relevant examples based on module content''
                                     @ [CHR 0x0A])])]]),
           (''metadata'',
            JObj [(''kernelspec'',
                   JObj [(''display_name'', JStr ''Python 3''),
                         (''language'', JStr ''python''),
                         (''name'', JStr ''python3'')]),
                  (''language_info'',
                   JObj [(''name'', JStr ''python''), (''version'', JStr ''3.9.0'')])]),
           (''nbformat'', JNum 4),
           (''nbformat_minor'', JNum 5)]"

definition build_notebook :: "json \<Rightarrow> json \<Rightarrow> json \<Rightarrow> json result" where
  "build_notebook moduleData textbook_id module_id =
     and_then (get_prop moduleData ''title'') (\<lambda>title.
     and_then (template [Lit ''# '', Sub title, Lit [CHR 0x0A, CHR 0x0A]]) (\<lambda>title_line.
     and_then (template [Lit ''Module: '', Sub module_id, Lit [CHR 0x0A]]) (\<lambda>module_line.
     and_then (opt_slice (opt_prop moduleData ''content'') 500) (\<lambda>excerpt.
     and_then (template [Sub excerpt, Lit ''...'', Lit [CHR 0x0A]]) (\<lambda>summary_line.
       Inr (JObj [(''notebook'', notebook_of title_line module_line summary_line),
                  (''module_id'', module_id),
                  (''textbook_id'', textbook_id),
                  (''from_cache'', JBool False)]))))))"

definition notebook_cache_key :: "json \<Rightarrow> json \<Rightarrow> string result" where
  "notebook_cache_key textbook_id module_id =
     template [Lit ''notebook_'', Sub textbook_id, Lit ''_'', Sub module_id]"

definition generateJupyterNotebook :: "env \<Rightarrow> json \<Rightarrow> state \<Rightarrow> json result \<times> state" where
  "generateJupyterNotebook env params st =
     (case get_prop params ''textbook_id'' of
        Inl e \<Rightarrow> (Inl e, st)
      | Inr textbook_id \<Rightarrow>
        (let module_id = opt_prop params ''module_id'';
             include_solutions = default_to (opt_prop params ''include_solutions'') (JBool True)
         in case notebook_cache_key textbook_id module_id of
              Inl e \<Rightarrow> (Inl e, st)
            | Inr cacheKey \<Rightarrow>
              (let cached = kv_get (NOTEBOOKS st) cacheKey
               in if truthy cached then (Inr (from_cache_hit cached), st)
                  else
                    (case getModuleContent env (module_params textbook_id module_id) st of
                       (Inl e, st1) \<Rightarrow> (Inl e, st1)
                     | (Inr moduleData, st1) \<Rightarrow>
                       (case build_notebook moduleData textbook_id module_id of
                          Inl e \<Rightarrow> (Inl e, st1)
                        | Inr result \<Rightarrow>
                            (Inr result,
                             st1\<lparr>NOTEBOOKS :=
                                    kv_put (NOTEBOOKS st1) cacheKey result 2592000\<rparr>))))))"

section \<open>Search indexer and query engine\<close>

text \<open>The receiver of \<^verbatim>\<open>.slice\<close> whose result is iterated: an array, or a string by its characters.\<close>

fun slice_receiver :: "json \<Rightarrow> json list result" where
  "slice_receiver (JArr xs) = Inr xs"
| "slice_receiver (JStr s) = Inr (map (\<lambda>c. JStr [c]) s)"
| "slice_receiver JUndefined =
     Inl (TypeError ''Cannot read properties of undefined (reading slice)'')"
| "slice_receiver JNull = Inl (TypeError ''Cannot read properties of null (reading slice)'')"
| "slice_receiver v = Inl (TypeError ''slice is not a function'')"

text \<open>
  \<^verbatim>\<open>xs.slice(0, end)\<close>: a non-negative number keeps that many elements, a negative one
  drops from the end; \<^verbatim>\<open>undefined\<close> keeps all, \<^verbatim>\<open>null\<close> and \<^verbatim>\<open>false\<close> count as 0
  and \<^verbatim>\<open>true\<close> as 1; a string is read as a number by the platform, an array or an object
  after its conversion to a string.
\<close>

definition slice_prefix :: "env \<Rightarrow> json list \<Rightarrow> json \<Rightarrow> json list result" where
  "slice_prefix env xs end_arg =
     (case end_arg of
        JNum n \<Rightarrow> Inr (if n < 0 then take (nat (int (length xs) + n)) xs else take (nat n) xs)
      | JUndefined \<Rightarrow> Inr xs
      | JNull \<Rightarrow> Inr []
      | JBool b \<Rightarrow> Inr (take (if b then 1 else 0) xs)
      | JStr s \<Rightarrow> Inr (take (slice_count env s (length xs)) xs)
      | _ \<Rightarrow> and_then (js_string end_arg) (\<lambda>s. Inr (take (slice_count env s (length xs)) xs)))"

text \<open>
  \<^verbatim>\<open>VECTORIZE.upsert\<close>: the entry replaces the stored entry of the same id, or is added
  when there is none.
\<close>

fun upsert_entry :: "json \<Rightarrow> json list \<Rightarrow> json list" where
  "upsert_entry entry [] = [entry]"
| "upsert_entry entry (x # xs) =
     (if opt_prop x ''id'' = opt_prop entry ''id'' then entry # xs
      else x # upsert_entry entry xs)"

text \<open>The body of the \<^verbatim>\<open>try\<close> block for one module: resolve, embed, upsert.\<close>

definition index_module :: "env \<Rightarrow> json \<Rightarrow> json \<Rightarrow> state \<Rightarrow> unit result \<times> state" where
  "index_module env textbook_id module st =
     (case get_prop module ''id'' of
        Inl e \<Rightarrow> (Inl e, st)
      | Inr module_id \<Rightarrow>
        (case getModuleContent env (module_params textbook_id module_id) st of
           (Inl e, st1) \<Rightarrow> (Inl e, st1)
         | (Inr moduleContent, st1) \<Rightarrow>
           (case
              and_then (template [Sub (opt_prop module ''title''), Lit '' '']) (\<lambda>text1.
              and_then (opt_slice (opt_prop moduleContent ''content'') 1000) (\<lambda>excerpt.
              and_then (js_string (or_else excerpt (JStr ''''))) (\<lambda>text2.
              and_then (ai_run env ''@cf/baai/bge-base-en-v1.5''
                          (JObj [(''text'', JArr [JStr (text1 @ text2)])]))
                (\<lambda>embedding.
              and_then (template [Sub textbook_id, Lit ''_'', Sub module_id]) (\<lambda>entry_id.
              and_then (get_prop embedding ''data'') (\<lambda>data.
              and_then (first_elem data) (\<lambda>vector.
                (let entry =
                       JObj [(''id'', JStr entry_id),
                             (''values'', vector),
                             (''metadata'',
                              JObj [(''textbook_id'', textbook_id),
                                    (''module_id'', module_id),
                                    (''title'', opt_prop module ''title'')])]
                 in and_then (vectorize_upsert env (JArr [entry])) (\<lambda>done. Inr entry)))))))))
            of
              Inl e \<Rightarrow> (Inl e, st1)
            | Inr entry \<Rightarrow>
                (Inr (), st1\<lparr>VECTORIZE := upsert_entry entry (VECTORIZE st1)\<rparr>))))"

text \<open>
  The handler of the \<^verbatim>\<open>try\<close> block logs the failure; for its message it reads
  \<^verbatim>\<open>module.id\<close> again and converts it.
\<close>

definition log_failure :: "json \<Rightarrow> state \<Rightarrow> state result" where
  "log_failure module st =
     and_then (get_prop module ''id'') (\<lambda>module_id.
     and_then (template [Lit ''Failed to index '', Sub module_id, Lit '':'']) (\<lambda>line.
       Inr (st\<lparr>console_error := console_error st @ [line]\<rparr>)))"

text \<open>The loop.\<close>

fun index_loop :: "env \<Rightarrow> json \<Rightarrow> json list \<Rightarrow> nat \<Rightarrow> state \<Rightarrow> nat result \<times> state" where
  "index_loop env textbook_id [] indexed st = (Inr indexed, st)"
| "index_loop env textbook_id (module # modules) indexed st =
     (case index_module env textbook_id module st of
        (Inr done, st1) \<Rightarrow> index_loop env textbook_id modules (Suc indexed) st1
      | (Inl error, st1) \<Rightarrow>
        (case log_failure module st1 of
           Inl e \<Rightarrow> (Inl e, st1)
         | Inr st2 \<Rightarrow> index_loop env textbook_id modules indexed st2))"

text \<open>
  The outcome of each attempted module, in order, with the state threaded as the loop
  threads it: \<open>True\<close> when the resolve-embed-upsert sequence of the module succeeded.  The
  list ends where the handler itself raises.
\<close>

fun index_outcomes :: "env \<Rightarrow> json \<Rightarrow> json list \<Rightarrow> state \<Rightarrow> bool list" where
  "index_outcomes env textbook_id [] st = []"
| "index_outcomes env textbook_id (module # modules) st =
     (case index_module env textbook_id module st of
        (Inr done, st1) \<Rightarrow> True # index_outcomes env textbook_id modules st1
      | (Inl error, st1) \<Rightarrow>
          False # (case log_failure module st1 of
                     Inl e \<Rightarrow> []
                   | Inr st2 \<Rightarrow> index_outcomes env textbook_id modules st2))"

definition indexTextbookForSearch :: "env \<Rightarrow> json \<Rightarrow> state \<Rightarrow> json result \<times> state" where
  "indexTextbookForSearch env params st =
     (case get_prop params ''textbook_id'' of
        Inl e \<Rightarrow> (Inl e, st)
      | Inr textbook_id \<Rightarrow>
        (let max_modules = default_to (opt_prop params ''max_modules'') (JNum 20) in
         case getTextbookStructure env (JObj [(''textbook_id'', textbook_id)]) st of
           (Inl e, st1) \<Rightarrow> (Inl e, st1)
         | (Inr structure, st1) \<Rightarrow>
           (case and_then (new_Ai env) (\<lambda>ai.
                 and_then (get_prop structure ''modules'') (\<lambda>listed_modules.
                 and_then (slice_receiver listed_modules) (\<lambda>modules.
                 and_then (slice_prefix env modules max_modules) (\<lambda>modulesToIndex.
                   Inr (modules, modulesToIndex))))) of
              Inl e \<Rightarrow> (Inl e, st1)
            | Inr (modules, modulesToIndex) \<Rightarrow>
              (case index_loop env textbook_id modulesToIndex 0 st1 of
                 (Inl e, st2) \<Rightarrow> (Inl e, st2)
               | (Inr indexed, st2) \<Rightarrow>
                   (Inr (JObj [(''indexed'', JNum (int indexed)),
                               (''total_modules'', JNum (int (length modules))),
                               (''textbook_id'', textbook_id),
                               (''message'',
                                JStr (''Successfully indexed '' @ show_number (int indexed)
                                      @ '' modules for semantic search''))]),
                    st2)))))"

definition search_match :: "json \<Rightarrow> json result" where
  "search_match m =
     and_then (get_prop m ''id'') (\<lambda>match_id.
       Inr (JObj [(''module_id'', match_id),
                  (''score'', opt_prop m ''score''),
                  (''metadata'', opt_prop m ''metadata'')]))"

definition semanticSearch :: "env \<Rightarrow> json \<Rightarrow> state \<Rightarrow> json result \<times> state" where
  "semanticSearch env params st =
     (and_then (get_prop params ''query'') (\<lambda>query.
        (let textbook_id = opt_prop params ''textbook_id'';
             limit = default_to (opt_prop params ''limit'') (JNum 5)
         in
         and_then (new_Ai env) (\<lambda>ai.
         and_then (ai_run env ''@cf/baai/bge-base-en-v1.5'' (JObj [(''text'', JArr [query])]))
           (\<lambda>queryEmbedding.
         and_then (get_prop queryEmbedding ''data'') (\<lambda>data.
         and_then (first_elem data) (\<lambda>vector.
         and_then (vectorize_query env (VECTORIZE st) vector
                     (JObj [(''topK'', limit),
                            (''filter'',
                             if truthy textbook_id then JObj [(''textbook_id'', textbook_id)]
                             else JUndefined)])) (\<lambda>results.
         and_then (get_prop results ''matches'') (\<lambda>matches.
         and_then (array_receiver matches ''map'') (\<lambda>ms.
         and_then (map_result search_match ms) (\<lambda>found.
           Inr (JObj [(''query'', query), (''results'', JArr found)]))))))))))),
      st)"

section \<open>Protocol dispatcher\<close>

definition errorResponse :: "json \<Rightarrow> int \<Rightarrow> string \<Rightarrow> json" where
  "errorResponse request_id code message =
     JObj [(''jsonrpc'', JStr ''2.0''),
           (''id'', request_id),
           (''error'', JObj [(''code'', JNum code), (''message'', JStr message)])]"

text \<open>\<^verbatim>\<open>error instanceof Error ? error.message : 'Unknown error'\<close>\<close>

fun error_message :: "thrown \<Rightarrow> string" where
  "error_message (Error m) = m"
| "error_message (TypeError m) = m"
| "error_message (NonError v) = ''Unknown error''"

definition handleInitialize :: "json \<Rightarrow> json" where
  "handleInitialize request =
     JObj [(''jsonrpc'', JStr ''2.0''),
           (''id'', opt_prop request ''id''),
           (''result'',
            JObj [(''protocolVersion'', JStr ''2024-11-05''),
                  (''capabilities'', JObj [(''tools'', JObj [])]),
                  (''serverInfo'',
                   JObj [(''name'', JStr ''openstax-mcp-server''),
                         (''version'', JStr ''2.0.0'')])])]"

text \<open>The static tool catalog of \<^verbatim>\<open>tools/list\<close>.\<close>

definition tool_catalog :: json where
  "tool_catalog =
     JArr
      [JObj
         [(''name'', JStr ''list_textbooks''),
          (''description'', JStr ''Get comprehensive list of all OpenStax textbooks with metadata. Supports filtering by subject and language.''),
          (''inputSchema'', JObj
           [(''type'', JStr ''object''),
            (''properties'', JObj
             [(''subject'', JObj
               [(''type'', JStr ''string''),
                (''description'', JStr ''Optional: Filter by subject area (e.g., physics, chemistry, biology, math)'')]),
              (''language'', JObj
               [(''type'', JStr ''string''),
                (''enum'', JArr [JStr ''en'', JStr ''es'', JStr ''pl'']),
                (''description'', JStr ''Optional: Filter by language (en=English, es=Spanish, pl=Polish)'')])])])],
       JObj
         [(''name'', JStr ''get_textbook_structure''),
          (''description'', JStr ''Get complete table of contents and structure from collection.xml. Returns chapter/module organization with caching.''),
          (''inputSchema'', JObj
           [(''type'', JStr ''object''),
            (''properties'', JObj
             [(''textbook_id'', JObj
               [(''type'', JStr ''string''),
                (''description'', JStr (''Textbook repo name (e.g., '' @ [CHR 0x22] @ ''osbooks-college-physics-bundle'' @ [CHR 0x22] @ '')''))])]),
            (''required'', JArr [JStr ''textbook_id''])])],
       JObj
         [(''name'', JStr ''get_module_content''),
          (''description'', JStr ''Retrieve full content of a specific chapter/module including text, equations, and images. Cached for performance.''),
          (''inputSchema'', JObj
           [(''type'', JStr ''object''),
            (''properties'', JObj
             [(''textbook_id'', JObj
               [(''type'', JStr ''string''),
                (''description'', JStr ''Textbook repo name'')]),
              (''module_id'', JObj
               [(''type'', JStr ''string''),
                (''description'', JStr (''Module ID (e.g., '' @ [CHR 0x22] @ ''m12345'' @ [CHR 0x22] @ '')''))]),
              (''include_images'', JObj
               [(''type'', JStr ''boolean''),
                (''description'', JStr ''Include image URLs from media folder''),
                (''default'', JBool True)])]),
            (''required'', JArr [JStr ''textbook_id'', JStr ''module_id''])])],
       JObj
         [(''name'', JStr ''semantic_search''),
          (''description'', JStr ''Search textbook content using AI semantic understanding. Returns most relevant modules based on natural language query.''),
          (''inputSchema'', JObj
           [(''type'', JStr ''object''),
            (''properties'', JObj
             [(''query'', JObj
               [(''type'', JStr ''string''),
                (''description'', JStr ''Natural language search query'')]),
              (''textbook_id'', JObj
               [(''type'', JStr ''string''),
                (''description'', JStr ''Optional: Limit to specific textbook'')]),
              (''limit'', JObj
               [(''type'', JStr ''number''),
                (''description'', JStr ''Number of results (default: 5)''),
                (''default'', JNum 5)])]),
            (''required'', JArr [JStr ''query''])])],
       JObj
         [(''name'', JStr ''generate_practice_problems''),
          (''description'', JStr ''Generate AI-powered practice problems for a module with solutions. Supports multiple difficulty levels.''),
          (''inputSchema'', JObj
           [(''type'', JStr ''object''),
            (''properties'', JObj
             [(''textbook_id'', JObj
               [(''type'', JStr ''string''),
                (''description'', JStr ''Textbook repo name'')]),
              (''module_id'', JObj
               [(''type'', JStr ''string''),
                (''description'', JStr ''Module ID'')]),
              (''difficulty'', JObj
               [(''type'', JStr ''string''),
                (''enum'', JArr [JStr ''easy'', JStr ''medium'', JStr ''hard'']),
                (''description'', JStr ''Problem difficulty''),
                (''default'', JStr ''medium'')]),
              (''count'', JObj
               [(''type'', JStr ''number''),
                (''description'', JStr ''Number of problems to generate''),
                (''default'', JNum 5)])]),
            (''required'', JArr [JStr ''textbook_id'', JStr ''module_id''])])],
       JObj
         [(''name'', JStr ''generate_jupyter_notebook''),
          (''description'', JStr ''Generate .ipynb Jupyter notebook with examples, exercises, and code cells for a module. Perfect for interactive learning.''),
          (''inputSchema'', JObj
           [(''type'', JStr ''object''),
            (''properties'', JObj
             [(''textbook_id'', JObj
               [(''type'', JStr ''string''),
                (''description'', JStr ''Textbook repo name'')]),
              (''module_id'', JObj
               [(''type'', JStr ''string''),
                (''description'', JStr ''Module ID'')]),
              (''include_solutions'', JObj
               [(''type'', JStr ''boolean''),
                (''description'', JStr ''Include solution cells''),
                (''default'', JBool True)])]),
            (''required'', JArr [JStr ''textbook_id'', JStr ''module_id''])])],
       JObj
         [(''name'', JStr ''index_textbook_for_search''),
          (''description'', JStr (''Index a textbook'' @ [CHR 0x27] @ ''s content into vector database for semantic search. Run this before using semantic_search on a new textbook.'')),
          (''inputSchema'', JObj
           [(''type'', JStr ''object''),
            (''properties'', JObj
             [(''textbook_id'', JObj
               [(''type'', JStr ''string''),
                (''description'', JStr ''Textbook repo name to index'')]),
              (''max_modules'', JObj
               [(''type'', JStr ''number''),
                (''description'', JStr ''Max modules to index (for testing, default: 20)''),
                (''default'', JNum 20)])]),
            (''required'', JArr [JStr ''textbook_id''])])]]"

definition handleToolsList :: "json \<Rightarrow> json" where
  "handleToolsList request =
     JObj [(''jsonrpc'', JStr ''2.0''),
           (''id'', opt_prop request ''id''),
           (''result'', JObj [(''tools'', tool_catalog)])]"

text \<open>The \<^verbatim>\<open>switch\<close> over the tool name; \<open>None\<close> is the default branch.\<close>

definition call_tool :: "env \<Rightarrow> json \<Rightarrow> json \<Rightarrow> state \<Rightarrow> (json result \<times> state) option" where
  "call_tool env name args st =
     (if name = JStr ''list_textbooks'' then Some (listTextbooks env args st)
      else if name = JStr ''get_textbook_structure'' then Some (getTextbookStructure env args st)
      else if name = JStr ''get_module_content'' then Some (getModuleContent env args st)
      else if name = JStr ''semantic_search'' then Some (semanticSearch env args st)
      else if name = JStr ''generate_practice_problems''
        then Some (generatePracticeProblems env args st)
      else if name = JStr ''generate_jupyter_notebook''
        then Some (generateJupyterNotebook env args st)
      else if name = JStr ''index_textbook_for_search''
        then Some (indexTextbookForSearch env args st)
      else None)"

text \<open>
  \<^verbatim>\<open>handleToolCall\<close>.  The destructuring of \<^verbatim>\<open>request.params\<close> stands before the
  \<^verbatim>\<open>try\<close> block: when it throws, the function's promise rejects (\<open>Inl\<close>).
\<close>

definition handleToolCall :: "env \<Rightarrow> json \<Rightarrow> state \<Rightarrow> json result \<times> state" where
  "handleToolCall env request st =
     (case and_then (get_prop request ''params'') (\<lambda>params.
           and_then (get_prop params ''name'') (\<lambda>name.
             Inr (name, opt_prop params ''arguments''))) of
        Inl e \<Rightarrow> (Inl e, st)
      | Inr (name, args) \<Rightarrow>
        (case call_tool env name args st of
           None \<Rightarrow>
             (case template [Lit ''Unknown tool: '', Sub name] of
                Inr message \<Rightarrow>
                  (Inr (errorResponse (opt_prop request ''id'') (- 32602) message), st)
              | Inl error \<Rightarrow>
                  (Inr (errorResponse (opt_prop request ''id'') (- 32603)
                          (''Tool execution error: '' @ error_message error)), st))
         | Some (Inl error, st1) \<Rightarrow>
             (Inr (errorResponse (opt_prop request ''id'') (- 32603)
                     (''Tool execution error: '' @ error_message error)), st1)
         | Some (Inr result, st1) \<Rightarrow>
             (Inr (JObj [(''jsonrpc'', JStr ''2.0''),
                         (''id'', opt_prop request ''id''),
                         (''result'',
                          JObj [(''content'',
                                 JArr [JObj [(''type'', JStr ''text''),
                                             (''text'',
                                              JStr (JSON_stringify env result 2))]])])]),
              st1)))"

text \<open>
  \<^verbatim>\<open>handleRequest\<close>.  Reading \<^verbatim>\<open>request.method\<close> is inside the \<^verbatim>\<open>try\<close> block and its
  failure runs the handler, which reads \<^verbatim>\<open>request.id\<close>.  The promise of
  \<^verbatim>\<open>handleToolCall\<close> is returned without \<^verbatim>\<open>await\<close>, so its rejection is the rejection of
  \<^verbatim>\<open>handleRequest\<close>: the handler does not see it.
\<close>

definition handleRequest :: "env \<Rightarrow> json \<Rightarrow> state \<Rightarrow> json result \<times> state" where
  "handleRequest env request st =
     (case get_prop request ''method'' of
        Inl error \<Rightarrow>
          (and_then (get_prop request ''id'') (\<lambda>request_id.
             Inr (errorResponse request_id (- 32603)
                    (''Internal error: '' @ error_message error))), st)
      | Inr m \<Rightarrow>
          if m = JStr ''initialize'' then (Inr (handleInitialize request), st)
          else if m = JStr ''tools/list'' then (Inr (handleToolsList request), st)
          else if m = JStr ''tools/call'' then handleToolCall env request st
          else
            (case template [Lit ''Method not found: '', Sub m] of
               Inr message \<Rightarrow>
                 (Inr (errorResponse (opt_prop request ''id'') (- 32601) message), st)
             | Inl error \<Rightarrow>
                 (Inr (errorResponse (opt_prop request ''id'') (- 32603)
                         (''Internal error: '' @ error_message error)), st)))"

section \<open>Worker entry point\<close>

record http_request =
  request_method :: string
  request_url :: string
  request_json :: "json result"

record worker_response =
  status :: nat
  headers :: "(string \<times> string) list"
  body :: "string option"

definition worker_fetch :: "env \<Rightarrow> http_request \<Rightarrow> state \<Rightarrow> worker_response \<times> state" where
  "worker_fetch env request st =
     (if request_method request = ''OPTIONS'' then
        (\<lparr>status = 200,
          headers = [(''Access-Control-Allow-Origin'', ''*''),
                     (''Access-Control-Allow-Methods'', ''POST, GET, OPTIONS''),
                     (''Access-Control-Allow-Headers'', ''Content-Type'')],
          body = None\<rparr>, st)
      else if ends_with (request_url request) ''/health'' then
        (\<lparr>status = 200,
          headers = [(''Content-Type'', ''application/json'')],
          body = Some (JSON_stringify env
                         (JObj [(''status'', JStr ''healthy''),
                                (''service'', JStr ''openstax-mcp-server'')]) 0)\<rparr>, st)
      else if request_method request = ''POST'' then
        (case (case request_json request of
                 Inl e \<Rightarrow> (Inl e, st)
               | Inr mcpRequest \<Rightarrow> handleRequest env mcpRequest st) of
           (Inr mcpResponse, st1) \<Rightarrow>
             (\<lparr>status = 200,
               headers = [(''Content-Type'', ''application/json''),
                          (''Access-Control-Allow-Origin'', ''*'')],
               body = Some (JSON_stringify env mcpResponse 0)\<rparr>, st1)
         | (Inl error, st1) \<Rightarrow>
             (\<lparr>status = 400,
               headers = [(''Content-Type'', ''application/json'')],
               body = Some (JSON_stringify env
                              (JObj [(''jsonrpc'', JStr ''2.0''),
                                     (''id'', JNull),
                                     (''error'', JObj [(''code'', JNum (- 32700)),
                                                       (''message'', JStr ''Parse error'')])])
                              0)\<rparr>, st1))
      else
        (\<lparr>status = 200,
          headers = [(''Content-Type'', ''application/json'')],
          body = Some (JSON_stringify env
                         (JObj [(''service'', JStr ''OpenStax MCP Server''),
                                (''version'', JStr ''2.0.0''),
                                (''docs'',
                                 JStr ''https://github.com/pythpythpython/openstax-mcp-server'')])
                         0)\<rparr>, st))"

section \<open>The listing, as the specification words it\<close>

text \<open>
  The repositories that are textbooks, the textbook derived from one, and the two filters,
  for repositories that carry a string name.
\<close>

definition repo_name :: "json \<Rightarrow> string" where
  "repo_name r = (case opt_prop r ''name'' of JStr n \<Rightarrow> n | _ \<Rightarrow> [])"

definition listed :: "json \<Rightarrow> bool" where
  "listed r =
     (starts_with (repo_name r) ''osbooks-''
      \<and> \<not> str_includes (repo_name r) ''template''
      \<and> \<not> str_includes (repo_name r) ''playground'')"

definition textbook_of :: "json \<Rightarrow> json" where
  "textbook_of r =
     JObj [(''id'', JStr (repo_name r)),
           (''name'', JStr (display_name (replace_first (repo_name r) ''osbooks-'' ''''))),
           (''repo'', opt_prop r ''html_url''),
           (''description'', opt_prop r ''description''),
           (''language'', JStr (infer_language (replace_first (repo_name r) ''osbooks-'' ''''))),
           (''updated'', opt_prop r ''updated_at''),
           (''stars'', opt_prop r ''stargazers_count'')]"

definition subject_matches :: "json \<Rightarrow> json \<Rightarrow> bool" where
  "subject_matches subject t =
     (case subject of
        JStr s \<Rightarrow>
          (case opt_prop t ''name'' of
             JStr name \<Rightarrow> str_includes (toLowerCase name) (toLowerCase s)
           | _ \<Rightarrow> False)
      | _ \<Rightarrow> True)"

definition language_matches :: "json \<Rightarrow> json \<Rightarrow> bool" where
  "language_matches language t = (\<not> truthy language \<or> opt_prop t ''language'' = language)"

definition list_result :: "json list \<Rightarrow> json" where
  "list_result textbooks =
     JObj [(''textbooks'', JArr textbooks),
           (''count'', JNum (int (length textbooks))),
           (''from_cache'', JBool False)]"

text \<open>
  A subject argument that is absent or a string other than the placeholder of the key, and
  a language argument that is absent or one of the three tags of the tool's schema.
\<close>

definition plain_subject :: "json \<Rightarrow> bool" where
  "plain_subject subject =
     (case subject of JUndefined \<Rightarrow> True | JStr s \<Rightarrow> s \<noteq> ''all'' | _ \<Rightarrow> False)"

definition schema_language :: "json \<Rightarrow> bool" where
  "schema_language language =
     (language = JUndefined \<or> language = JStr ''en'' \<or> language = JStr ''es''
      \<or> language = JStr ''pl'')"

text \<open>The filter an argument stands for: none when it is falsy.\<close>

definition filter_value :: "json \<Rightarrow> json option" where
  "filter_value v = (if truthy v then Some v else None)"

section \<open>Payloads\<close>

text \<open>The payload of a tool result: its properties without the freshness flag.\<close>

definition payload :: "json \<Rightarrow> (string \<times> json) list" where
  "payload v = filter (\<lambda>kv. fst kv \<noteq> ''from_cache'') (spread v)"

text \<open>A freshly computed result: an object whose flag is false.\<close>

definition fresh :: "json \<Rightarrow> bool" where
  "fresh r = (\<exists>kvs. r = JObj kvs \<and> map_of kvs ''from_cache'' = Some (JBool False))"

text \<open>What a later call answers once a result has been stored: the stored copy, flagged.\<close>

definition cached_answer :: "json \<Rightarrow> json" where
  "cached_answer r = from_cache_hit (json_roundtrip r)"

text \<open>
  An operation answers twice: from a state \<open>st\<close> the call returns the result \<open>r\<close>, flagged
  as fresh, and leaves the state \<open>st1\<close>; from there the same call, whatever the
  collaborators answer by then, returns the stored copy of \<open>r\<close>, flagged as cached, and
  leaves the state as it is.  The payload of the second answer is the payload of the
  first as the serialiser writes it.
\<close>

definition answered_twice ::
  "(env \<Rightarrow> json \<Rightarrow> state \<Rightarrow> json result \<times> state) \<Rightarrow> env \<Rightarrow> env \<Rightarrow> json \<Rightarrow> state
     \<Rightarrow> json \<Rightarrow> state \<Rightarrow> bool" where
  "answered_twice operation env env' params st r st1 =
     (operation env params st = (Inr r, st1)
      \<and> opt_prop r ''from_cache'' = JBool False
      \<and> operation env' params st1 = (Inr (cached_answer r), st1)
      \<and> opt_prop (cached_answer r) ''from_cache'' = JBool True
      \<and> payload (cached_answer r) = roundtrip_fields (payload r))"

section \<open>An example environment\<close>

text \<open>
  A concrete environment for the closed examples below: one textbook repository
  \<^verbatim>\<open>osbooks-physics\<close> with the collection \<open>[A \<rightarrow> [m1, m2], B \<rightarrow> [m3]]\<close>, whose module
  \<^verbatim>\<open>m2\<close> cannot be fetched.  The serialiser is a stand-in (the string conversion), and a
  string as \<^verbatim>\<open>end\<close> keeps nothing.
\<close>

definition example_repos :: json where
  "example_repos =
     JArr [JObj [(''name'', JStr ''osbooks-physics''), (''stargazers_count'', JNum 7)],
           JObj [(''name'', JStr ''osbooks-fisica-universitaria-bundle'')],
           JObj [(''name'', JStr ''osbooks-template'')],
           JObj [(''name'', JStr ''cnx-recipes'')]]"

definition example_collection :: json where
  "example_collection =
     JObj [(''collection'',
            parsed_collection [''Physics'']
              [[SubcollectionEl [''A''] [ModuleEl [(''document'', ''m1'')] [''Motion''],
                                        ModuleEl [(''document'', ''m2'')] []],
                SubcollectionEl [''B''] [ModuleEl [(''document'', ''m3'')] []]]])]"

definition example_module :: json where
  "example_module =
     JObj [(''document'',
            JObj [(''title'', JArr [JStr ''Motion'']),
                  (''content'', JArr [JObj [(''para'', JArr [JStr ''Bodies move.''])]])])]"

definition ok_response :: "string \<Rightarrow> json \<Rightarrow> http_response" where
  "ok_response text_value json_value =
     \<lparr>ok = True, statusText = ''OK'', body_text = Inr text_value, body_json = Inr json_value\<rparr>"

definition example_fetch :: "string \<Rightarrow> (string \<times> string) list \<Rightarrow> http_response result" where
  "example_fetch url hs =
     (if url = ''https://api.github.com/orgs/openstax/repos?per_page=100&type=public''
        then Inr (ok_response '''' example_repos)
      else if url = ''https://api.github.com/repos/openstax/osbooks-physics/contents/collections''
        then Inr (ok_response ''''
                    (JArr [JObj [(''name'', JStr ''README.md'')],
                           JObj [(''name'', JStr ''physics.collection.xml''),
                                 (''download_url'', JStr ''https://raw.example/physics'')]]))
      else if url = ''https://raw.example/physics''
        then Inr (ok_response ''collection'' JNull)
      else if url = ''https://raw.githubusercontent.com/openstax/osbooks-physics/main/modules/m1/index.cnxml''
              \<or> url = ''https://raw.githubusercontent.com/openstax/osbooks-physics/main/modules/m3/index.cnxml''
        then Inr (ok_response ''module'' JNull)
      else Inr \<lparr>ok = False, statusText = ''Not Found'',
                 body_text = Inr '''', body_json = Inl (Error ''Unexpected end of JSON input'')\<rparr>)"

definition example_env :: env where
  "example_env =
     \<lparr>fetch = example_fetch,
      parseStringPromise =
        (\<lambda>xml. if xml = ''collection'' then Inr example_collection
                else if xml = ''module'' then Inr example_module
                else Inl (Error ''Unclosed root tag'')),
      new_Ai = Inr (),
      ai_run = (\<lambda>model input. Inr (JObj [(''data'', JArr [JArr [JNum 1, JNum 2]]),
                                         (''response'', JStr ''Problem 1'')])),
      vectorize_query = (\<lambda>entries vector options. Inr (JObj [(''matches'', JArr [])])),
      vectorize_upsert = (\<lambda>entries. Inr ()),
      JSON_stringify = (\<lambda>v indent. case js_string v of Inl e \<Rightarrow> [] | Inr s \<Rightarrow> s),
      slice_count = (\<lambda>s n. 0)\<rparr>"

definition empty_state :: state where
  "empty_state =
     \<lparr>TEXTBOOK_CACHE = Map.empty, PRACTICE_PROBLEMS = Map.empty, NOTEBOOKS = Map.empty,
      VECTORIZE = [], console_error = []\<rparr>"

section \<open>Properties\<close>

lemma and_then_Inr: "and_then r f = Inr y \<Longrightarrow> \<exists>x. r = Inr x \<and> f x = Inr y"
  by (cases r) (simp_all add: and_then_def)

lemma js_string_error:
  "js_string v = Inl e \<Longrightarrow> e = conversion_error"
  "js_elems vs = Inl e \<Longrightarrow> e = conversion_error"
  by (induction v and vs rule: js_string_js_elems.induct)
     (auto split: sum.splits if_splits)

lemma template_error: "template ps = Inl e \<Longrightarrow> e = conversion_error"
proof (induction ps rule: template.induct)
  case 1
  then show ?case by simp
next
  case (2 s ps)
  then show ?case by (auto simp: and_then_def split: sum.splits)
next
  case (3 v ps)
  then show ?case by (auto simp: and_then_def split: sum.splits dest: js_string_error(1))
qed

lemma fetch_structure_modules:
  "fetch_structure env t = Inr r \<Longrightarrow> \<exists>ms. opt_prop r ''modules'' = JArr ms"
  unfolding fetch_structure_def
  by (auto dest!: and_then_Inr split: if_splits)

subsection \<open>Text extraction\<close>

lemma get_prop_opt: "\<not> nullish node \<Longrightarrow> get_prop node k = Inr (opt_prop node k)"
  by (cases node) auto

lemma truthy_not_nullish: "truthy v \<Longrightarrow> \<not> nullish v"
  by (cases v) auto

lemma extractTextContent_tree:
  assumes "truthy node" and "\<not> is_string node"
  shows "extractTextContent node =
     (case (if truthy (opt_prop node ''para'') then extractParas (as_array (opt_prop node ''para''))
            else Inr '''') of
        Inl e \<Rightarrow> Inl e
      | Inr text1 \<Rightarrow>
        (case direct_text node of
           Inl e \<Rightarrow> Inl e
         | Inr text2 \<Rightarrow> Inr (trim (text1 @ text2))))"
proof -
  have "get_prop node ''para'' = Inr (opt_prop node ''para'')"
    and "get_prop node ''_'' = Inr (opt_prop node ''_'')"
    using assms(1) by (simp_all add: get_prop_opt truthy_not_nullish)
  then show ?thesis
    using assms
    by (subst extractTextContent.simps)
       (cases node; simp add: is_string_def direct_text_def split: sum.splits)
qed

lemma extractTextContent_leaf:
  "\<not> truthy node \<Longrightarrow> extractTextContent node = Inr ''''"
  "extractTextContent (JStr s) = Inr s"
  by (simp_all add: extractTextContent.simps)

lemma paragraphs_tree:
  "(if truthy (opt_prop node ''para'') then extractParas (as_array (opt_prop node ''para''))
    else Inr '''') = extractParas (paragraphs node)"
  by (simp add: paragraphs_def)

lemma direct_text_error: "direct_text node = Inl e \<Longrightarrow> e = conversion_error"
  by (auto simp: direct_text_def split: if_splits dest: js_string_error(1))

lemma extractParas_cases:
  "(\<forall>p \<in> set ps. \<exists>s. extractTextContent p = Inr s)
     \<Longrightarrow> extractParas ps = Inr (concat (map (\<lambda>p. projr (extractTextContent p) @ blank_line) ps))"
  "p \<in> set ps \<Longrightarrow> extractTextContent p = Inl conversion_error
     \<Longrightarrow> \<forall>q \<in> set ps. \<forall>e. extractTextContent q = Inl e \<longrightarrow> e = conversion_error
     \<Longrightarrow> extractParas ps = Inl conversion_error"
proof (induction ps)
  case Nil
  { case 1 show ?case by simp }
  { case 2 then show ?case by simp }
next
  case (Cons a ps)
  { case 1
    then obtain s where "extractTextContent a = Inr s" by auto
    with 1 Cons(1) show ?case by (simp add: blank_line_def) }
  { case 2
    show ?case
    proof (cases "extractTextContent a")
      case (Inl e)
      with 2(3) have "e = conversion_error" by simp
      with Inl show ?thesis by simp
    next
      case (Inr s)
      with 2 have "p \<in> set ps" by auto
      from Cons(2) [OF this 2(2)] 2(3) have "extractParas ps = Inl conversion_error" by simp
      with Inr show ?thesis by simp
    qed }
qed

lemma extract_cases:
  "(texts_convert node \<longrightarrow> (\<exists>s. extractTextContent node = Inr s))
   \<and> (\<not> texts_convert node \<longrightarrow> extractTextContent node = Inl conversion_error)"
proof (induction node rule: texts_convert.induct)
  case (1 node)
  show ?case
  proof (cases "truthy node \<and> \<not> is_string node")
    case False
    then have tc: "texts_convert node"
      by (subst texts_convert.simps) blast
    have "\<exists>s. extractTextContent node = Inr s"
    proof (cases "truthy node")
      case True
      with False obtain s where "node = JStr s"
        by (cases node) (auto simp: is_string_def)
      then show ?thesis by (simp add: extractTextContent_leaf)
    next
      case False
      then show ?thesis by (simp add: extractTextContent_leaf)
    qed
    with tc show ?thesis by simp
  next
    case True
    then have t: "truthy node" and ns: "\<not> is_string node" by simp_all
    note eq = extractTextContent_tree [OF t ns, unfolded paragraphs_tree]
    have ih: "\<forall>p \<in> set (paragraphs node).
                (texts_convert p \<longrightarrow> (\<exists>s. extractTextContent p = Inr s))
                \<and> (\<not> texts_convert p \<longrightarrow> extractTextContent p = Inl conversion_error)"
      using 1 by blast
    show ?thesis
    proof (cases "\<forall>p \<in> set (paragraphs node). texts_convert p")
      case all: True
      then have "\<forall>p \<in> set (paragraphs node). \<exists>s. extractTextContent p = Inr s"
        using ih by blast
      from extractParas_cases(1) [OF this] obtain t1 where
        t1: "extractParas (paragraphs node) = Inr t1" by blast
      show ?thesis
      proof (cases "direct_text node")
        case (Inl e)
        then have "e = conversion_error" by (rule direct_text_error)
        with Inl t1 t ns all show ?thesis
          by (subst texts_convert.simps) (simp add: eq)
      next
        case (Inr d)
        with t1 t ns all show ?thesis
          by (subst texts_convert.simps) (simp add: eq)
      qed
    next
      case False
      then obtain p where p: "p \<in> set (paragraphs node)" "\<not> texts_convert p" by blast
      with ih have pe: "extractTextContent p = Inl conversion_error" by blast
      have "\<forall>q \<in> set (paragraphs node). \<forall>e. extractTextContent q = Inl e \<longrightarrow> e = conversion_error"
        using ih by (metis sum.distinct(1) sum.inject(1))
      from extractParas_cases(2) [OF p(1) pe this]
      have "extractParas (paragraphs node) = Inl conversion_error" .
      with t ns False show ?thesis
        by (subst texts_convert.simps) (simp add: eq)
    qed
  qed
qed

lemma dropWhile_last: "dropWhile P xs \<noteq> [] \<Longrightarrow> last (dropWhile P xs) = last xs"
  by (induction xs) (auto split: if_splits)

lemma trim_edges:
  "trim s = [] \<or> (\<not> is_space (hd (trim s)) \<and> \<not> is_space (last (trim s)))"
proof (cases "trim s = []")
  case True
  then show ?thesis by simp
next
  case False
  let ?t = "dropWhile is_space s"
  let ?u = "dropWhile is_space (rev ?t)"
  from False have u: "?u \<noteq> []" by (simp add: trim_def)
  have t: "?t \<noteq> []"
  proof
    assume e: "?t = []"
    have "?u = []" unfolding e by simp
    with u show False by simp
  qed
  have "\<not> is_space (hd ?u)" using u by (rule hd_dropWhile)
  then have a: "\<not> is_space (last (trim s))"
    using u by (simp add: trim_def last_rev)
  have "last ?u = last (rev ?t)" using u by (rule dropWhile_last)
  then have "hd (trim s) = hd ?t"
    using u t by (simp add: trim_def hd_rev last_rev)
  moreover have "\<not> is_space (hd ?t)" using t by (rule hd_dropWhile)
  ultimately show ?thesis using a by simp
qed

text \<open>
  Claim C9 (amended).  \<open>extractTextContent\<close> returns a string exactly on the inputs whose
  texts convert to strings (\<open>texts_convert\<close>); on any other input it raises the error of
  the failed conversion.  A falsy input, \<^verbatim>\<open>null\<close> and \<^verbatim>\<open>undefined\<close> among them, gives the
  empty string, a string is returned as it is, and a tree gives the texts of its paragraph
  children, each followed by a blank line, then the node's own text, the whole trimmed:
  what a tree returns neither starts nor ends with white space.
\<close>

theorem extractTextContent_returns:
  "(texts_convert node \<longrightarrow> (\<exists>s. extractTextContent node = Inr s))
   \<and> (\<not> texts_convert node \<longrightarrow> extractTextContent node = Inl conversion_error)
   \<and> (\<not> truthy node \<longrightarrow> extractTextContent node = Inr '''')
   \<and> (\<forall>s. node = JStr s \<longrightarrow> extractTextContent node = Inr s)
   \<and> (truthy node \<and> \<not> is_string node \<and> texts_convert node \<longrightarrow>
        extractTextContent node =
          Inr (trim (concat (map (\<lambda>p. projr (extractTextContent p) @ blank_line) (paragraphs node))
                     @ projr (direct_text node))))
   \<and> (\<forall>s. truthy node \<and> \<not> is_string node \<and> extractTextContent node = Inr s \<longrightarrow>
          s = [] \<or> (\<not> is_space (hd s) \<and> \<not> is_space (last s)))"
proof -
  note a = extract_cases [of node]
  have b: "\<not> truthy node \<longrightarrow> extractTextContent node = Inr ''''"
    by (simp add: extractTextContent_leaf)
  have c: "\<forall>s. node = JStr s \<longrightarrow> extractTextContent node = Inr s"
    by (simp add: extractTextContent_leaf)
  have d: "extractTextContent node =
          Inr (trim (concat (map (\<lambda>p. projr (extractTextContent p) @ blank_line) (paragraphs node))
                     @ projr (direct_text node)))"
    if t: "truthy node" and ns: "\<not> is_string node" and tc: "texts_convert node"
  proof -
    from tc have "\<not> truthy node \<or> is_string node
        \<or> ((\<forall>p \<in> set (paragraphs node). texts_convert p) \<and> \<not> isl (direct_text node))"
      by (subst (asm) texts_convert.simps)
    with t ns have ps: "\<forall>p \<in> set (paragraphs node). texts_convert p"
      and dt: "\<not> isl (direct_text node)"
      by simp_all
    from ps have "\<forall>p \<in> set (paragraphs node). \<exists>s. extractTextContent p = Inr s"
      using extract_cases by blast
    note e = extractParas_cases(1) [OF this]
    from dt obtain d where d: "direct_text node = Inr d" by (cases "direct_text node") auto
    show ?thesis
      by (simp add: extractTextContent_tree [OF t ns, unfolded paragraphs_tree] e d)
  qed
  have e: "s = [] \<or> (\<not> is_space (hd s) \<and> \<not> is_space (last s))"
    if t: "truthy node" and ns: "\<not> is_string node" and r: "extractTextContent node = Inr s" for s
  proof -
    from r obtain x where "s = trim x"
      by (auto simp: extractTextContent_tree [OF t ns] split: sum.splits if_splits)
    then show ?thesis using trim_edges [of x] by simp
  qed
  from a b c d e show ?thesis by blast
qed

theorem extractTextContent_returns_witness:
  "texts_convert (JObj [(''para'', JArr [JStr ''a'', JObj [(''_'', JStr ''b '')]]),
                        (''_'', JStr ('' c '' @ [CHR 0xA0, CHR 0x09]))])
   \<and> extractTextContent (JObj [(''para'', JArr [JStr ''a'', JObj [(''_'', JStr ''b '')]]),
                                (''_'', JStr ('' c '' @ [CHR 0xA0, CHR 0x09]))])
       = Inr (''a'' @ [CHR 0x0A, CHR 0x0A] @ ''b'' @ [CHR 0x0A, CHR 0x0A] @ '' c'')
   \<and> extractTextContent JNull = Inr ''''
   \<and> extractTextContent JUndefined = Inr ''''
   \<and> extractTextContent (JStr '' x '') = Inr '' x ''
   \<and> extractTextContent (JObj [(''para'', JArr [JStr ''a'']), (''_'', JNum 12)])
       = Inr (''a'' @ [CHR 0x0A, CHR 0x0A] @ ''12'')
   \<and> extractTextContent (JObj [(''_'', JStr (CHR 0xA0 # ''d''))]) = Inr ''d''"
proof -
  have d: "extractTextContent (JObj [(''_'', JStr (CHR 0xA0 # ''d''))]) = Inr ''d''"
    by (simp add: extractTextContent.simps trim_def is_space_def)
  let ?tree = "JObj [(''para'', JArr [JStr ''a'', JObj [(''_'', JStr ''b '')]]),
                     (''_'', JStr ('' c '' @ [CHR 0xA0, CHR 0x09]))]"
  have b: "extractTextContent (JObj [(''_'', JStr ''b '')]) = Inr ''b''"
    by (simp add: extractTextContent.simps trim_def is_space_def)
  have ev: "extractTextContent ?tree
              = Inr (''a'' @ [CHR 0x0A, CHR 0x0A] @ ''b'' @ [CHR 0x0A, CHR 0x0A] @ '' c'')"
    by (subst extractTextContent.simps) (simp add: b extractTextContent_leaf trim_def is_space_def)
  have n: "extractTextContent (JObj [(''para'', JArr [JStr ''a'']), (''_'', JNum 12)])
       = Inr (''a'' @ [CHR 0x0A, CHR 0x0A] @ ''12'')"
    by (subst extractTextContent.simps)
       (simp add: extractTextContent_leaf trim_def is_space_def show_number_def number_value_def
          show_nat.simps)
  have "\<not> texts_convert ?tree \<longrightarrow> extractTextContent ?tree = Inl conversion_error"
    using extractTextContent_returns [of ?tree] by blast
  then have "texts_convert ?tree"
    unfolding ev by simp
  with ev n d extractTextContent_returns [of JNull] extractTextContent_returns [of JUndefined]
    extractTextContent_returns [of "JStr '' x ''"]
  show ?thesis by simp
qed

text \<open>
  The claim as stated fails: the node's own text is appended with \<^verbatim>\<open>+=\<close>, which converts
  it to a string, and an object with an own property \<^verbatim>\<open>toString\<close> that is not a function
  has no conversion.
\<close>

theorem extractTextContent_returns_counterexample:
  "extractTextContent (JObj [(''_'', JObj [(''toString'', JNum 1)])])
     = Inl (TypeError ''Cannot convert object to primitive value'')"
  by (simp add: extractTextContent.simps conversion_error_def)

subsection \<open>Module listing: order and invariants\<close>

lemma element_object_not_nullish: "\<not> nullish (element_object kvs)"
  by (simp add: element_object_def)

lemma opt_prop_element_object:
  "opt_prop (element_object kvs) k = (case map_of kvs k of None \<Rightarrow> JUndefined | Some v \<Rightarrow> v)"
  by (simp add: element_object_def)

lemma get_prop_element_object:
  "get_prop (element_object kvs) k = Inr (case map_of kvs k of None \<Rightarrow> JUndefined | Some v \<Rightarrow> v)"
  by (simp add: element_object_def)

lemma map_of_child_group:
  "map_of (child_group tag xs @ rest) k =
     (if k = tag \<and> xs \<noteq> [] then Some (JArr xs) else map_of rest k)"
  by (simp add: child_group_def)

lemma map_of_child_group_last:
  "map_of (child_group tag xs) k = (if k = tag \<and> xs \<noteq> [] then Some (JArr xs) else None)"
  by (simp add: child_group_def)

lemma module_entry_parsed:
  "module_entry (parsed (ModuleEl attrs titles)) = Inr (module_ref attrs titles)"
proof (cases "attrs = []")
  case True
  then show ?thesis
    by (simp add: module_entry_def get_prop_element_object map_of_child_group_last module_ref_def)
next
  case False
  have m: "map_of (map (\<lambda>(k, v). (k, JStr v)) attrs) ''document''
             = map_option JStr (map_of attrs ''document'')"
    by (simp add: map_of_map)
  show ?thesis
  proof (cases "map_of attrs ''document''")
    case None
    then show ?thesis using False m
      by (simp add: module_entry_def get_prop_element_object module_ref_def)
  next
    case (Some d)
    then show ?thesis using False m
      by (cases titles)
         (simp_all add: module_entry_def get_prop_element_object module_ref_def
            map_of_child_group_last or_else_def del: map_of_append)
  qed
qed

lemma module_entries_parsed:
  "\<forall>c \<in> set cs. is_module c \<Longrightarrow>
     module_entries (map parsed cs) = Inr (concat (map grouped_order cs))"
proof (induction cs)
  case Nil
  then show ?case by simp
next
  case (Cons c cs)
  then obtain attrs titles where c: "c = ModuleEl attrs titles"
    by (cases c) auto
  from Cons show ?case
    by (simp add: c module_entry_parsed del: parsed.simps)
qed

lemma traverse_all_map:
  "\<forall>c \<in> set cs. traverse (parsed c) = Inr (grouped_order c) \<Longrightarrow>
     traverse_all (map parsed cs) = Inr (concat (map grouped_order cs))"
  by (induction cs) simp_all

lemma get_module_parsed:
  "get_prop (parsed (SubcollectionEl titles children)) ''module''
     = Inr (if filter is_module children = [] then JUndefined
            else JArr (map parsed (filter is_module children)))"
  by (simp add: get_prop_element_object child_group_def)

lemma get_subcollection_parsed:
  "get_prop (parsed (SubcollectionEl titles children)) ''subcollection''
     = Inr (if filter (\<lambda>c. \<not> is_module c) children = [] then JUndefined
            else JArr (map parsed (filter (\<lambda>c. \<not> is_module c) children)))"
  by (simp add: get_prop_element_object child_group_def)

lemma traverse_parsed:
  "\<not> is_module c \<Longrightarrow> traverse (parsed c) = Inr (grouped_order c)"
proof (induction c)
  case (ModuleEl attrs titles)
  then show ?case by simp
next
  case (SubcollectionEl titles children)
  let ?ms = "filter is_module children"
  let ?ss = "filter (\<lambda>c. \<not> is_module c) children"
  have subs: "traverse_all (map parsed ?ss) = Inr (concat (map grouped_order ?ss))"
    by (rule traverse_all_map) (simp add: SubcollectionEl.IH)
  have mods: "module_entries (map parsed ?ms) = Inr (concat (map grouped_order ?ms))"
    by (rule module_entries_parsed) simp
  have m0: "?ms = [] \<Longrightarrow> concat (map grouped_order ?ms) = []"
    by (simp del: filter_False)
  have s0: "?ss = [] \<Longrightarrow> concat (map grouped_order ?ss) = []"
    by (simp del: filter_False)
  have "traverse (parsed (SubcollectionEl titles children))
          = Inr (concat (map grouped_order ?ms) @ concat (map grouped_order ?ss))"
    apply (subst traverse.simps)
    apply (simp only: get_module_parsed get_subcollection_parsed sum.case)
    apply (cases "?ms = []"; cases "?ss = []")
       apply (simp_all only: if_True if_False truthy.simps as_array.simps subs mods sum.case
          m0 s0 append_Nil append_Nil2)
      apply simp_all
    done
  then show ?case by simp
qed

lemma extractModules_parsed:
  "extractModules (parsed_collection titles contents)
     = Inr (concat (map (\<lambda>cs. grouped_order (SubcollectionEl [] cs)) contents))"
proof -
  have "traverse_all (map parsed_content contents)
          = Inr (concat (map (\<lambda>cs. grouped_order (SubcollectionEl [] cs)) contents))"
    by (induction contents) (simp_all add: parsed_content_def traverse_parsed del: parsed.simps grouped_order.simps)
  then show ?thesis
    by (simp add: extractModules_def parsed_collection_def get_prop_element_object
          map_of_child_group map_of_child_group_last del: map_of_append grouped_order.simps)
qed


lemma filter_modules_lead:
  "modules_lead cs \<Longrightarrow>
     filter is_module cs @ filter (\<lambda>c. \<not> is_module c) cs = cs"
proof (induction cs)
  case Nil
  show ?case by simp
next
  case (Cons c cs)
  show ?case
  proof (cases "is_module c")
    case True
    with Cons show ?thesis by simp
  next
    case False
    with Cons.prems have none: "\<forall>x \<in> set cs. \<not> is_module x" by simp
    have "filter is_module cs = []"
      using none by (rule filter_False)
    moreover have "filter (\<lambda>c. \<not> is_module c) cs = cs"
      using none by (intro filter_True) blast
    ultimately show ?thesis using False by simp
  qed
qed

lemma grouped_is_document_order:
  "modules_first c \<Longrightarrow> grouped_order c = document_order c"
proof (induction c)
  case (ModuleEl attrs titles)
  then show ?case by simp
next
  case (SubcollectionEl titles children)
  then have lead: "modules_lead children"
    and ih: "\<And>c. c \<in> set children \<Longrightarrow> grouped_order c = document_order c"
    by simp_all
  have "concat (map grouped_order (filter is_module children))
          @ concat (map grouped_order (filter (\<lambda>c. \<not> is_module c) children))
        = concat (map grouped_order
            (filter is_module children @ filter (\<lambda>c. \<not> is_module c) children))"
    by (simp only: map_append concat_append)
  also have "\<dots> = concat (map grouped_order children)"
    by (simp only: filter_modules_lead [OF lead])
  also have "map grouped_order children = map document_order children"
    using ih by (rule map_cong [OF refl])
  finally show ?case by (simp only: grouped_order.simps document_order.simps)
qed


lemma truthy_opt_prop_obj:
  "truthy (opt_prop a k) \<Longrightarrow> \<not> nullish a"
  by (cases a) auto

lemma module_entry_value:
  assumes "\<not> nullish el"
  shows "module_entry el =
     Inr (if truthy (opt_prop (opt_prop el ''$'') ''document'')
          then [JObj [(''id'', opt_prop (opt_prop el ''$'') ''document''),
                      (''title'', or_else (opt_first (opt_prop el ''title'')) (JStr ''Untitled''))]]
          else [])"
proof -
  have a: "get_prop el ''$'' = Inr (opt_prop el ''$'')"
    and t: "get_prop el ''title'' = Inr (opt_prop el ''title'')"
    using assms by (simp_all add: get_prop_opt)
  show ?thesis
  proof (cases "truthy (opt_prop (opt_prop el ''$'') ''document'')")
    case True
    then have "get_prop (opt_prop el ''$'') ''document''
                 = Inr (opt_prop (opt_prop el ''$'') ''document'')"
      by (intro get_prop_opt truthy_opt_prop_obj)
    with True a t show ?thesis by (simp add: module_entry_def)
  next
    case False
    with a show ?thesis by (simp add: module_entry_def)
  qed
qed

lemma truthy_or_else: "truthy b \<Longrightarrow> truthy (or_else a b)"
  by (simp add: or_else_def)

lemma module_entry_valid:
  "\<not> nullish el \<Longrightarrow> \<exists>ms. module_entry el = Inr ms \<and> (\<forall>m \<in> set ms. valid_ref m)"
  by (simp add: module_entry_value valid_ref_def truthy_or_else)

lemma null_free_not_nullish: "null_free v \<Longrightarrow> \<not> nullish v"
  by (cases v) auto

lemma null_free_fields_lookup:
  "null_free_fields kvs \<Longrightarrow> map_of kvs k = Some v \<Longrightarrow> null_free v"
  by (induction kvs) (auto split: if_splits)

lemma null_free_children:
  assumes "null_free node" and "truthy (opt_prop node k)"
  shows "null_free_list (as_array (opt_prop node k))"
proof -
  have "null_free (opt_prop node k)"
    using assms by (cases node) (auto split: option.splits dest: null_free_fields_lookup)
  then show ?thesis
    by (cases "opt_prop node k") auto
qed

lemma module_entries_valid:
  "null_free_list els \<Longrightarrow>
     \<exists>ms. module_entries els = Inr ms \<and> (\<forall>m \<in> set ms. valid_ref m)"
proof (induction els)
  case Nil
  then show ?case by simp
next
  case (Cons el els)
  then obtain a b where "module_entry el = Inr a" "\<forall>m \<in> set a. valid_ref m"
    "module_entries els = Inr b" "\<forall>m \<in> set b. valid_ref m"
    using module_entry_valid [of el] by (auto dest: null_free_not_nullish)
  then show ?case by auto
qed

lemma traverse_valid:
  "null_free node \<Longrightarrow> \<exists>ms. traverse node = Inr ms \<and> (\<forall>m \<in> set ms. valid_ref m)"
  "null_free_list nodes \<Longrightarrow> \<exists>ms. traverse_all nodes = Inr ms \<and> (\<forall>m \<in> set ms. valid_ref m)"
proof (induction node and nodes rule: traverse_traverse_all.induct)
  case (1 node)
  then have nn: "\<not> nullish node" by (simp add: null_free_not_nullish)
  have gm: "get_prop node ''module'' = Inr (opt_prop node ''module'')"
    and gs: "get_prop node ''subcollection'' = Inr (opt_prop node ''subcollection'')"
    using nn by (simp_all add: get_prop_opt)
  obtain ms where ms: "(if truthy (opt_prop node ''module'')
                         then module_entries (as_array (opt_prop node ''module'')) else Inr []) = Inr ms"
      "\<forall>m \<in> set ms. valid_ref m"
  proof (cases "truthy (opt_prop node ''module'')")
    case True
    with module_entries_valid [OF null_free_children [OF "1.prems" True]] that
    show ?thesis by auto
  next
    case False
    with that show ?thesis by simp
  qed
  obtain ss where ss: "(if truthy (opt_prop node ''subcollection'')
                         then traverse_all (as_array (opt_prop node ''subcollection'')) else Inr []) = Inr ss"
      "\<forall>m \<in> set ss. valid_ref m"
  proof (cases "truthy (opt_prop node ''subcollection'')")
    case True
    with "1.IH" [OF gm ms(1) gs True null_free_children [OF "1.prems" True]] that
    show ?thesis by auto
  next
    case False
    with that show ?thesis by simp
  qed
  have "traverse node = Inr (ms @ ss)"
    using gm gs ms(1) ss(1) by (subst traverse.simps) simp
  with ms(2) ss(2) show ?case by auto
next
  case 2
  then show ?case by simp
next
  case (3 node nodes)
  from 3 have a: "null_free node" and b: "null_free_list nodes" by simp_all
  from "3.IH"(1) [OF a] obtain ms where ms: "traverse node = Inr ms" "\<forall>m \<in> set ms. valid_ref m"
    by blast
  from "3.IH"(2) [OF ms(1) b] obtain rest where rest: "traverse_all nodes = Inr rest" "\<forall>m \<in> set rest. valid_ref m"
    by blast
  from ms rest show ?case by auto
qed

lemma extractModules_valid:
  assumes "null_free collection"
  shows "\<exists>ms. extractModules collection = Inr ms \<and> (\<forall>m \<in> set ms. valid_ref m)
           \<and> (\<not> truthy (opt_prop collection ''content'') \<longrightarrow> ms = [])"
proof -
  have g: "get_prop collection ''content'' = Inr (opt_prop collection ''content'')"
    using assms by (simp add: get_prop_opt null_free_not_nullish)
  show ?thesis
  proof (cases "truthy (opt_prop collection ''content'')")
    case True
    from traverse_valid(2) [OF null_free_children [OF assms True]] True g
    show ?thesis by (simp add: extractModules_def)
  next
    case False
    with g show ?thesis by (simp add: extractModules_def)
  qed
qed

text \<open>
  Claim C2 (amended).  On the parse of a collection document the extractor emits, at each
  element, the references of the directly attached module elements that carry a
  non-empty document attribute, in their order, and then those of the subcollection
  children, depth first and in their order.  That is document order whenever no module
  element follows a subcollection among the children of one element; a collection
  \<open>[A \<rightarrow> [m1, m2], B \<rightarrow> [m3]]\<close> yields \<open>[m1, m2, m3]\<close>.
\<close>

theorem extractModules_order:
  "extractModules (parsed_collection titles contents)
     = Inr (concat (map (\<lambda>cs. grouped_order (SubcollectionEl [] cs)) contents))
   \<and> ((\<forall>cs \<in> set contents. modules_first (SubcollectionEl [] cs)) \<longrightarrow>
        extractModules (parsed_collection titles contents)
          = Inr (concat (map (\<lambda>cs. document_order (SubcollectionEl [] cs)) contents)))"
proof (intro conjI impI)
  show g: "extractModules (parsed_collection titles contents)
     = Inr (concat (map (\<lambda>cs. grouped_order (SubcollectionEl [] cs)) contents))"
    by (rule extractModules_parsed)
  assume a: "\<forall>cs \<in> set contents. modules_first (SubcollectionEl [] cs)"
  have d: "map (\<lambda>cs. grouped_order (SubcollectionEl [] cs)) contents
             = map (\<lambda>cs. document_order (SubcollectionEl [] cs)) contents"
  proof (rule map_cong [OF refl])
    fix cs assume "cs \<in> set contents"
    with a have "modules_first (SubcollectionEl [] cs)" by blast
    then show "grouped_order (SubcollectionEl [] cs) = document_order (SubcollectionEl [] cs)"
      by (rule grouped_is_document_order)
  qed
  show "extractModules (parsed_collection titles contents)
          = Inr (concat (map (\<lambda>cs. document_order (SubcollectionEl [] cs)) contents))"
    by (simp only: g d)
qed

theorem extractModules_order_witness:
  "modules_first
     (SubcollectionEl [] [SubcollectionEl [''A''] [ModuleEl [(''document'', ''m1'')] [''One''],
                                                  ModuleEl [(''document'', ''m2'')] []],
                          SubcollectionEl [''B''] [ModuleEl [(''document'', ''m3'')] []]])
   \<and> extractModules
        (parsed_collection [''Book'']
          [[SubcollectionEl [''A''] [ModuleEl [(''document'', ''m1'')] [''One''],
                                    ModuleEl [(''document'', ''m2'')] []],
            SubcollectionEl [''B''] [ModuleEl [(''document'', ''m3'')] []]]])
      = Inr [JObj [(''id'', JStr ''m1''), (''title'', JStr ''One'')],
             JObj [(''id'', JStr ''m2''), (''title'', JStr ''Untitled'')],
             JObj [(''id'', JStr ''m3''), (''title'', JStr ''Untitled'')]]"
  using extractModules_order [of "[''Book'']"
          "[[SubcollectionEl [''A''] [ModuleEl [(''document'', ''m1'')] [''One''],
                                     ModuleEl [(''document'', ''m2'')] []],
             SubcollectionEl [''B''] [ModuleEl [(''document'', ''m3'')] []]]]"]
  by (simp add: module_ref_def)

text \<open>
  The claim as stated fails where a module element follows a subcollection: the document
  \<open>[A \<rightarrow> [m1], m2]\<close> has document order \<open>[m1, m2]\<close>, the extractor returns \<open>[m2, m1]\<close>.
\<close>

theorem extractModules_order_counterexample:
  "extractModules
     (parsed_collection [''Book'']
        [[SubcollectionEl [''A''] [ModuleEl [(''document'', ''m1'')] []],
          ModuleEl [(''document'', ''m2'')] []]])
     = Inr [JObj [(''id'', JStr ''m2''), (''title'', JStr ''Untitled'')],
            JObj [(''id'', JStr ''m1''), (''title'', JStr ''Untitled'')]]
   \<and> document_order
        (SubcollectionEl [] [SubcollectionEl [''A''] [ModuleEl [(''document'', ''m1'')] []],
                             ModuleEl [(''document'', ''m2'')] []])
     = [JObj [(''id'', JStr ''m1''), (''title'', JStr ''Untitled'')],
        JObj [(''id'', JStr ''m2''), (''title'', JStr ''Untitled'')]]"
  by (simp add: extractModules_parsed module_ref_def)

text \<open>
  Claim C8.  On a tree without \<^verbatim>\<open>null\<close> or \<^verbatim>\<open>undefined\<close> inside (every parse of a
  document is one) the extraction returns a list; every reference in it has a non-empty id
  and a title; the list is empty when the collection has no content.  A module element
  contributes its document attribute as id and its first title, or the sentinel
  \<open>Untitled\<close> when that is absent or empty; an element without a document attribute
  contributes nothing and raises nothing.  The \<open>modules\<close> field of every freshly resolved
  structure is a list.
\<close>

theorem extractModules_references:
  assumes "null_free collection"
  shows "\<exists>ms. extractModules collection = Inr ms
           \<and> (\<forall>m \<in> set ms. truthy (opt_prop m ''id'') \<and> truthy (opt_prop m ''title''))
           \<and> (\<not> truthy (opt_prop collection ''content'') \<longrightarrow> ms = [])
           \<and> (\<forall>el. \<not> nullish el \<longrightarrow>
                 module_entry el =
                   Inr (if truthy (opt_prop (opt_prop el ''$'') ''document'')
                        then [JObj [(''id'', opt_prop (opt_prop el ''$'') ''document''),
                                    (''title'', or_else (opt_first (opt_prop el ''title''))
                                                  (JStr ''Untitled''))]]
                        else []))
           \<and> (\<forall>env textbook_id fetched.
                 fetch_structure env textbook_id = Inr fetched
                 \<longrightarrow> (\<exists>listed_modules. opt_prop fetched ''modules'' = JArr listed_modules))"
  using extractModules_valid [OF assms] module_entry_value fetch_structure_modules
  unfolding valid_ref_def by blast

theorem extractModules_references_witness:
  "null_free (JObj [(''content'', JArr [JObj [(''module'',
       JArr [JObj [(''$'', JObj [(''document'', JStr ''m1'')])], JObj [(''title'', JArr [JStr ''T''])]])]])])
   \<and> extractModules (JObj [(''content'', JArr [JObj [(''module'',
       JArr [JObj [(''$'', JObj [(''document'', JStr ''m1'')])], JObj [(''title'', JArr [JStr ''T''])]])]])])
      = Inr [JObj [(''id'', JStr ''m1''), (''title'', JStr ''Untitled'')]]
   \<and> extractModules (JObj [(''title'', JArr [JStr ''Book''])]) = Inr []"
proof -
  have n: "null_free (JObj [(''content'', JArr [JObj [(''module'',
       JArr [JObj [(''$'', JObj [(''document'', JStr ''m1'')])], JObj [(''title'', JArr [JStr ''T''])]])]])])"
    by simp
  have e: "module_entry (JObj [(''$'', JObj [(''document'', JStr ''m1'')])])
             = Inr [JObj [(''id'', JStr ''m1''), (''title'', JStr ''Untitled'')]]"
    by (simp add: module_entry_def or_else_def)
  have e': "module_entry (JObj [(''title'', JArr [JStr ''T''])]) = Inr []"
    by (simp add: module_entry_def)
  have v: "extractModules (JObj [(''content'', JArr [JObj [(''module'',
       JArr [JObj [(''$'', JObj [(''document'', JStr ''m1'')])], JObj [(''title'', JArr [JStr ''T''])]])]])])
      = Inr [JObj [(''id'', JStr ''m1''), (''title'', JStr ''Untitled'')]]"
    by (simp add: extractModules_def traverse.simps e e')
  have w: "extractModules (JObj [(''title'', JArr [JStr ''Book''])]) = Inr []"
    by (simp add: extractModules_def)
  from extractModules_references [OF n] n v w show ?thesis
    by blast
qed

subsection \<open>Dispatcher and worker\<close>

lemma opt_prop_errorResponse_id [simp]: "opt_prop (errorResponse i c m) ''id'' = i"
  by (simp add: errorResponse_def)

lemma handleToolCall_response:
  assumes "\<not> nullish (opt_prop request ''params'')"
  shows "\<exists>st'. handleToolCall env request st =
     (Inr (case call_tool env (opt_prop (opt_prop request ''params'') ''name'')
                  (opt_prop (opt_prop request ''params'') ''arguments'') st of
             None \<Rightarrow>
               (case template [Lit ''Unknown tool: '',
                               Sub (opt_prop (opt_prop request ''params'') ''name'')] of
                  Inr message \<Rightarrow> errorResponse (opt_prop request ''id'') (- 32602) message
                | Inl error \<Rightarrow>
                    errorResponse (opt_prop request ''id'') (- 32603)
                      (''Tool execution error: '' @ error_message error))
           | Some (Inl error, st1) \<Rightarrow>
               errorResponse (opt_prop request ''id'') (- 32603)
                 (''Tool execution error: '' @ error_message error)
           | Some (Inr result, st1) \<Rightarrow>
               JObj [(''jsonrpc'', JStr ''2.0''),
                     (''id'', opt_prop request ''id''),
                     (''result'',
                      JObj [(''content'',
                             JArr [JObj [(''type'', JStr ''text''),
                                         (''text'', JStr (JSON_stringify env result 2))]])])]),
      st')"
proof -
  have r: "\<not> nullish request"
    using assms by (cases request) auto
  have p: "get_prop request ''params'' = Inr (opt_prop request ''params'')"
    using r by (rule get_prop_opt)
  have n: "get_prop (opt_prop request ''params'') ''name''
             = Inr (opt_prop (opt_prop request ''params'') ''name'')"
    using assms by (rule get_prop_opt)
  show ?thesis
    by (simp add: handleToolCall_def p n and_then_def split: option.splits sum.splits prod.splits)
qed

text \<open>
  A \<^verbatim>\<open>tools/call\<close> request that carries its \<^verbatim>\<open>params\<close> always gets a response, and the
  response carries the request's id: the invalid-params error for an unknown tool, the
  internal error with the exception's message when the delegated operation raises, the
  text envelope of the result when it succeeds.
\<close>

lemma tools_call_with_params:
  assumes "opt_prop request ''method'' = JStr ''tools/call''"
    and "\<not> nullish (opt_prop request ''params'')"
  shows "\<exists>response st'.
           handleRequest env request st = (Inr response, st')
           \<and> opt_prop response ''id'' = opt_prop request ''id''
           \<and> (\<forall>message.
                 call_tool env (opt_prop (opt_prop request ''params'') ''name'')
                   (opt_prop (opt_prop request ''params'') ''arguments'') st = None
                 \<and> template [Lit ''Unknown tool: '',
                              Sub (opt_prop (opt_prop request ''params'') ''name'')] = Inr message
                 \<longrightarrow> response = errorResponse (opt_prop request ''id'') (- 32602) message)
           \<and> (\<forall>error st1.
                 call_tool env (opt_prop (opt_prop request ''params'') ''name'')
                   (opt_prop (opt_prop request ''params'') ''arguments'') st = Some (Inl error, st1)
                 \<longrightarrow> response = errorResponse (opt_prop request ''id'') (- 32603)
                                  (''Tool execution error: '' @ error_message error))
           \<and> (\<forall>result st1.
                 call_tool env (opt_prop (opt_prop request ''params'') ''name'')
                   (opt_prop (opt_prop request ''params'') ''arguments'') st = Some (Inr result, st1)
                 \<longrightarrow> opt_prop response ''error'' = JUndefined
                     \<and> opt_prop response ''result''
                         = JObj [(''content'',
                                  JArr [JObj [(''type'', JStr ''text''),
                                              (''text'', JStr (JSON_stringify env result 2))]])])"
proof -
  have r: "\<not> nullish request"
    using assms(2) by (cases request) auto
  have m: "get_prop request ''method'' = Inr (JStr ''tools/call'')"
    using r assms(1) by (simp add: get_prop_opt)
  have h: "handleRequest env request st = handleToolCall env request st"
    by (simp add: handleRequest_def m)
  from handleToolCall_response [OF assms(2), of env st] obtain st' where
    "handleToolCall env request st =
     (Inr (case call_tool env (opt_prop (opt_prop request ''params'') ''name'')
                  (opt_prop (opt_prop request ''params'') ''arguments'') st of
             None \<Rightarrow>
               (case template [Lit ''Unknown tool: '',
                               Sub (opt_prop (opt_prop request ''params'') ''name'')] of
                  Inr message \<Rightarrow> errorResponse (opt_prop request ''id'') (- 32602) message
                | Inl error \<Rightarrow>
                    errorResponse (opt_prop request ''id'') (- 32603)
                      (''Tool execution error: '' @ error_message error))
           | Some (Inl error, st1) \<Rightarrow>
               errorResponse (opt_prop request ''id'') (- 32603)
                 (''Tool execution error: '' @ error_message error)
           | Some (Inr result, st1) \<Rightarrow>
               JObj [(''jsonrpc'', JStr ''2.0''),
                     (''id'', opt_prop request ''id''),
                     (''result'',
                      JObj [(''content'',
                             JArr [JObj [(''type'', JStr ''text''),
                                         (''text'', JStr (JSON_stringify env result 2))]])])]),
      st')" ..
  then show ?thesis
    unfolding h
    by (cases "call_tool env (opt_prop (opt_prop request ''params'') ''name'')
                  (opt_prop (opt_prop request ''params'') ''arguments'') st")
       (auto simp: errorResponse_def split: sum.splits prod.splits)
qed

lemma tools_call_with_params_example:
  "fst (handleRequest example_env
          (JObj [(''jsonrpc'', JStr ''2.0''), (''id'', JNum 7), (''method'', JStr ''tools/call''),
                 (''params'', JObj [(''name'', JStr ''get_module_content''),
                                    (''arguments'', JObj [(''textbook_id'', JStr ''osbooks-physics''),
                                                          (''module_id'', JStr ''m2'')])])])
          empty_state)
     = Inr (errorResponse (JNum 7) (- 32603) ''Tool execution error: Module m2 not found'')"
proof -
  have c: "call_tool example_env (JStr ''get_module_content'')
             (JObj [(''textbook_id'', JStr ''osbooks-physics''), (''module_id'', JStr ''m2'')])
             empty_state
           = Some (Inl (Error ''Module m2 not found''), empty_state)"
    by (simp add: call_tool_def getModuleContent_def kv_get_def empty_state_def default_to_def
          fetch_module_def example_env_def example_fetch_def and_then_def module_cache_key_def)
  from tools_call_with_params
         [of "JObj [(''jsonrpc'', JStr ''2.0''), (''id'', JNum 7), (''method'', JStr ''tools/call''),
                    (''params'', JObj [(''name'', JStr ''get_module_content''),
                                       (''arguments'', JObj [(''textbook_id'', JStr ''osbooks-physics''),
                                                             (''module_id'', JStr ''m2'')])])]"
             example_env empty_state]
  show ?thesis
    by (simp add: c) force
qed

text \<open>
  Claim C1 does not hold of the code: a \<^verbatim>\<open>tools/call\<close> request without \<^verbatim>\<open>params\<close> gets no
  response from the dispatcher, whose promise rejects, and the worker answers it with the
  parse error, whose id is \<^verbatim>\<open>null\<close> and not the id of the request.  The handlers of both
  \<^verbatim>\<open>try\<close> blocks answer with the id of the request; the destructuring of
  \<^verbatim>\<open>request.params\<close> stands before the one and the promise is returned without \<^verbatim>\<open>await\<close>
  inside the other.
\<close>

theorem tools_call_without_params_loses_id:
  "isl (fst (handleRequest env
               (JObj [(''jsonrpc'', JStr ''2.0''), (''id'', JNum 1), (''method'', JStr ''tools/call'')])
               st))
   \<and> worker_fetch env \<lparr>request_method = ''POST'', request_url = ''https://worker.example/'',
       request_json = Inr (JObj [(''jsonrpc'', JStr ''2.0''), (''id'', JNum 1), (''method'', JStr ''tools/call'')])\<rparr> st
     = (\<lparr>status = 400,
               headers = [(''Content-Type'', ''application/json'')],
               body = Some (JSON_stringify env
                              (JObj [(''jsonrpc'', JStr ''2.0''),
                                     (''id'', JNull),
                                     (''error'', JObj [(''code'', JNum (- 32700)),
                                                       (''message'', JStr ''Parse error'')])])
                              0)\<rparr>, st)"
  by (simp add: worker_fetch_def handleRequest_def handleToolCall_def and_then_def ends_with_def)

text \<open>
  Claim C5 does not hold of the code: a \<^verbatim>\<open>tools/call\<close> request without \<^verbatim>\<open>params\<close> makes
  the destructuring in \<^verbatim>\<open>handleToolCall\<close> throw before its \<^verbatim>\<open>try\<close> block, and
  \<^verbatim>\<open>handleRequest\<close>, which returns that promise without awaiting it, rejects.
\<close>

theorem handleRequest_propagates_rejection:
  "handleRequest env (JObj [(''jsonrpc'', JStr ''2.0''), (''id'', JNum 1), (''method'', JStr ''tools/call'')]) st
     = (Inl (TypeError ''Cannot read properties of undefined (reading name)''), st)"
  by (simp add: handleRequest_def handleToolCall_def and_then_def)

text \<open>
  Claim C10.  Two argument objects that agree on every property but
  \<^verbatim>\<open>include_solutions\<close> give the same result and the same final state, in any environment
  and from any state.
\<close>

theorem notebook_ignores_include_solutions:
  assumes "\<forall>k. k \<noteq> ''include_solutions'' \<longrightarrow> map_of args1 k = map_of args2 k"
  shows "generateJupyterNotebook env (JObj args1) st = generateJupyterNotebook env (JObj args2) st"
proof -
  have t: "map_of args1 ''textbook_id'' = map_of args2 ''textbook_id''"
    and m: "map_of args1 ''module_id'' = map_of args2 ''module_id''"
    using assms by simp_all
  show ?thesis
    by (simp add: generateJupyterNotebook_def t m)
qed

theorem notebook_ignores_include_solutions_witness:
  "generateJupyterNotebook example_env
     (JObj [(''textbook_id'', JStr ''osbooks-physics''), (''module_id'', JStr ''m1''),
            (''include_solutions'', JBool True)]) empty_state
   = generateJupyterNotebook example_env
     (JObj [(''textbook_id'', JStr ''osbooks-physics''), (''module_id'', JStr ''m1''),
            (''include_solutions'', JBool False)]) empty_state"
  using notebook_ignores_include_solutions
          [of "[(''textbook_id'', JStr ''osbooks-physics''), (''module_id'', JStr ''m1''),
                (''include_solutions'', JBool True)]"
              "[(''textbook_id'', JStr ''osbooks-physics''), (''module_id'', JStr ''m1''),
                (''include_solutions'', JBool False)]" example_env empty_state]
  by simp

text \<open>
  Claim C7 does not hold of the code: the health response, the parse-error response and
  the default response carry \<^verbatim>\<open>Content-Type\<close> only.  The preflight response and the
  responses of the dispatcher carry the cross-origin header.
\<close>

theorem worker_fetch_without_cors_header:
  "map_of (headers (fst (worker_fetch env
       \<lparr>request_method = ''GET'', request_url = ''https://worker.example/health'',
         request_json = Inl (Error ''Unexpected end of JSON input'')\<rparr> st)))
     ''Access-Control-Allow-Origin'' = None
   \<and> map_of (headers (fst (worker_fetch env
       \<lparr>request_method = ''POST'', request_url = ''https://worker.example/'',
         request_json = Inl (Error ''Unexpected end of JSON input'')\<rparr> st)))
     ''Access-Control-Allow-Origin'' = None
   \<and> map_of (headers (fst (worker_fetch env
       \<lparr>request_method = ''GET'', request_url = ''https://worker.example/'',
         request_json = Inl (Error ''Unexpected end of JSON input'')\<rparr> st)))
     ''Access-Control-Allow-Origin'' = None"
  by (simp add: worker_fetch_def ends_with_def)

lemma worker_fetch_cors_header_present:
  "map_of (headers (fst (worker_fetch env
       \<lparr>request_method = ''OPTIONS'', request_url = u, request_json = j\<rparr> st)))
     ''Access-Control-Allow-Origin'' = Some ''*''"
  "\<not> ends_with u ''/health'' \<Longrightarrow> handleRequest env request st = (Inr response, st') \<Longrightarrow>
   map_of (headers (fst (worker_fetch env
       \<lparr>request_method = ''POST'', request_url = u, request_json = Inr request\<rparr> st)))
     ''Access-Control-Allow-Origin'' = Some ''*''"
  by (simp_all add: worker_fetch_def)

subsection \<open>The cache gateway\<close>

lemma kv_get_put: "kv_get (kv_put kv key v ttl) key = json_roundtrip v"
  by (simp add: kv_get_def kv_put_def)

lemma payload_from_cache_hit: "payload (from_cache_hit v) = payload v"
proof -
  have "filter (\<lambda>kv. fst kv \<noteq> k) (set_field k x kvs) = filter (\<lambda>kv. fst kv \<noteq> k) kvs" for k x kvs
    by (induction kvs) auto
  then show ?thesis by (simp add: payload_def from_cache_hit_def)
qed

lemma from_cache_hit_flag: "opt_prop (from_cache_hit v) ''from_cache'' = JBool True"
proof -
  have "map_of (set_field k x kvs) k = Some x" for k x kvs
    by (induction kvs) auto
  then show ?thesis by (simp add: from_cache_hit_def)
qed

lemma fresh_flag: "fresh r \<Longrightarrow> opt_prop r ''from_cache'' = JBool False"
  by (auto simp: fresh_def)

lemma fresh_truthy: "fresh r \<Longrightarrow> truthy (json_roundtrip r)"
  by (auto simp: fresh_def)

lemma fetch_structure_fresh: "fetch_structure env t = Inr r \<Longrightarrow> fresh r"
  unfolding fetch_structure_def
  by (auto dest!: and_then_Inr simp: fresh_def split: if_splits)

lemma fetch_module_fresh: "fetch_module env t m i = Inr r \<Longrightarrow> fresh r"
  unfolding fetch_module_def
  by (auto dest!: and_then_Inr simp: fresh_def split: if_splits)

lemma generate_problems_fresh: "generate_problems env md m d c = Inr r \<Longrightarrow> fresh r"
  unfolding generate_problems_def
  by (auto dest!: and_then_Inr simp: fresh_def split: if_splits)

lemma build_notebook_fresh: "build_notebook md t m = Inr r \<Longrightarrow> fresh r"
  unfolding build_notebook_def
  by (auto dest!: and_then_Inr simp: fresh_def split: if_splits)

subsection \<open>Listing filters and cache keys\<close>

lemma filter_result_pure:
  "\<forall>x \<in> set xs. p x = Inr (P x) \<Longrightarrow> filter_result p xs = Inr (filter P xs)"
  by (induction xs) simp_all

lemma map_result_pure:
  "\<forall>x \<in> set xs. f x = Inr (F x) \<Longrightarrow> map_result f xs = Inr (map F xs)"
  by (induction xs) simp_all

lemma named_repo:
  assumes "is_string (opt_prop r ''name'')"
  shows "get_prop r ''name'' = Inr (JStr (repo_name r))"
    and "opt_prop r ''name'' = JStr (repo_name r)"
proof -
  from assms obtain n where n: "opt_prop r ''name'' = JStr n"
    by (cases "opt_prop r ''name''") (auto simp: is_string_def)
  then have "\<not> nullish r" by (cases r) auto
  then show "get_prop r ''name'' = Inr (JStr (repo_name r))"
    by (simp add: get_prop_opt n repo_name_def)
  show "opt_prop r ''name'' = JStr (repo_name r)"
    by (simp add: n repo_name_def)
qed

lemma is_textbook_repo_pure:
  "is_string (opt_prop r ''name'') \<Longrightarrow> is_textbook_repo r = Inr (listed r)"
  by (simp add: is_textbook_repo_def named_repo(1) and_then_def listed_def)

lemma to_textbook_pure:
  "is_string (opt_prop r ''name'') \<Longrightarrow> to_textbook r = Inr (textbook_of r)"
  by (simp add: to_textbook_def named_repo(1) and_then_def textbook_of_def Let_def)

lemma str_includes_empty: "str_includes s [] = True"
  by (cases s) (simp_all add: starts_with_def)

lemma matches_filters_pure:
  assumes "\<not> truthy subject \<or> is_string subject"
  shows "matches_filters subject language (textbook_of r)
           = Inr (subject_matches subject (textbook_of r) \<and> language_matches language (textbook_of r))"
proof (cases "truthy subject")
  case False
  then have "subject_matches subject (textbook_of r)"
    by (cases subject) (auto simp: subject_matches_def textbook_of_def toLowerCase_def
          str_includes_empty)
  with False show ?thesis
    by (simp add: matches_filters_def and_then_def language_matches_def)
next
  case True
  with assms obtain s where s: "subject = JStr s"
    by (cases subject) (auto simp: is_string_def)
  show ?thesis
    using True
    by (simp add: s matches_filters_def and_then_def language_matches_def subject_matches_def
          textbook_of_def)
qed

lemma textbooks_of_pure:
  assumes "\<forall>r \<in> set repos. is_string (opt_prop r ''name'')"
    and "\<not> truthy subject \<or> is_string subject"
  shows "textbooks_of (JArr repos) subject language
     = Inr (filter (\<lambda>t. subject_matches subject t \<and> language_matches language t)
              (map textbook_of (filter listed repos)))"
proof -
  have a: "filter_result is_textbook_repo repos = Inr (filter listed repos)"
    by (rule filter_result_pure) (simp add: assms(1) is_textbook_repo_pure)
  have b: "map_result to_textbook (filter listed repos) = Inr (map textbook_of (filter listed repos))"
    by (rule map_result_pure) (simp add: assms(1) to_textbook_pure)
  have c: "filter_result (matches_filters subject language) (map textbook_of (filter listed repos))
     = Inr (filter (\<lambda>t. subject_matches subject t \<and> language_matches language t)
              (map textbook_of (filter listed repos)))"
    by (rule filter_result_pure) (auto simp: matches_filters_pure [OF assms(2)])
  show ?thesis
    by (simp add: textbooks_of_def and_then_def a b c)
qed

lemma listTextbooks_miss:
  assumes "\<not> nullish params"
    and "\<not> truthy (opt_prop params ''subject'') \<or> is_string (opt_prop params ''subject'')"
    and "fetch env ''https://api.github.com/orgs/openstax/repos?per_page=100&type=public''
           github_headers = Inr response"
    and "ok response" and "body_json response = Inr (JArr repos)"
    and "\<forall>r \<in> set repos. is_string (opt_prop r ''name'')"
    and "list_cache_key (opt_prop params ''subject'') (opt_prop params ''language'') = Inr key"
    and "\<not> truthy (kv_get (TEXTBOOK_CACHE st) key)"
  shows "listTextbooks env params st =
     (Inr (list_result
            (filter (\<lambda>t. subject_matches (opt_prop params ''subject'') t
                         \<and> language_matches (opt_prop params ''language'') t)
               (map textbook_of (filter listed repos)))),
      st\<lparr>TEXTBOOK_CACHE :=
           kv_put (TEXTBOOK_CACHE st) key
             (list_result
               (filter (\<lambda>t. subject_matches (opt_prop params ''subject'') t
                            \<and> language_matches (opt_prop params ''language'') t)
                  (map textbook_of (filter listed repos))))
             86400\<rparr>)"
proof -
  have g: "get_prop params ''subject'' = Inr (opt_prop params ''subject'')"
      "get_prop params ''language'' = Inr (opt_prop params ''language'')"
    using assms(1) by (simp_all add: get_prop_opt)
  have f: "fetch_textbooks env (opt_prop params ''subject'') (opt_prop params ''language'')
     = Inr (filter (\<lambda>t. subject_matches (opt_prop params ''subject'') t
                         \<and> language_matches (opt_prop params ''language'') t)
               (map textbook_of (filter listed repos)))"
    by (simp add: fetch_textbooks_def assms(3,4,5) and_then_def
          textbooks_of_pure [OF assms(6) assms(2)])
  show ?thesis
    using assms(8) by (simp add: listTextbooks_def g f assms(7) Let_def list_result_def)
qed

lemma listTextbooks_no_key:
  assumes "\<not> nullish params"
    and "list_cache_key (opt_prop params ''subject'') (opt_prop params ''language'') = Inl error"
  shows "listTextbooks env params st = (Inl error, st)"
proof -
  have g: "get_prop params ''subject'' = Inr (opt_prop params ''subject'')"
      "get_prop params ''language'' = Inr (opt_prop params ''language'')"
    using assms(1) by (simp_all add: get_prop_opt)
  show ?thesis
    by (simp add: listTextbooks_def g assms(2))
qed

lemma key_suffix:
  assumes "a @ ''_'' @ x = b @ ''_'' @ y"
    and "x \<in> {''all'', ''en'', ''es'', ''pl''}" and "y \<in> {''all'', ''en'', ''es'', ''pl''}"
  shows "a = b \<and> x = y"
proof -
  from assms(1) have "rev (a @ ''_'' @ x) = rev (b @ ''_'' @ y)" by simp
  with assms(2,3) have "x = y" by auto
  with assms(1) show ?thesis by simp
qed

lemma list_cache_key_text:
  assumes "js_string (or_else s (JStr ''all'')) = Inr a"
    and "js_string (or_else l (JStr ''all'')) = Inr b"
  shows "list_cache_key s l = Inr (''textbooks_list_'' @ a @ ''_'' @ b)"
  by (simp add: list_cache_key_def and_then_def assms)

lemma list_cache_key_distinct:
  assumes "plain_subject s1" "plain_subject s2" "schema_language l1" "schema_language l2"
    and "list_cache_key s1 l1 = list_cache_key s2 l2"
  shows "filter_value s1 = filter_value s2 \<and> filter_value l1 = filter_value l2"
proof -
  let ?S = "\<lambda>s. projr (js_string (or_else s (JStr ''all'')))"
  have l: "?S l1 \<in> {''all'', ''en'', ''es'', ''pl''}" "?S l2 \<in> {''all'', ''en'', ''es'', ''pl''}"
    using assms(3,4) by (auto simp: schema_language_def or_else_def)
  have p: "js_string (or_else s (JStr ''all'')) = Inr (?S s)"
    if "plain_subject s \<or> schema_language s" for s
    using that by (cases s) (auto simp: plain_subject_def schema_language_def or_else_def)
  have q: "js_string (or_else s1 (JStr ''all'')) = Inr (?S s1)"
      "js_string (or_else s2 (JStr ''all'')) = Inr (?S s2)"
      "js_string (or_else l1 (JStr ''all'')) = Inr (?S l1)"
      "js_string (or_else l2 (JStr ''all'')) = Inr (?S l2)"
    using p assms(1-4) by blast+
  have "Inr (''textbooks_list_'' @ ?S s1 @ ''_'' @ ?S l1)
          = (Inr (''textbooks_list_'' @ ?S s2 @ ''_'' @ ?S l2) :: string result)"
    using assms(5)
    unfolding list_cache_key_text [OF q(1) q(3)] list_cache_key_text [OF q(2) q(4)] .
  then have "?S s1 @ ''_'' @ ?S l1 = ?S s2 @ ''_'' @ ?S l2"
    by simp
  from key_suffix [OF this l] have e: "?S s1 = ?S s2" "?S l1 = ?S l2" by simp_all
  have "filter_value s1 = filter_value s2"
    using assms(1,2) e(1)
    by (cases s1; cases s2)
       (auto simp: plain_subject_def or_else_def filter_value_def split: if_splits)
  moreover have "filter_value l1 = filter_value l2"
    using assms(3,4) e(2)
    by (auto simp: schema_language_def or_else_def filter_value_def)
  ultimately show ?thesis by simp
qed


text \<open>
  Claim C6 (amended).  When the entry of the request's key is missing, the subject is
  absent or a string, and the fetch answers with a list of named repositories,
  \<^verbatim>\<open>list_textbooks\<close> returns exactly the derived textbooks whose name contains the
  subject without regard to case, when a subject is given, and whose language tag equals
  the language argument, when one is given; it stores that same filtered result under the
  key of the two arguments.  When the key cannot be built, because the language argument
  has no conversion to a string, the operation raises that error and stores nothing.  The
  keys of two requests are distinct whenever their filters differ, for subjects other
  than the placeholder \<open>all\<close> and languages of the tool's schema.
\<close>

theorem listTextbooks_filters:
  assumes "\<not> nullish params"
    and "\<not> truthy (opt_prop params ''subject'') \<or> is_string (opt_prop params ''subject'')"
    and "fetch env ''https://api.github.com/orgs/openstax/repos?per_page=100&type=public''
           github_headers = Inr response"
    and "ok response" and "body_json response = Inr (JArr repos)"
    and "\<forall>r \<in> set repos. is_string (opt_prop r ''name'')"
  shows "(\<forall>key.
           list_cache_key (opt_prop params ''subject'') (opt_prop params ''language'') = Inr key
           \<and> \<not> truthy (kv_get (TEXTBOOK_CACHE st) key)
           \<longrightarrow> listTextbooks env params st =
     (Inr (list_result
            (filter (\<lambda>t. subject_matches (opt_prop params ''subject'') t
                         \<and> language_matches (opt_prop params ''language'') t)
               (map textbook_of (filter listed repos)))),
      st\<lparr>TEXTBOOK_CACHE :=
           kv_put (TEXTBOOK_CACHE st) key
             (list_result
               (filter (\<lambda>t. subject_matches (opt_prop params ''subject'') t
                            \<and> language_matches (opt_prop params ''language'') t)
                  (map textbook_of (filter listed repos))))
             86400\<rparr>))
   \<and> (\<forall>error.
         list_cache_key (opt_prop params ''subject'') (opt_prop params ''language'') = Inl error
         \<longrightarrow> error = conversion_error \<and> listTextbooks env params st = (Inl error, st))
   \<and> (\<forall>s1 l1 s2 l2.
         plain_subject s1 \<and> plain_subject s2 \<and> schema_language l1 \<and> schema_language l2
         \<and> (filter_value s1 \<noteq> filter_value s2 \<or> filter_value l1 \<noteq> filter_value l2)
         \<longrightarrow> list_cache_key s1 l1 \<noteq> list_cache_key s2 l2)"
  using listTextbooks_miss [OF assms] listTextbooks_no_key [OF assms(1)] template_error
    list_cache_key_distinct
  unfolding list_cache_key_def
  by blast

lemma example_listing:
  "listed (JObj [(''name'', JStr ''osbooks-physics''), (''stargazers_count'', JNum 7)])"
  "listed (JObj [(''name'', JStr ''osbooks-fisica-universitaria-bundle'')])"
  "\<not> listed (JObj [(''name'', JStr ''osbooks-template'')])"
  "\<not> listed (JObj [(''name'', JStr ''cnx-recipes'')])"
  by (simp_all add: listed_def repo_name_def starts_with_def)

lemma example_physics:
  "textbook_of (JObj [(''name'', JStr ''osbooks-physics''), (''stargazers_count'', JNum 7)])
     = JObj [(''id'', JStr ''osbooks-physics''), (''name'', JStr ''physics''),
             (''repo'', JUndefined), (''description'', JUndefined),
             (''language'', JStr ''en''), (''updated'', JUndefined), (''stars'', JNum 7)]"
  by (simp add: textbook_of_def repo_name_def starts_with_def display_name_def
        dashes_to_spaces_def remove_all.simps trim_def is_space_def infer_language_def)

lemma example_fisica:
  "textbook_of (JObj [(''name'', JStr ''osbooks-fisica-universitaria-bundle'')])
     = JObj [(''id'', JStr ''osbooks-fisica-universitaria-bundle''),
             (''name'', JStr ''fisica universitaria''),
             (''repo'', JUndefined), (''description'', JUndefined),
             (''language'', JStr ''es''), (''updated'', JUndefined), (''stars'', JUndefined)]"
  by (simp add: textbook_of_def repo_name_def starts_with_def display_name_def
        dashes_to_spaces_def remove_all.simps trim_def is_space_def infer_language_def)

lemma example_fetch_repos:
  "fetch example_env ''https://api.github.com/orgs/openstax/repos?per_page=100&type=public''
     github_headers
   = Inr (ok_response '''' example_repos)"
  by (simp add: example_env_def example_fetch_def)

lemma example_repos_named:
  "\<forall>r \<in> set [JObj [(''name'', JStr ''osbooks-physics''), (''stargazers_count'', JNum 7)],
                  JObj [(''name'', JStr ''osbooks-fisica-universitaria-bundle'')],
                  JObj [(''name'', JStr ''osbooks-template'')],
                  JObj [(''name'', JStr ''cnx-recipes'')]]. is_string (opt_prop r ''name'')"
  by (simp add: is_string_def)

lemma example_response:
  "ok (ok_response '''' example_repos)"
  "body_json (ok_response '''' example_repos)
     = Inr (JArr [JObj [(''name'', JStr ''osbooks-physics''), (''stargazers_count'', JNum 7)],
                  JObj [(''name'', JStr ''osbooks-fisica-universitaria-bundle'')],
                  JObj [(''name'', JStr ''osbooks-template'')],
                  JObj [(''name'', JStr ''cnx-recipes'')]])"
  by (simp_all add: ok_response_def example_repos_def)

theorem listTextbooks_filters_witness:
  "fst (listTextbooks example_env
          (JObj [(''subject'', JStr ''FIS''), (''language'', JStr ''es'')]) empty_state)
   = Inr (list_result
            [JObj [(''id'', JStr ''osbooks-fisica-universitaria-bundle''),
                   (''name'', JStr ''fisica universitaria''),
                   (''repo'', JUndefined), (''description'', JUndefined),
                   (''language'', JStr ''es''), (''updated'', JUndefined),
                   (''stars'', JUndefined)]])"
proof -
  have a: "\<not> nullish (JObj [(''subject'', JStr ''FIS''), (''language'', JStr ''es'')])"
    by simp
  have b: "\<not> truthy (opt_prop (JObj [(''subject'', JStr ''FIS''), (''language'', JStr ''es'')])
                       ''subject'')
           \<or> is_string (opt_prop (JObj [(''subject'', JStr ''FIS''), (''language'', JStr ''es'')])
                          ''subject'')"
    by (simp add: is_string_def)
  have c: "list_cache_key
             (opt_prop (JObj [(''subject'', JStr ''FIS''), (''language'', JStr ''es'')]) ''subject'')
             (opt_prop (JObj [(''subject'', JStr ''FIS''), (''language'', JStr ''es'')]) ''language'')
           = Inr ''textbooks_list_FIS_es''"
    by (simp add: list_cache_key_def or_else_def and_then_def)
  have d: "\<not> truthy (kv_get (TEXTBOOK_CACHE empty_state) ''textbooks_list_FIS_es'')"
    by (simp add: kv_get_def empty_state_def)
  from listTextbooks_filters [OF a b example_fetch_repos example_response example_repos_named,
                              of empty_state] c d
  have "listTextbooks example_env
          (JObj [(''subject'', JStr ''FIS''), (''language'', JStr ''es'')]) empty_state =
     (Inr (list_result
            (filter (\<lambda>t. subject_matches (opt_prop (JObj [(''subject'', JStr ''FIS''), (''language'', JStr ''es'')]) ''subject'') t
                         \<and> language_matches (opt_prop (JObj [(''subject'', JStr ''FIS''), (''language'', JStr ''es'')]) ''language'') t)
               (map textbook_of (filter listed
                  [JObj [(''name'', JStr ''osbooks-physics''), (''stargazers_count'', JNum 7)],
                   JObj [(''name'', JStr ''osbooks-fisica-universitaria-bundle'')],
                   JObj [(''name'', JStr ''osbooks-template'')],
                   JObj [(''name'', JStr ''cnx-recipes'')]])))),
      empty_state\<lparr>TEXTBOOK_CACHE :=
           kv_put (TEXTBOOK_CACHE empty_state) ''textbooks_list_FIS_es''
             (list_result
               (filter (\<lambda>t. subject_matches (opt_prop (JObj [(''subject'', JStr ''FIS''), (''language'', JStr ''es'')]) ''subject'') t
                            \<and> language_matches (opt_prop (JObj [(''subject'', JStr ''FIS''), (''language'', JStr ''es'')]) ''language'') t)
                  (map textbook_of (filter listed
                  [JObj [(''name'', JStr ''osbooks-physics''), (''stargazers_count'', JNum 7)],
                   JObj [(''name'', JStr ''osbooks-fisica-universitaria-bundle'')],
                   JObj [(''name'', JStr ''osbooks-template'')],
                   JObj [(''name'', JStr ''cnx-recipes'')]]))))
             86400\<rparr>)"
    by blast
  then show ?thesis
    by (simp add: example_listing example_physics example_fisica subject_matches_def
          language_matches_def toLowerCase_def lower_char_def upper_case_def lower_case_def
          starts_with_def)
qed

text \<open>
  The claim as stated fails: the key does not separate the subject \<open>all\<close> from no subject.
  After a listing without filters, the listing for the subject \<open>all\<close> is answered from the
  same entry and returns \<open>physics\<close>, whose name does not contain \<open>all\<close>.
\<close>

theorem listTextbooks_filters_counterexample:
  "list_cache_key (JStr ''all'') JUndefined = list_cache_key JUndefined JUndefined
   \<and> fst (listTextbooks example_env (JObj [(''subject'', JStr ''all'')])
            (snd (listTextbooks example_env (JObj []) empty_state)))
     = Inr (JObj [(''textbooks'',
                   JArr [JObj [(''id'', JStr ''osbooks-physics''), (''name'', JStr ''physics''),
                               (''language'', JStr ''en''), (''stars'', JNum 7)],
                         JObj [(''id'', JStr ''osbooks-fisica-universitaria-bundle''),
                               (''name'', JStr ''fisica universitaria''),
                               (''language'', JStr ''es'')]]),
                  (''count'', JNum 2), (''from_cache'', JBool True)])
   \<and> \<not> subject_matches (JStr ''all'')
         (JObj [(''id'', JStr ''osbooks-physics''), (''name'', JStr ''physics''),
                (''language'', JStr ''en''), (''stars'', JNum 7)])"
proof -
  have k: "list_cache_key (JStr ''all'') JUndefined = Inr ''textbooks_list_all_all''"
      "list_cache_key JUndefined JUndefined = Inr ''textbooks_list_all_all''"
    by (simp_all add: list_cache_key_def or_else_def and_then_def)
  have a: "\<not> nullish (JObj [])" by simp
  have b: "\<not> truthy (opt_prop (JObj []) ''subject'') \<or> is_string (opt_prop (JObj []) ''subject'')"
    by simp
  have c: "list_cache_key (opt_prop (JObj []) ''subject'') (opt_prop (JObj []) ''language'')
             = Inr ''textbooks_list_all_all''"
    by (simp add: k)
  have d: "\<not> truthy (kv_get (TEXTBOOK_CACHE empty_state) ''textbooks_list_all_all'')"
    by (simp add: kv_get_def empty_state_def)
  have first: "snd (listTextbooks example_env (JObj []) empty_state)
     = empty_state\<lparr>TEXTBOOK_CACHE :=
         kv_put (TEXTBOOK_CACHE empty_state) ''textbooks_list_all_all''
           (list_result
              [JObj [(''id'', JStr ''osbooks-physics''), (''name'', JStr ''physics''),
                     (''repo'', JUndefined), (''description'', JUndefined),
                     (''language'', JStr ''en''), (''updated'', JUndefined), (''stars'', JNum 7)],
               JObj [(''id'', JStr ''osbooks-fisica-universitaria-bundle''),
                     (''name'', JStr ''fisica universitaria''),
                     (''repo'', JUndefined), (''description'', JUndefined),
                     (''language'', JStr ''es''), (''updated'', JUndefined),
                     (''stars'', JUndefined)]])
           86400\<rparr>"
    using listTextbooks_miss [OF a b example_fetch_repos example_response example_repos_named c d]
    by (simp add: example_listing example_physics example_fisica
          subject_matches_def language_matches_def)
  have hit: "fst (listTextbooks example_env (JObj [(''subject'', JStr ''all'')])
            (empty_state\<lparr>TEXTBOOK_CACHE :=
         kv_put (TEXTBOOK_CACHE empty_state) ''textbooks_list_all_all''
           (list_result
              [JObj [(''id'', JStr ''osbooks-physics''), (''name'', JStr ''physics''),
                     (''repo'', JUndefined), (''description'', JUndefined),
                     (''language'', JStr ''en''), (''updated'', JUndefined), (''stars'', JNum 7)],
               JObj [(''id'', JStr ''osbooks-fisica-universitaria-bundle''),
                     (''name'', JStr ''fisica universitaria''),
                     (''repo'', JUndefined), (''description'', JUndefined),
                     (''language'', JStr ''es''), (''updated'', JUndefined),
                     (''stars'', JUndefined)]])
           86400\<rparr>))
     = Inr (JObj [(''textbooks'',
                   JArr [JObj [(''id'', JStr ''osbooks-physics''), (''name'', JStr ''physics''),
                               (''language'', JStr ''en''), (''stars'', JNum 7)],
                         JObj [(''id'', JStr ''osbooks-fisica-universitaria-bundle''),
                               (''name'', JStr ''fisica universitaria''),
                               (''language'', JStr ''es'')]]),
                  (''count'', JNum 2), (''from_cache'', JBool True)])"
    by (simp add: listTextbooks_def k kv_get_def kv_put_def list_result_def
          from_cache_hit_def Let_def)
  have second: "fst (listTextbooks example_env (JObj [(''subject'', JStr ''all'')])
            (snd (listTextbooks example_env (JObj []) empty_state)))
     = Inr (JObj [(''textbooks'',
                   JArr [JObj [(''id'', JStr ''osbooks-physics''), (''name'', JStr ''physics''),
                               (''language'', JStr ''en''), (''stars'', JNum 7)],
                         JObj [(''id'', JStr ''osbooks-fisica-universitaria-bundle''),
                               (''name'', JStr ''fisica universitaria''),
                               (''language'', JStr ''es'')]]),
                  (''count'', JNum 2), (''from_cache'', JBool True)])"
    by (simp only: first hit)
  have third: "\<not> subject_matches (JStr ''all'')
         (JObj [(''id'', JStr ''osbooks-physics''), (''name'', JStr ''physics''),
                (''language'', JStr ''en''), (''stars'', JNum 7)])"
    by (simp add: subject_matches_def toLowerCase_def lower_char_def upper_case_def
          lower_case_def starts_with_def)
  from k second third show ?thesis by simp
qed


subsection \<open>Bulk indexing\<close>

lemma upsert_entry_length:
  "length (upsert_entry entry xs)
     = (if \<exists>x \<in> set xs. opt_prop x ''id'' = opt_prop entry ''id'' then length xs
        else Suc (length xs))"
  by (induction xs) auto

lemma log_failure_logs:
  assumes "\<not> nullish m" and "js_string (opt_prop m ''id'') = Inr s"
  shows "log_failure m st
           = Inr (st\<lparr>console_error := console_error st @ [''Failed to index '' @ s @ '':'']\<rparr>)"
  using assms by (simp add: log_failure_def get_prop_opt and_then_def)

lemma index_loop_counts:
  "\<forall>m \<in> set ms. \<not> nullish m \<and> \<not> isl (js_string (opt_prop m ''id'')) \<Longrightarrow>
     (\<exists>st'. index_loop env t ms k st
              = (Inr (k + length (filter id (index_outcomes env t ms st))), st'))
     \<and> length (index_outcomes env t ms st) = length ms"
proof (induction ms arbitrary: k st)
  case Nil
  then show ?case by simp
next
  case (Cons m ms)
  from Cons.prems have nn: "\<not> nullish m" by simp
  from Cons.prems obtain s where s: "js_string (opt_prop m ''id'') = Inr s"
    by (cases "js_string (opt_prop m ''id'')") auto
  from Cons.prems have rest: "\<forall>m \<in> set ms. \<not> nullish m \<and> \<not> isl (js_string (opt_prop m ''id''))"
    by simp
  obtain r st1 where r: "index_module env t m st = (r, st1)"
    by (cases "index_module env t m st")
  show ?case
  proof (cases r)
    case (Inl e)
    let ?st = "st1\<lparr>console_error := console_error st1 @ [''Failed to index '' @ s @ '':'']\<rparr>"
    from Cons.IH [OF rest, of k ?st] Inl show ?thesis
      by (auto simp: r log_failure_logs [OF nn s])
  next
    case (Inr u)
    from Cons.IH [OF rest, of "Suc k" st1] Inr show ?thesis
      by (auto simp: r)
  qed
qed

lemma prefix_length:
  "(min (L::nat) (if n < 0 then nat (int L + n) else nat n) = L) = (L = 0 \<or> int L \<le> n)"
  by (simp add: min_def) arith

lemma slice_prefix_number:
  assumes "slice_prefix env xs (JNum n) = Inr ys"
  shows "set ys \<subseteq> set xs"
    and "length ys \<le> length xs"
    and "length ys = length xs \<longleftrightarrow> xs = [] \<or> int (length xs) \<le> n"
proof -
  from assms have ys: "ys = take (if n < 0 then nat (int (length xs) + n) else nat n) xs"
    by (auto simp: slice_prefix_def)
  show "set ys \<subseteq> set xs"
    unfolding ys by (auto dest: in_set_takeD)
  have len: "length ys = min (length xs) (if n < 0 then nat (int (length xs) + n) else nat n)"
    unfolding ys by (rule length_take)
  show "length ys \<le> length xs"
    unfolding len by (rule min.cobounded1)
  show "length ys = length xs \<longleftrightarrow> xs = [] \<or> int (length xs) \<le> n"
    unfolding len prefix_length by simp
qed

lemma index_counts:
  assumes "getTextbookStructure env (JObj [(''textbook_id'', opt_prop params ''textbook_id'')]) st
             = (Inr structure, st1)"
    and "\<not> nullish params"
    and "opt_prop structure ''modules'' = JArr modules"
    and "\<forall>m \<in> set modules. \<not> nullish m \<and> \<not> isl (js_string (opt_prop m ''id''))"
    and "new_Ai env = Inr ()"
    and "default_to (opt_prop params ''max_modules'') (JNum 20) = JNum n"
    and "slice_prefix env modules (JNum n) = Inr attempted"
    and "outcomes = index_outcomes env (opt_prop params ''textbook_id'') attempted st1"
  shows "\<exists>st2.
           indexTextbookForSearch env params st
             = (Inr (JObj [(''indexed'', JNum (int (length (filter id outcomes)))),
                           (''total_modules'', JNum (int (length modules))),
                           (''textbook_id'', opt_prop params ''textbook_id''),
                           (''message'',
                            JStr (''Successfully indexed ''
                                  @ show_number (int (length (filter id outcomes)))
                                  @ '' modules for semantic search''))]), st2)"
    and "length outcomes = length attempted"
    and "length (filter id outcomes) \<le> length attempted"
    and "length attempted \<le> length modules"
    and "length attempted = length modules \<longleftrightarrow> modules = [] \<or> int (length modules) \<le> n"
proof -
  have g: "get_prop params ''textbook_id'' = Inr (opt_prop params ''textbook_id'')"
    using assms(2) by (rule get_prop_opt)
  have s: "get_prop structure ''modules'' = Inr (JArr modules)"
    using assms(3) by (cases "structure") auto
  have a: "\<forall>m \<in> set attempted. \<not> nullish m \<and> \<not> isl (js_string (opt_prop m ''id''))"
    using assms(4) slice_prefix_number(1) [OF assms(7)] by blast
  from index_loop_counts [OF a, of env "opt_prop params ''textbook_id''" 0 st1]
  obtain st2 where
    l: "index_loop env (opt_prop params ''textbook_id'') attempted 0 st1
          = (Inr (length (filter id outcomes)), st2)"
    and o: "length outcomes = length attempted"
    unfolding assms(8) by auto
  have "indexTextbookForSearch env params st
             = (Inr (JObj [(''indexed'', JNum (int (length (filter id outcomes)))),
                           (''total_modules'', JNum (int (length modules))),
                           (''textbook_id'', opt_prop params ''textbook_id''),
                           (''message'',
                            JStr (''Successfully indexed ''
                                  @ show_number (int (length (filter id outcomes)))
                                  @ '' modules for semantic search''))]), st2)"
    using l
    by (simp add: indexTextbookForSearch_def g assms(1) assms(5) assms(6) assms(7) s
          and_then_def Let_def)
  then show "\<exists>st2.
           indexTextbookForSearch env params st
             = (Inr (JObj [(''indexed'', JNum (int (length (filter id outcomes)))),
                           (''total_modules'', JNum (int (length modules))),
                           (''textbook_id'', opt_prop params ''textbook_id''),
                           (''message'',
                            JStr (''Successfully indexed ''
                                  @ show_number (int (length (filter id outcomes)))
                                  @ '' modules for semantic search''))]), st2)"
    by blast
  show "length outcomes = length attempted" by (rule o)
  have "length (filter id outcomes) \<le> length outcomes"
    by (rule length_filter_le)
  then show "length (filter id outcomes) \<le> length attempted"
    by (simp add: o)
  show "length attempted \<le> length modules"
    by (rule slice_prefix_number(2) [OF assms(7)])
  show "length attempted = length modules \<longleftrightarrow> modules = [] \<or> int (length modules) \<le> n"
    by (rule slice_prefix_number(3) [OF assms(7)])
qed

lemma example_fetch_structure:
  "fetch_structure example_env (JStr ''osbooks-physics'')
     = Inr (JObj [(''title'', JStr ''Physics''),
                  (''modules'',
                   JArr [JObj [(''id'', JStr ''m1''), (''title'', JStr ''Motion'')],
                         JObj [(''id'', JStr ''m2''), (''title'', JStr ''Untitled'')],
                         JObj [(''id'', JStr ''m3''), (''title'', JStr ''Untitled'')]]),
                  (''metadata'', JObj []), (''from_cache'', JBool False)])"
proof -
  let ?c = "parsed_collection [''Physics'']
              [[SubcollectionEl [''A''] [ModuleEl [(''document'', ''m1'')] [''Motion''],
                                        ModuleEl [(''document'', ''m2'')] []],
                SubcollectionEl [''B''] [ModuleEl [(''document'', ''m3'')] []]]]"
  have f1: "fetch example_env
              ''https://api.github.com/repos/openstax/osbooks-physics/contents/collections''
              github_headers
            = Inr (ok_response ''''
                    (JArr [JObj [(''name'', JStr ''README.md'')],
                           JObj [(''name'', JStr ''physics.collection.xml''),
                                 (''download_url'', JStr ''https://raw.example/physics'')]]))"
    by (simp add: example_env_def example_fetch_def)
  have f2: "fetch example_env ''https://raw.example/physics'' []
            = Inr (ok_response ''collection'' JNull)"
    by (simp add: example_env_def example_fetch_def)
  have pa: "parseStringPromise example_env ''collection'' = Inr (JObj [(''collection'', ?c)])"
    by (simp add: example_env_def example_collection_def)
  have em: "extractModules ?c
            = Inr [JObj [(''id'', JStr ''m1''), (''title'', JStr ''Motion'')],
                   JObj [(''id'', JStr ''m2''), (''title'', JStr ''Untitled'')],
                   JObj [(''id'', JStr ''m3''), (''title'', JStr ''Untitled'')]]"
    by (simp add: extractModules_parsed module_ref_def)
  have ti: "opt_prop ?c ''title'' = JArr [JStr ''Physics'']"
    and me: "opt_prop ?c ''metadata'' = JUndefined"
    by (simp_all add: parsed_collection_def element_object_def child_group_def)
  have fi: "is_collection_file (JObj [(''name'', JStr ''README.md'')]) = Inr False"
    "is_collection_file (JObj [(''name'', JStr ''physics.collection.xml''),
                               (''download_url'', JStr ''https://raw.example/physics'')])
       = Inr True"
    by (simp_all add: is_collection_file_def and_then_def ends_with_def)
  show ?thesis
    by (simp add: fetch_structure_def f1 f2 pa em ti me fi and_then_def ok_response_def
          or_else_def)
qed

lemma example_structure:
  "getTextbookStructure example_env (JObj [(''textbook_id'', JStr ''osbooks-physics'')]) empty_state
   = (Inr (JObj [(''title'', JStr ''Physics''),
                 (''modules'',
                  JArr [JObj [(''id'', JStr ''m1''), (''title'', JStr ''Motion'')],
                        JObj [(''id'', JStr ''m2''), (''title'', JStr ''Untitled'')],
                        JObj [(''id'', JStr ''m3''), (''title'', JStr ''Untitled'')]]),
                 (''metadata'', JObj []), (''from_cache'', JBool False)]),
      empty_state\<lparr>TEXTBOOK_CACHE :=
        kv_put (TEXTBOOK_CACHE empty_state) ''structure_osbooks-physics''
          (JObj [(''title'', JStr ''Physics''),
                 (''modules'',
                  JArr [JObj [(''id'', JStr ''m1''), (''title'', JStr ''Motion'')],
                        JObj [(''id'', JStr ''m2''), (''title'', JStr ''Untitled'')],
                        JObj [(''id'', JStr ''m3''), (''title'', JStr ''Untitled'')]]),
                 (''metadata'', JObj []), (''from_cache'', JBool False)]) 604800\<rparr>)"
  by (simp add: getTextbookStructure_def structure_cache_key_def example_fetch_structure
        kv_get_def empty_state_def Let_def and_then_def)

lemma example_index_ok:
  assumes "TEXTBOOK_CACHE st (''module_osbooks-physics_'' @ mid) = None"
    and "mid = ''m1'' \<or> mid = ''m3''"
  shows "\<exists>st'. index_module example_env (JStr ''osbooks-physics'')
                  (JObj [(''id'', JStr mid), (''title'', JStr t)]) st = (Inr (), st')
               \<and> (\<forall>k. k \<noteq> ''module_osbooks-physics_'' @ mid
                      \<longrightarrow> TEXTBOOK_CACHE st' k = TEXTBOOK_CACHE st k)"
proof -
  have t: "extractTextContent (JObj [(''para'', JArr [JStr ''Bodies move.''])]) = Inr ''Bodies move.''"
    by (simp add: extractTextContent.simps trim_def is_space_def)
  have f: "fetch_module example_env (JStr ''osbooks-physics'') (JStr mid) (JBool False)
             = Inr (JObj [(''title'', JStr ''Motion''), (''content'', JStr ''Bodies move.''),
                 (''module_id'', JStr mid), (''raw_xml'', JStr ''module''),
                 (''from_cache'', JBool False)])"
    using assms(2)
    by (auto simp: fetch_module_def example_env_def example_fetch_def t and_then_def
          ok_response_def example_module_def or_else_def)
  have a: "ai_run example_env m i = Inr (JObj [(''data'', JArr [JArr [JNum 1, JNum 2]]),
                                               (''response'', JStr ''Problem 1'')])" for m i
    by (simp add: example_env_def)
  have u: "vectorize_upsert example_env e = Inr ()" for e
    by (simp add: example_env_def)
  show ?thesis
    using assms(1)
    by (simp add: index_module_def module_params_def getModuleContent_def default_to_def
          module_cache_key_def kv_get_def f a u and_then_def first_elem_def Let_def kv_put_def
          or_else_def)
qed

lemma example_index_fails:
  assumes "TEXTBOOK_CACHE st ''module_osbooks-physics_m2'' = None"
  shows "index_module example_env (JStr ''osbooks-physics'')
           (JObj [(''id'', JStr ''m2''), (''title'', t)]) st
         = (Inl (Error ''Module m2 not found''), st)"
proof -
  have f: "fetch_module example_env (JStr ''osbooks-physics'') (JStr ''m2'') (JBool False)
             = Inl (Error ''Module m2 not found'')"
    by (simp add: fetch_module_def example_env_def example_fetch_def and_then_def)
  show ?thesis
    using assms
    by (simp add: index_module_def module_params_def getModuleContent_def default_to_def
          module_cache_key_def and_then_def kv_get_def f Let_def)
qed

lemma example_outcomes:
  assumes "\<forall>k. k \<noteq> ''structure_osbooks-physics'' \<longrightarrow> TEXTBOOK_CACHE st k = None"
  shows "index_outcomes example_env (JStr ''osbooks-physics'')
           [JObj [(''id'', JStr ''m1''), (''title'', JStr ''Motion'')],
            JObj [(''id'', JStr ''m2''), (''title'', JStr ''Untitled'')],
            JObj [(''id'', JStr ''m3''), (''title'', JStr ''Untitled'')]] st
         = [True, False, True]"
    and "index_outcomes example_env (JStr ''osbooks-physics'')
           [JObj [(''id'', JStr ''m1''), (''title'', JStr ''Motion'')],
            JObj [(''id'', JStr ''m2''), (''title'', JStr ''Untitled'')]] st
         = [True, False]"
proof -
  have k1: "TEXTBOOK_CACHE st (''module_osbooks-physics_'' @ ''m1'') = None"
    using assms by simp
  from example_index_ok [OF k1, of "''Motion''"] obtain st1 where
    s1: "index_module example_env (JStr ''osbooks-physics'')
           (JObj [(''id'', JStr ''m1''), (''title'', JStr ''Motion'')]) st = (Inr (), st1)"
    and c1: "\<forall>k. k \<noteq> ''module_osbooks-physics_'' @ ''m1''
               \<longrightarrow> TEXTBOOK_CACHE st1 k = TEXTBOOK_CACHE st k"
    by auto
  have k2: "TEXTBOOK_CACHE st1 ''module_osbooks-physics_m2'' = None"
    using c1 assms by simp
  note s2 = example_index_fails [OF k2, of "JStr ''Untitled''"]
  let ?st2 = "st1\<lparr>console_error := console_error st1 @ [''Failed to index m2:'']\<rparr>"
  have lg: "log_failure (JObj [(''id'', JStr ''m2''), (''title'', JStr ''Untitled'')]) st1
              = Inr ?st2"
    by (simp add: log_failure_def and_then_def)
  have k3: "TEXTBOOK_CACHE ?st2 (''module_osbooks-physics_'' @ ''m3'') = None"
    using c1 assms by simp
  from example_index_ok [OF k3, of "''Untitled''"] obtain st3 where
    s3: "index_module example_env (JStr ''osbooks-physics'')
           (JObj [(''id'', JStr ''m3''), (''title'', JStr ''Untitled'')]) ?st2 = (Inr (), st3)"
    by auto
  show "index_outcomes example_env (JStr ''osbooks-physics'')
           [JObj [(''id'', JStr ''m1''), (''title'', JStr ''Motion'')],
            JObj [(''id'', JStr ''m2''), (''title'', JStr ''Untitled'')],
            JObj [(''id'', JStr ''m3''), (''title'', JStr ''Untitled'')]] st
         = [True, False, True]"
    by (simp add: s1 s2 s3 lg)
  show "index_outcomes example_env (JStr ''osbooks-physics'')
           [JObj [(''id'', JStr ''m1''), (''title'', JStr ''Motion'')],
            JObj [(''id'', JStr ''m2''), (''title'', JStr ''Untitled'')]] st
         = [True, False]"
    by (simp add: s1 s2 lg)
qed

text \<open>
  Claim C4 (amended).  When the structure of the textbook resolves to a list of module
  references, none of them nullish and each with an id that converts to a string, the
  model client is constructed and \<^verbatim>\<open>max_modules\<close> is a number (20 when it is absent),
  \<^verbatim>\<open>index_textbook_for_search\<close> does not raise: it attempts the prefix of the list that
  \<^verbatim>\<open>max_modules\<close> selects, every attempted module has its outcome, \<open>indexed\<close> is the
  number of attempted modules whose resolve-embed-upsert sequence succeeded, at most the
  number attempted, and \<open>total_modules\<close> is the number of modules of the structure, which
  is the number attempted exactly when \<^verbatim>\<open>max_modules\<close> is at least that number or the
  structure has no module.
\<close>

theorem indexTextbookForSearch_counts:
  assumes "getTextbookStructure env (JObj [(''textbook_id'', opt_prop params ''textbook_id'')]) st
             = (Inr structure, st1)"
    and "\<not> nullish params"
    and "opt_prop structure ''modules'' = JArr modules"
    and "\<forall>m \<in> set modules. \<not> nullish m \<and> \<not> isl (js_string (opt_prop m ''id''))"
    and "new_Ai env = Inr ()"
    and "default_to (opt_prop params ''max_modules'') (JNum 20) = JNum n"
    and "slice_prefix env modules (JNum n) = Inr attempted"
    and "outcomes = index_outcomes env (opt_prop params ''textbook_id'') attempted st1"
  shows "(\<exists>st2.
           indexTextbookForSearch env params st
             = (Inr (JObj [(''indexed'', JNum (int (length (filter id outcomes)))),
                           (''total_modules'', JNum (int (length modules))),
                           (''textbook_id'', opt_prop params ''textbook_id''),
                           (''message'',
                            JStr (''Successfully indexed ''
                                  @ show_number (int (length (filter id outcomes)))
                                  @ '' modules for semantic search''))]), st2))
         \<and> length outcomes = length attempted
         \<and> length (filter id outcomes) \<le> length attempted
         \<and> length attempted \<le> length modules
         \<and> (length attempted = length modules
              \<longleftrightarrow> modules = [] \<or> int (length modules) \<le> n)"
  using index_counts [OF assms] by blast

lemma example_cache_after_structure:
  "\<forall>k. k \<noteq> ''structure_osbooks-physics'' \<longrightarrow>
     TEXTBOOK_CACHE
       (empty_state\<lparr>TEXTBOOK_CACHE :=
          kv_put (TEXTBOOK_CACHE empty_state) ''structure_osbooks-physics'' v 604800\<rparr>) k = None"
  by (simp add: kv_put_def empty_state_def)

lemma show_number_small: "show_number 1 = ''1''" "show_number 2 = ''2''"
  by (simp_all add: show_number_def number_value_def show_nat.simps)

theorem indexTextbookForSearch_counts_witness:
  "fst (indexTextbookForSearch example_env (JObj [(''textbook_id'', JStr ''osbooks-physics'')])
          empty_state)
   = Inr (JObj [(''indexed'', JNum 2),
                (''total_modules'', JNum 3),
                (''textbook_id'', JStr ''osbooks-physics''),
                (''message'', JStr ''Successfully indexed 2 modules for semantic search'')])"
proof -
  let ?p = "JObj [(''textbook_id'', JStr ''osbooks-physics'')]"
  let ?ms = "[JObj [(''id'', JStr ''m1''), (''title'', JStr ''Motion'')],
              JObj [(''id'', JStr ''m2''), (''title'', JStr ''Untitled'')],
              JObj [(''id'', JStr ''m3''), (''title'', JStr ''Untitled'')]]"
  let ?s = "JObj [(''title'', JStr ''Physics''), (''modules'', JArr ?ms),
                  (''metadata'', JObj []), (''from_cache'', JBool False)]"
  let ?st1 = "empty_state\<lparr>TEXTBOOK_CACHE :=
                kv_put (TEXTBOOK_CACHE empty_state) ''structure_osbooks-physics'' ?s 604800\<rparr>"
  have a: "getTextbookStructure example_env (JObj [(''textbook_id'', opt_prop ?p ''textbook_id'')])
             empty_state = (Inr ?s, ?st1)"
    using example_structure by simp
  have b: "\<not> nullish ?p" by simp
  have c: "opt_prop ?s ''modules'' = JArr ?ms" by simp
  have d: "\<forall>m \<in> set ?ms. \<not> nullish m \<and> \<not> isl (js_string (opt_prop m ''id''))" by simp
  have e: "new_Ai example_env = Inr ()" by (simp add: example_env_def)
  have f: "default_to (opt_prop ?p ''max_modules'') (JNum 20) = JNum 20"
    by (simp add: default_to_def)
  have g: "slice_prefix example_env ?ms (JNum 20) = Inr ?ms"
    by (simp add: slice_prefix_def)
  have h: "[True, False, True]
             = index_outcomes example_env (opt_prop ?p ''textbook_id'') ?ms ?st1"
    using example_outcomes(1) [OF example_cache_after_structure] by simp
  from indexTextbookForSearch_counts [OF a b c d e f g h]
  show ?thesis
    by (auto simp: show_number_small)
qed

text \<open>
  The claim as stated fails where \<^verbatim>\<open>max_modules\<close> is below the number of modules: with
  three modules and a bound of two, two modules are attempted and \<open>total_modules\<close> is three.
\<close>

theorem indexTextbookForSearch_counts_counterexample:
  "fst (indexTextbookForSearch example_env
          (JObj [(''textbook_id'', JStr ''osbooks-physics''), (''max_modules'', JNum 2)])
          empty_state)
   = Inr (JObj [(''indexed'', JNum 1),
                (''total_modules'', JNum 3),
                (''textbook_id'', JStr ''osbooks-physics''),
                (''message'', JStr ''Successfully indexed 1 modules for semantic search'')])
   \<and> slice_prefix example_env
         [JObj [(''id'', JStr ''m1''), (''title'', JStr ''Motion'')],
          JObj [(''id'', JStr ''m2''), (''title'', JStr ''Untitled'')],
          JObj [(''id'', JStr ''m3''), (''title'', JStr ''Untitled'')]] (JNum 2)
       = Inr [JObj [(''id'', JStr ''m1''), (''title'', JStr ''Motion'')],
              JObj [(''id'', JStr ''m2''), (''title'', JStr ''Untitled'')]]"
proof -
  let ?p = "JObj [(''textbook_id'', JStr ''osbooks-physics''), (''max_modules'', JNum 2)]"
  let ?ms = "[JObj [(''id'', JStr ''m1''), (''title'', JStr ''Motion'')],
              JObj [(''id'', JStr ''m2''), (''title'', JStr ''Untitled'')],
              JObj [(''id'', JStr ''m3''), (''title'', JStr ''Untitled'')]]"
  let ?at = "[JObj [(''id'', JStr ''m1''), (''title'', JStr ''Motion'')],
              JObj [(''id'', JStr ''m2''), (''title'', JStr ''Untitled'')]]"
  let ?s = "JObj [(''title'', JStr ''Physics''), (''modules'', JArr ?ms),
                  (''metadata'', JObj []), (''from_cache'', JBool False)]"
  let ?st1 = "empty_state\<lparr>TEXTBOOK_CACHE :=
                kv_put (TEXTBOOK_CACHE empty_state) ''structure_osbooks-physics'' ?s 604800\<rparr>"
  have a: "getTextbookStructure example_env (JObj [(''textbook_id'', opt_prop ?p ''textbook_id'')])
             empty_state = (Inr ?s, ?st1)"
    using example_structure by simp
  have b: "\<not> nullish ?p" by simp
  have c: "opt_prop ?s ''modules'' = JArr ?ms" by simp
  have d: "\<forall>m \<in> set ?ms. \<not> nullish m \<and> \<not> isl (js_string (opt_prop m ''id''))" by simp
  have e: "new_Ai example_env = Inr ()" by (simp add: example_env_def)
  have f: "default_to (opt_prop ?p ''max_modules'') (JNum 20) = JNum 2"
    by (simp add: default_to_def)
  have g: "slice_prefix example_env ?ms (JNum 2) = Inr ?at"
    by (simp add: slice_prefix_def)
  have h: "[True, False]
             = index_outcomes example_env (opt_prop ?p ''textbook_id'') ?at ?st1"
    using example_outcomes(2) [OF example_cache_after_structure] by simp
  from index_counts(1) [OF a b c d e f g h] g
  show ?thesis
    by (auto simp: show_number_small)
qed

subsection \<open>A second call is answered from the cache\<close>

lemma roundtrip_fields_filter:
  "roundtrip_fields (filter (\<lambda>kv. fst kv \<noteq> k) kvs)
     = filter (\<lambda>kv. fst kv \<noteq> k) (roundtrip_fields kvs)"
  by (induction kvs) auto

lemma fresh_payload:
  assumes "fresh r"
  shows "payload (cached_answer r) = roundtrip_fields (payload r)"
proof -
  from assms obtain kvs where r: "r = JObj kvs" by (auto simp: fresh_def)
  show ?thesis
    by (simp add: cached_answer_def payload_from_cache_hit)
       (simp add: r payload_def roundtrip_fields_filter)
qed

lemma stored_answer:
  assumes "fresh r"
    and "operation env params st = (Inr r, st1)"
    and "operation env' params st1 = (Inr (from_cache_hit (json_roundtrip r)), st1)"
  shows "answered_twice operation env env' params st r st1"
  using assms fresh_flag [OF assms(1)] fresh_payload [OF assms(1)]
    from_cache_hit_flag [of "json_roundtrip r"]
  by (simp add: answered_twice_def cached_answer_def)

lemma listTextbooks_twice:
  assumes "\<not> nullish params"
    and "list_cache_key (opt_prop params ''subject'') (opt_prop params ''language'') = Inr key"
    and "\<not> truthy (kv_get (TEXTBOOK_CACHE st) key)"
    and "fetch_textbooks env (opt_prop params ''subject'') (opt_prop params ''language'') = Inr ts"
  shows "answered_twice listTextbooks env env' params st (list_result ts)
           (st\<lparr>TEXTBOOK_CACHE := kv_put (TEXTBOOK_CACHE st) key (list_result ts) 86400\<rparr>)"
proof (rule stored_answer)
  let ?st1 = "st\<lparr>TEXTBOOK_CACHE := kv_put (TEXTBOOK_CACHE st) key (list_result ts) 86400\<rparr>"
  have g: "get_prop params ''subject'' = Inr (opt_prop params ''subject'')"
      "get_prop params ''language'' = Inr (opt_prop params ''language'')"
    using assms(1) by (simp_all add: get_prop_opt)
  show "fresh (list_result ts)"
    by (simp add: fresh_def list_result_def)
  show "listTextbooks env params st = (Inr (list_result ts), ?st1)"
    using assms(3) by (simp add: listTextbooks_def g assms(2,4) Let_def list_result_def)
  have "truthy (json_roundtrip (list_result ts))"
    by (simp add: list_result_def)
  then show "listTextbooks env' params ?st1
               = (Inr (from_cache_hit (json_roundtrip (list_result ts))), ?st1)"
    by (simp add: listTextbooks_def g assms(2) Let_def kv_get_put)
qed

lemma getTextbookStructure_twice:
  assumes "\<not> nullish params"
    and "structure_cache_key (opt_prop params ''textbook_id'') = Inr key"
    and "\<not> truthy (kv_get (TEXTBOOK_CACHE st) key)"
    and "fetch_structure env (opt_prop params ''textbook_id'') = Inr r"
  shows "answered_twice getTextbookStructure env env' params st r
           (st\<lparr>TEXTBOOK_CACHE := kv_put (TEXTBOOK_CACHE st) key r 604800\<rparr>)"
proof (rule stored_answer)
  let ?st1 = "st\<lparr>TEXTBOOK_CACHE := kv_put (TEXTBOOK_CACHE st) key r 604800\<rparr>"
  have g: "get_prop params ''textbook_id'' = Inr (opt_prop params ''textbook_id'')"
    using assms(1) by (simp add: get_prop_opt)
  show fr: "fresh r" using assms(4) by (rule fetch_structure_fresh)
  show "getTextbookStructure env params st = (Inr r, ?st1)"
    using assms(3) by (simp add: getTextbookStructure_def g assms(2,4) Let_def)
  show "getTextbookStructure env' params ?st1 = (Inr (from_cache_hit (json_roundtrip r)), ?st1)"
    using fresh_truthy [OF fr]
    by (simp add: getTextbookStructure_def g assms(2) Let_def kv_get_put)
qed

lemma getModuleContent_twice:
  assumes "\<not> nullish params"
    and "module_cache_key (opt_prop params ''textbook_id'') (opt_prop params ''module_id'') = Inr key"
    and "\<not> truthy (kv_get (TEXTBOOK_CACHE st) key)"
    and "fetch_module env (opt_prop params ''textbook_id'') (opt_prop params ''module_id'')
           (default_to (opt_prop params ''include_images'') (JBool True)) = Inr r"
  shows "answered_twice getModuleContent env env' params st r
           (st\<lparr>TEXTBOOK_CACHE := kv_put (TEXTBOOK_CACHE st) key r 604800\<rparr>)"
proof (rule stored_answer)
  let ?st1 = "st\<lparr>TEXTBOOK_CACHE := kv_put (TEXTBOOK_CACHE st) key r 604800\<rparr>"
  have g: "get_prop params ''textbook_id'' = Inr (opt_prop params ''textbook_id'')"
    using assms(1) by (simp add: get_prop_opt)
  show fr: "fresh r" using assms(4) by (rule fetch_module_fresh)
  show "getModuleContent env params st = (Inr r, ?st1)"
    using assms(3) by (simp add: getModuleContent_def g assms(2,4) Let_def)
  show "getModuleContent env' params ?st1 = (Inr (from_cache_hit (json_roundtrip r)), ?st1)"
    using fresh_truthy [OF fr]
    by (simp add: getModuleContent_def g assms(2) Let_def kv_get_put)
qed

lemma generatePracticeProblems_twice:
  assumes "\<not> nullish params"
    and "problems_cache_key (opt_prop params ''textbook_id'') (opt_prop params ''module_id'')
           (default_to (opt_prop params ''difficulty'') (JStr ''medium'')) = Inr key"
    and "\<not> truthy (kv_get (PRACTICE_PROBLEMS st) key)"
    and "getModuleContent env
           (module_params (opt_prop params ''textbook_id'') (opt_prop params ''module_id'')) st
         = (Inr moduleData, stm)"
    and "generate_problems env moduleData (opt_prop params ''module_id'')
           (default_to (opt_prop params ''difficulty'') (JStr ''medium''))
           (default_to (opt_prop params ''count'') (JNum 5)) = Inr r"
  shows "answered_twice generatePracticeProblems env env' params st r
           (stm\<lparr>PRACTICE_PROBLEMS := kv_put (PRACTICE_PROBLEMS stm) key r 2592000\<rparr>)"
proof (rule stored_answer)
  let ?st1 = "stm\<lparr>PRACTICE_PROBLEMS := kv_put (PRACTICE_PROBLEMS stm) key r 2592000\<rparr>"
  have g: "get_prop params ''textbook_id'' = Inr (opt_prop params ''textbook_id'')"
    using assms(1) by (simp add: get_prop_opt)
  show fr: "fresh r" using assms(5) by (rule generate_problems_fresh)
  show "generatePracticeProblems env params st = (Inr r, ?st1)"
    using assms(3) by (simp add: generatePracticeProblems_def g assms(2,4,5) Let_def)
  show "generatePracticeProblems env' params ?st1
          = (Inr (from_cache_hit (json_roundtrip r)), ?st1)"
    using fresh_truthy [OF fr]
    by (simp add: generatePracticeProblems_def g assms(2) Let_def kv_get_put)
qed

lemma generateJupyterNotebook_twice:
  assumes "\<not> nullish params"
    and "notebook_cache_key (opt_prop params ''textbook_id'') (opt_prop params ''module_id'')
           = Inr key"
    and "\<not> truthy (kv_get (NOTEBOOKS st) key)"
    and "getModuleContent env
           (module_params (opt_prop params ''textbook_id'') (opt_prop params ''module_id'')) st
         = (Inr moduleData, stm)"
    and "build_notebook moduleData (opt_prop params ''textbook_id'') (opt_prop params ''module_id'')
           = Inr r"
  shows "answered_twice generateJupyterNotebook env env' params st r
           (stm\<lparr>NOTEBOOKS := kv_put (NOTEBOOKS stm) key r 2592000\<rparr>)"
proof (rule stored_answer)
  let ?st1 = "stm\<lparr>NOTEBOOKS := kv_put (NOTEBOOKS stm) key r 2592000\<rparr>"
  have g: "get_prop params ''textbook_id'' = Inr (opt_prop params ''textbook_id'')"
    using assms(1) by (simp add: get_prop_opt)
  show fr: "fresh r" using assms(5) by (rule build_notebook_fresh)
  show "generateJupyterNotebook env params st = (Inr r, ?st1)"
    using assms(3) by (simp add: generateJupyterNotebook_def g assms(2,4,5) Let_def)
  show "generateJupyterNotebook env' params ?st1
          = (Inr (from_cache_hit (json_roundtrip r)), ?st1)"
    using fresh_truthy [OF fr]
    by (simp add: generateJupyterNotebook_def g assms(2) Let_def kv_get_put)
qed

text \<open>
  Claim C3.  Each of the five cache-backed operations answers twice.  When the arguments
  are an object, the key of the request is built and has no entry, and the computation
  behind the operation succeeds (the fetch of the listing, of the structure, of the
  module; the module content and then the generation of the problems or of the
  notebook), the call returns that computation's result, flagged as fresh, and stores
  it; a second call with the same arguments, whatever the collaborators answer by then,
  returns the stored copy, flagged as cached and with the same payload as serialised,
  and leaves the state as it is.
\<close>

theorem cached_operations_repeat:
  "(\<not> nullish params
      \<and> list_cache_key (opt_prop params ''subject'') (opt_prop params ''language'') = Inr key
      \<and> \<not> truthy (kv_get (TEXTBOOK_CACHE st) key)
      \<and> fetch_textbooks env (opt_prop params ''subject'') (opt_prop params ''language'') = Inr ts
    \<longrightarrow> answered_twice listTextbooks env env' params st (list_result ts)
          (st\<lparr>TEXTBOOK_CACHE := kv_put (TEXTBOOK_CACHE st) key (list_result ts) 86400\<rparr>))
   \<and> (\<not> nullish params
      \<and> structure_cache_key (opt_prop params ''textbook_id'') = Inr key
      \<and> \<not> truthy (kv_get (TEXTBOOK_CACHE st) key)
      \<and> fetch_structure env (opt_prop params ''textbook_id'') = Inr r
    \<longrightarrow> answered_twice getTextbookStructure env env' params st r
          (st\<lparr>TEXTBOOK_CACHE := kv_put (TEXTBOOK_CACHE st) key r 604800\<rparr>))
   \<and> (\<not> nullish params
      \<and> module_cache_key (opt_prop params ''textbook_id'') (opt_prop params ''module_id'')
          = Inr key
      \<and> \<not> truthy (kv_get (TEXTBOOK_CACHE st) key)
      \<and> fetch_module env (opt_prop params ''textbook_id'') (opt_prop params ''module_id'')
           (default_to (opt_prop params ''include_images'') (JBool True)) = Inr r
    \<longrightarrow> answered_twice getModuleContent env env' params st r
          (st\<lparr>TEXTBOOK_CACHE := kv_put (TEXTBOOK_CACHE st) key r 604800\<rparr>))
   \<and> (\<not> nullish params
      \<and> problems_cache_key (opt_prop params ''textbook_id'') (opt_prop params ''module_id'')
           (default_to (opt_prop params ''difficulty'') (JStr ''medium'')) = Inr key
      \<and> \<not> truthy (kv_get (PRACTICE_PROBLEMS st) key)
      \<and> getModuleContent env
           (module_params (opt_prop params ''textbook_id'') (opt_prop params ''module_id'')) st
         = (Inr moduleData, stm)
      \<and> generate_problems env moduleData (opt_prop params ''module_id'')
           (default_to (opt_prop params ''difficulty'') (JStr ''medium''))
           (default_to (opt_prop params ''count'') (JNum 5)) = Inr r
    \<longrightarrow> answered_twice generatePracticeProblems env env' params st r
          (stm\<lparr>PRACTICE_PROBLEMS := kv_put (PRACTICE_PROBLEMS stm) key r 2592000\<rparr>))
   \<and> (\<not> nullish params
      \<and> notebook_cache_key (opt_prop params ''textbook_id'') (opt_prop params ''module_id'')
          = Inr key
      \<and> \<not> truthy (kv_get (NOTEBOOKS st) key)
      \<and> getModuleContent env
           (module_params (opt_prop params ''textbook_id'') (opt_prop params ''module_id'')) st
         = (Inr moduleData, stm)
      \<and> build_notebook moduleData (opt_prop params ''textbook_id'') (opt_prop params ''module_id'')
          = Inr r
    \<longrightarrow> answered_twice generateJupyterNotebook env env' params st r
          (stm\<lparr>NOTEBOOKS := kv_put (NOTEBOOKS stm) key r 2592000\<rparr>))"
  using listTextbooks_twice [of params key st env ts env']
    getTextbookStructure_twice [of params key st env r env']
    getModuleContent_twice [of params key st env r env']
    generatePracticeProblems_twice [of params key st env moduleData stm r env']
    generateJupyterNotebook_twice [of params key st env moduleData stm r env']
  by blast

lemma example_fetch_textbooks:
  "fetch_textbooks example_env JUndefined JUndefined
     = Inr [JObj [(''id'', JStr ''osbooks-physics''), (''name'', JStr ''physics''),
                  (''repo'', JUndefined), (''description'', JUndefined),
                  (''language'', JStr ''en''), (''updated'', JUndefined), (''stars'', JNum 7)],
            JObj [(''id'', JStr ''osbooks-fisica-universitaria-bundle''),
                  (''name'', JStr ''fisica universitaria''),
                  (''repo'', JUndefined), (''description'', JUndefined),
                  (''language'', JStr ''es''), (''updated'', JUndefined),
                  (''stars'', JUndefined)]]"
proof -
  have "\<not> truthy JUndefined \<or> is_string JUndefined" by simp
  note t = textbooks_of_pure [OF example_repos_named this, of JUndefined]
  show ?thesis
    by (simp add: fetch_textbooks_def example_fetch_repos example_response and_then_def t
          example_listing example_physics example_fisica subject_matches_def
          language_matches_def)
qed

lemma example_fetch_module:
  assumes "i = JBool True \<or> i = JBool False"
  shows "fetch_module example_env (JStr ''osbooks-physics'') (JStr ''m1'') i
           = Inr (JObj [(''title'', JStr ''Motion''), (''content'', JStr ''Bodies move.''),
                        (''module_id'', JStr ''m1''), (''raw_xml'', JStr ''module''),
                        (''from_cache'', JBool False)])"
proof -
  have t: "extractTextContent (JObj [(''para'', JArr [JStr ''Bodies move.''])]) = Inr ''Bodies move.''"
    by (simp add: extractTextContent.simps trim_def is_space_def)
  have im: "fetch_images example_env (JStr ''osbooks-physics'') (JStr ''m1'') = Inr []"
    by (simp add: fetch_images_def example_env_def example_fetch_def and_then_def)
  have fe: "fetch example_env
              ''https://raw.githubusercontent.com/openstax/osbooks-physics/main/modules/m1/index.cnxml''
              [] = Inr (ok_response ''module'' JNull)"
    by (simp add: example_env_def example_fetch_def)
  have pa: "parseStringPromise example_env ''module'' = Inr example_module"
    by (simp add: example_env_def)
  show ?thesis
    using assms
    by (auto simp: fetch_module_def fe pa im t and_then_def ok_response_def example_module_def
          or_else_def)
qed

lemma example_module_data:
  "getModuleContent example_env (module_params (JStr ''osbooks-physics'') (JStr ''m1''))
     empty_state
   = (Inr (JObj [(''title'', JStr ''Motion''), (''content'', JStr ''Bodies move.''),
                 (''module_id'', JStr ''m1''), (''raw_xml'', JStr ''module''),
                 (''from_cache'', JBool False)]),
      empty_state\<lparr>TEXTBOOK_CACHE :=
        kv_put (TEXTBOOK_CACHE empty_state) ''module_osbooks-physics_m1''
          (JObj [(''title'', JStr ''Motion''), (''content'', JStr ''Bodies move.''),
                 (''module_id'', JStr ''m1''), (''raw_xml'', JStr ''module''),
                 (''from_cache'', JBool False)]) 604800\<rparr>)"
  by (simp add: getModuleContent_def module_params_def default_to_def module_cache_key_def
        and_then_def example_fetch_module kv_get_def empty_state_def Let_def)

lemma example_problems:
  "generate_problems example_env
     (JObj [(''title'', JStr ''Motion''), (''content'', JStr ''Bodies move.''),
            (''module_id'', JStr ''m1''), (''raw_xml'', JStr ''module''),
            (''from_cache'', JBool False)])
     (JStr ''m1'') (JStr ''medium'') (JNum 5)
   = Inr (JObj [(''module_id'', JStr ''m1''), (''difficulty'', JStr ''medium''),
                (''problems'', JStr ''Problem 1''), (''from_cache'', JBool False)])"
proof -
  have a: "ai_run example_env m i = Inr (JObj [(''data'', JArr [JArr [JNum 1, JNum 2]]),
                                               (''response'', JStr ''Problem 1'')])" for m i
    by (simp add: example_env_def)
  have n: "new_Ai example_env = Inr ()"
    by (simp add: example_env_def)
  have "\<exists>prompt. problems_prompt (JNum 5) (JStr ''medium'')
           (JObj [(''title'', JStr ''Motion''), (''content'', JStr ''Bodies move.''),
                  (''module_id'', JStr ''m1''), (''raw_xml'', JStr ''module''),
                  (''from_cache'', JBool False)]) = Inr prompt"
    by (simp add: problems_prompt_def and_then_def)
  then obtain prompt where p: "problems_prompt (JNum 5) (JStr ''medium'')
           (JObj [(''title'', JStr ''Motion''), (''content'', JStr ''Bodies move.''),
                  (''module_id'', JStr ''m1''), (''raw_xml'', JStr ''module''),
                  (''from_cache'', JBool False)]) = Inr prompt" ..
  show ?thesis
    by (simp add: generate_problems_def n p a and_then_def)
qed

lemma example_notebook:
  "build_notebook
     (JObj [(''title'', JStr ''Motion''), (''content'', JStr ''Bodies move.''),
            (''module_id'', JStr ''m1''), (''raw_xml'', JStr ''module''),
            (''from_cache'', JBool False)])
     (JStr ''osbooks-physics'') (JStr ''m1'')
   = Inr (JObj [(''notebook'',
                 notebook_of (''# Motion'' @ [CHR 0x0A, CHR 0x0A]) (''Module: m1'' @ [CHR 0x0A])
                   (''Bodies move....'' @ [CHR 0x0A])),
                (''module_id'', JStr ''m1''),
                (''textbook_id'', JStr ''osbooks-physics''),
                (''from_cache'', JBool False)])"
  by (simp add: build_notebook_def and_then_def)

theorem cached_operations_repeat_witness:
  "fst (listTextbooks example_env (JObj []) empty_state)
     = Inr (JObj [(''textbooks'',
                   JArr [JObj [(''id'', JStr ''osbooks-physics''), (''name'', JStr ''physics''),
                               (''repo'', JUndefined), (''description'', JUndefined),
                               (''language'', JStr ''en''), (''updated'', JUndefined),
                               (''stars'', JNum 7)],
                         JObj [(''id'', JStr ''osbooks-fisica-universitaria-bundle''),
                               (''name'', JStr ''fisica universitaria''),
                               (''repo'', JUndefined), (''description'', JUndefined),
                               (''language'', JStr ''es''), (''updated'', JUndefined),
                               (''stars'', JUndefined)]]),
                  (''count'', JNum 2), (''from_cache'', JBool False)])
   \<and> fst (listTextbooks example_env (JObj [])
            (snd (listTextbooks example_env (JObj []) empty_state)))
     = Inr (JObj [(''textbooks'',
                   JArr [JObj [(''id'', JStr ''osbooks-physics''), (''name'', JStr ''physics''),
                               (''language'', JStr ''en''), (''stars'', JNum 7)],
                         JObj [(''id'', JStr ''osbooks-fisica-universitaria-bundle''),
                               (''name'', JStr ''fisica universitaria''),
                               (''language'', JStr ''es'')]]),
                  (''count'', JNum 2), (''from_cache'', JBool True)])
   \<and> fst (getTextbookStructure example_env (JObj [(''textbook_id'', JStr ''osbooks-physics'')])
            empty_state)
     = Inr (JObj [(''title'', JStr ''Physics''),
                  (''modules'',
                   JArr [JObj [(''id'', JStr ''m1''), (''title'', JStr ''Motion'')],
                         JObj [(''id'', JStr ''m2''), (''title'', JStr ''Untitled'')],
                         JObj [(''id'', JStr ''m3''), (''title'', JStr ''Untitled'')]]),
                  (''metadata'', JObj []), (''from_cache'', JBool False)])
   \<and> fst (getTextbookStructure example_env (JObj [(''textbook_id'', JStr ''osbooks-physics'')])
            (snd (getTextbookStructure example_env
                    (JObj [(''textbook_id'', JStr ''osbooks-physics'')]) empty_state)))
     = Inr (JObj [(''title'', JStr ''Physics''),
                  (''modules'',
                   JArr [JObj [(''id'', JStr ''m1''), (''title'', JStr ''Motion'')],
                         JObj [(''id'', JStr ''m2''), (''title'', JStr ''Untitled'')],
                         JObj [(''id'', JStr ''m3''), (''title'', JStr ''Untitled'')]]),
                  (''metadata'', JObj []), (''from_cache'', JBool True)])
   \<and> fst (getModuleContent example_env
            (JObj [(''textbook_id'', JStr ''osbooks-physics''), (''module_id'', JStr ''m1'')])
            empty_state)
     = Inr (JObj [(''title'', JStr ''Motion''), (''content'', JStr ''Bodies move.''),
                  (''module_id'', JStr ''m1''), (''raw_xml'', JStr ''module''),
                  (''from_cache'', JBool False)])
   \<and> fst (getModuleContent example_env
            (JObj [(''textbook_id'', JStr ''osbooks-physics''), (''module_id'', JStr ''m1'')])
            (snd (getModuleContent example_env
              (JObj [(''textbook_id'', JStr ''osbooks-physics''), (''module_id'', JStr ''m1'')])
              empty_state)))
     = Inr (JObj [(''title'', JStr ''Motion''), (''content'', JStr ''Bodies move.''),
                  (''module_id'', JStr ''m1''), (''raw_xml'', JStr ''module''),
                  (''from_cache'', JBool True)])
   \<and> fst (generatePracticeProblems example_env
            (JObj [(''textbook_id'', JStr ''osbooks-physics''), (''module_id'', JStr ''m1'')])
            empty_state)
     = Inr (JObj [(''module_id'', JStr ''m1''), (''difficulty'', JStr ''medium''),
                  (''problems'', JStr ''Problem 1''), (''from_cache'', JBool False)])
   \<and> fst (generatePracticeProblems example_env
            (JObj [(''textbook_id'', JStr ''osbooks-physics''), (''module_id'', JStr ''m1'')])
            (snd (generatePracticeProblems example_env
              (JObj [(''textbook_id'', JStr ''osbooks-physics''), (''module_id'', JStr ''m1'')])
              empty_state)))
     = Inr (JObj [(''module_id'', JStr ''m1''), (''difficulty'', JStr ''medium''),
                  (''problems'', JStr ''Problem 1''), (''from_cache'', JBool True)])
   \<and> fst (generateJupyterNotebook example_env
            (JObj [(''textbook_id'', JStr ''osbooks-physics''), (''module_id'', JStr ''m1'')])
            empty_state)
     = Inr (JObj [(''notebook'',
                   notebook_of (''# Motion'' @ [CHR 0x0A, CHR 0x0A]) (''Module: m1'' @ [CHR 0x0A])
                     (''Bodies move....'' @ [CHR 0x0A])),
                  (''module_id'', JStr ''m1''),
                  (''textbook_id'', JStr ''osbooks-physics''),
                  (''from_cache'', JBool False)])
   \<and> fst (generateJupyterNotebook example_env
            (JObj [(''textbook_id'', JStr ''osbooks-physics''), (''module_id'', JStr ''m1'')])
            (snd (generateJupyterNotebook example_env
              (JObj [(''textbook_id'', JStr ''osbooks-physics''), (''module_id'', JStr ''m1'')])
              empty_state)))
     = Inr (JObj [(''notebook'',
                   json_roundtrip
                     (notebook_of (''# Motion'' @ [CHR 0x0A, CHR 0x0A])
                        (''Module: m1'' @ [CHR 0x0A]) (''Bodies move....'' @ [CHR 0x0A]))),
                  (''module_id'', JStr ''m1''),
                  (''textbook_id'', JStr ''osbooks-physics''),
                  (''from_cache'', JBool True)])"
proof -
  let ?p = "JObj [(''textbook_id'', JStr ''osbooks-physics''), (''module_id'', JStr ''m1'')]"
  let ?md = "JObj [(''title'', JStr ''Motion''), (''content'', JStr ''Bodies move.''),
                   (''module_id'', JStr ''m1''), (''raw_xml'', JStr ''module''),
                   (''from_cache'', JBool False)]"
  let ?stm = "empty_state\<lparr>TEXTBOOK_CACHE :=
                kv_put (TEXTBOOK_CACHE empty_state) ''module_osbooks-physics_m1'' ?md 604800\<rparr>"
  have miss: "\<not> truthy (kv_get (TEXTBOOK_CACHE empty_state) k)"
      "\<not> truthy (kv_get (PRACTICE_PROBLEMS empty_state) k)"
      "\<not> truthy (kv_get (NOTEBOOKS empty_state) k)" for k
    by (simp_all add: kv_get_def empty_state_def)
  have k1: "list_cache_key (opt_prop (JObj []) ''subject'') (opt_prop (JObj []) ''language'')
              = Inr ''textbooks_list_all_all''"
    by (simp add: list_cache_key_def or_else_def and_then_def)
  have f1: "fetch_textbooks example_env (opt_prop (JObj []) ''subject'')
              (opt_prop (JObj []) ''language'')
            = Inr [JObj [(''id'', JStr ''osbooks-physics''), (''name'', JStr ''physics''),
                  (''repo'', JUndefined), (''description'', JUndefined),
                  (''language'', JStr ''en''), (''updated'', JUndefined), (''stars'', JNum 7)],
            JObj [(''id'', JStr ''osbooks-fisica-universitaria-bundle''),
                  (''name'', JStr ''fisica universitaria''),
                  (''repo'', JUndefined), (''description'', JUndefined),
                  (''language'', JStr ''es''), (''updated'', JUndefined),
                  (''stars'', JUndefined)]]"
    using example_fetch_textbooks by simp
  have 1: "answered_twice listTextbooks example_env example_env (JObj []) empty_state
             (list_result
                [JObj [(''id'', JStr ''osbooks-physics''), (''name'', JStr ''physics''),
                  (''repo'', JUndefined), (''description'', JUndefined),
                  (''language'', JStr ''en''), (''updated'', JUndefined), (''stars'', JNum 7)],
            JObj [(''id'', JStr ''osbooks-fisica-universitaria-bundle''),
                  (''name'', JStr ''fisica universitaria''),
                  (''repo'', JUndefined), (''description'', JUndefined),
                  (''language'', JStr ''es''), (''updated'', JUndefined),
                  (''stars'', JUndefined)]])
             (empty_state\<lparr>TEXTBOOK_CACHE :=
                kv_put (TEXTBOOK_CACHE empty_state) ''textbooks_list_all_all''
                  (list_result
                [JObj [(''id'', JStr ''osbooks-physics''), (''name'', JStr ''physics''),
                  (''repo'', JUndefined), (''description'', JUndefined),
                  (''language'', JStr ''en''), (''updated'', JUndefined), (''stars'', JNum 7)],
            JObj [(''id'', JStr ''osbooks-fisica-universitaria-bundle''),
                  (''name'', JStr ''fisica universitaria''),
                  (''repo'', JUndefined), (''description'', JUndefined),
                  (''language'', JStr ''es''), (''updated'', JUndefined),
                  (''stars'', JUndefined)]]) 86400\<rparr>)"
    using cached_operations_repeat
      [where params = "JObj []" and key = "''textbooks_list_all_all''" and st = empty_state
         and env = example_env and env' = example_env
         and ts = "[JObj [(''id'', JStr ''osbooks-physics''), (''name'', JStr ''physics''),
                  (''repo'', JUndefined), (''description'', JUndefined),
                  (''language'', JStr ''en''), (''updated'', JUndefined), (''stars'', JNum 7)],
            JObj [(''id'', JStr ''osbooks-fisica-universitaria-bundle''),
                  (''name'', JStr ''fisica universitaria''),
                  (''repo'', JUndefined), (''description'', JUndefined),
                  (''language'', JStr ''es''), (''updated'', JUndefined),
                  (''stars'', JUndefined)]]"]
      k1 f1 miss(1)
    by simp
  have k2: "structure_cache_key (opt_prop (JObj [(''textbook_id'', JStr ''osbooks-physics'')])
                                   ''textbook_id'')
              = Inr ''structure_osbooks-physics''"
    by (simp add: structure_cache_key_def and_then_def)
  have f2: "fetch_structure example_env
              (opt_prop (JObj [(''textbook_id'', JStr ''osbooks-physics'')]) ''textbook_id'')
            = Inr (JObj [(''title'', JStr ''Physics''),
                  (''modules'',
                   JArr [JObj [(''id'', JStr ''m1''), (''title'', JStr ''Motion'')],
                         JObj [(''id'', JStr ''m2''), (''title'', JStr ''Untitled'')],
                         JObj [(''id'', JStr ''m3''), (''title'', JStr ''Untitled'')]]),
                  (''metadata'', JObj []), (''from_cache'', JBool False)])"
    using example_fetch_structure by simp
  have 2: "answered_twice getTextbookStructure example_env example_env
             (JObj [(''textbook_id'', JStr ''osbooks-physics'')]) empty_state
             (JObj [(''title'', JStr ''Physics''),
                  (''modules'',
                   JArr [JObj [(''id'', JStr ''m1''), (''title'', JStr ''Motion'')],
                         JObj [(''id'', JStr ''m2''), (''title'', JStr ''Untitled'')],
                         JObj [(''id'', JStr ''m3''), (''title'', JStr ''Untitled'')]]),
                  (''metadata'', JObj []), (''from_cache'', JBool False)])
             (empty_state\<lparr>TEXTBOOK_CACHE :=
                kv_put (TEXTBOOK_CACHE empty_state) ''structure_osbooks-physics''
                  (JObj [(''title'', JStr ''Physics''),
                  (''modules'',
                   JArr [JObj [(''id'', JStr ''m1''), (''title'', JStr ''Motion'')],
                         JObj [(''id'', JStr ''m2''), (''title'', JStr ''Untitled'')],
                         JObj [(''id'', JStr ''m3''), (''title'', JStr ''Untitled'')]]),
                  (''metadata'', JObj []), (''from_cache'', JBool False)]) 604800\<rparr>)"
    using cached_operations_repeat
      [where params = "JObj [(''textbook_id'', JStr ''osbooks-physics'')]"
         and key = "''structure_osbooks-physics''" and st = empty_state
         and env = example_env and env' = example_env
         and r = "JObj [(''title'', JStr ''Physics''),
                  (''modules'',
                   JArr [JObj [(''id'', JStr ''m1''), (''title'', JStr ''Motion'')],
                         JObj [(''id'', JStr ''m2''), (''title'', JStr ''Untitled'')],
                         JObj [(''id'', JStr ''m3''), (''title'', JStr ''Untitled'')]]),
                  (''metadata'', JObj []), (''from_cache'', JBool False)]"]
      k2 f2 miss(1)
    by simp
  have k3: "module_cache_key (opt_prop ?p ''textbook_id'') (opt_prop ?p ''module_id'')
              = Inr ''module_osbooks-physics_m1''"
    by (simp add: module_cache_key_def and_then_def)
  have f3: "fetch_module example_env (opt_prop ?p ''textbook_id'') (opt_prop ?p ''module_id'')
              (default_to (opt_prop ?p ''include_images'') (JBool True)) = Inr ?md"
    using example_fetch_module [of "JBool True"] by (simp add: default_to_def)
  have 3: "answered_twice getModuleContent example_env example_env ?p empty_state ?md ?stm"
    using cached_operations_repeat
      [where params = ?p and key = "''module_osbooks-physics_m1''" and st = empty_state
         and env = example_env and env' = example_env and r = ?md]
      k3 f3 miss(1)
    by simp
  have md: "getModuleContent example_env
              (module_params (opt_prop ?p ''textbook_id'') (opt_prop ?p ''module_id''))
              empty_state = (Inr ?md, ?stm)"
    using example_module_data by simp
  have k4: "problems_cache_key (opt_prop ?p ''textbook_id'') (opt_prop ?p ''module_id'')
              (default_to (opt_prop ?p ''difficulty'') (JStr ''medium''))
              = Inr ''problems_osbooks-physics_m1_medium''"
    by (simp add: problems_cache_key_def default_to_def and_then_def)
  have f4: "generate_problems example_env ?md (opt_prop ?p ''module_id'')
              (default_to (opt_prop ?p ''difficulty'') (JStr ''medium''))
              (default_to (opt_prop ?p ''count'') (JNum 5))
            = Inr (JObj [(''module_id'', JStr ''m1''), (''difficulty'', JStr ''medium''),
                         (''problems'', JStr ''Problem 1''), (''from_cache'', JBool False)])"
    using example_problems by (simp add: default_to_def)
  have 4: "answered_twice generatePracticeProblems example_env example_env ?p empty_state
             (JObj [(''module_id'', JStr ''m1''), (''difficulty'', JStr ''medium''),
                    (''problems'', JStr ''Problem 1''), (''from_cache'', JBool False)])
             (?stm\<lparr>PRACTICE_PROBLEMS :=
                kv_put (PRACTICE_PROBLEMS ?stm) ''problems_osbooks-physics_m1_medium''
                  (JObj [(''module_id'', JStr ''m1''), (''difficulty'', JStr ''medium''),
                    (''problems'', JStr ''Problem 1''), (''from_cache'', JBool False)])
                  2592000\<rparr>)"
    using cached_operations_repeat
      [where params = ?p and key = "''problems_osbooks-physics_m1_medium''" and st = empty_state
         and env = example_env and env' = example_env and moduleData = ?md and stm = ?stm
         and r = "JObj [(''module_id'', JStr ''m1''), (''difficulty'', JStr ''medium''),
                    (''problems'', JStr ''Problem 1''), (''from_cache'', JBool False)]"]
      k4 md f4 miss(2)
    by simp
  have k5: "notebook_cache_key (opt_prop ?p ''textbook_id'') (opt_prop ?p ''module_id'')
              = Inr ''notebook_osbooks-physics_m1''"
    by (simp add: notebook_cache_key_def and_then_def)
  have f5: "build_notebook ?md (opt_prop ?p ''textbook_id'') (opt_prop ?p ''module_id'')
            = Inr (JObj [(''notebook'',
                 notebook_of (''# Motion'' @ [CHR 0x0A, CHR 0x0A]) (''Module: m1'' @ [CHR 0x0A])
                   (''Bodies move....'' @ [CHR 0x0A])),
                (''module_id'', JStr ''m1''),
                (''textbook_id'', JStr ''osbooks-physics''),
                (''from_cache'', JBool False)])"
    using example_notebook by simp
  have 5: "answered_twice generateJupyterNotebook example_env example_env ?p empty_state
             (JObj [(''notebook'',
                 notebook_of (''# Motion'' @ [CHR 0x0A, CHR 0x0A]) (''Module: m1'' @ [CHR 0x0A])
                   (''Bodies move....'' @ [CHR 0x0A])),
                (''module_id'', JStr ''m1''),
                (''textbook_id'', JStr ''osbooks-physics''),
                (''from_cache'', JBool False)])
             (?stm\<lparr>NOTEBOOKS :=
                kv_put (NOTEBOOKS ?stm) ''notebook_osbooks-physics_m1''
                  (JObj [(''notebook'',
                 notebook_of (''# Motion'' @ [CHR 0x0A, CHR 0x0A]) (''Module: m1'' @ [CHR 0x0A])
                   (''Bodies move....'' @ [CHR 0x0A])),
                (''module_id'', JStr ''m1''),
                (''textbook_id'', JStr ''osbooks-physics''),
                (''from_cache'', JBool False)])
                  2592000\<rparr>)"
    using cached_operations_repeat
      [where params = ?p and key = "''notebook_osbooks-physics_m1''" and st = empty_state
         and env = example_env and env' = example_env and moduleData = ?md and stm = ?stm
         and r = "JObj [(''notebook'',
                 notebook_of (''# Motion'' @ [CHR 0x0A, CHR 0x0A]) (''Module: m1'' @ [CHR 0x0A])
                   (''Bodies move....'' @ [CHR 0x0A])),
                (''module_id'', JStr ''m1''),
                (''textbook_id'', JStr ''osbooks-physics''),
                (''from_cache'', JBool False)]"]
      k5 md f5 miss(3)
    by simp
  have nb: "notebook_of a b c \<noteq> JUndefined" for a b c
    by (simp add: notebook_of_def)
  from 1 2 3 4 5 show ?thesis
    by (simp add: answered_twice_def cached_answer_def from_cache_hit_def list_result_def nb)
qed

end
